theory Spec2Isabelle
  imports Main "HOL-Library.AList"
begin

section \<open>Python values and string primitives\<close>

text \<open>
  The connector is Python 3 code (\<open>_handle_py_ver_compat_for_input_str\<close> is the identity
  there).  Strings are \<open>string\<close>; a \<open>char\<close> stands for one code point below 256.
  Exceptions the modelled paths can raise are values of \<open>py_error\<close>; a function that can
  raise returns \<open>py_error + 'a\<close>.
\<close>

datatype py_error = IndexError | ValueError | KeyError | TypeError | AttributeError

text \<open>Parsed JSON, as \<open>response.json()\<close> yields it; a dict is an association list read
  with \<open>map_of\<close>.\<close>

datatype json = JNull | JBool bool | JNum int | JStr string
  | JArr "json list" | JObj "(string \<times> json) list"

text \<open>\<open>str.isspace\<close> on code points below 256.\<close>

definition is_space :: "char \<Rightarrow> bool" where
  "is_space c = (c \<in> set [CHR 0x09, CHR 0x0A, CHR 0x0B, CHR 0x0C, CHR 0x0D,
      CHR 0x1C, CHR 0x1D, CHR 0x1E, CHR 0x1F, CHR 0x20, CHR 0x85, CHR 0xA0])"

text \<open>\<open>s.strip()\<close>\<close>

definition py_strip :: "string \<Rightarrow> string" where
  "py_strip s = rev (dropWhile is_space (rev (dropWhile is_space s)))"

text \<open>\<open>s.split()\<close>: the maximal runs of non-whitespace characters.  \<open>cur\<close> is the run
  being read.\<close>

fun split_ws :: "string \<Rightarrow> string \<Rightarrow> string list" where
  "split_ws cur [] = (if cur = [] then [] else [cur])"
| "split_ws cur (c # cs) =
     (if is_space c then (if cur = [] then split_ws [] cs else cur # split_ws [] cs)
      else split_ws (cur @ [c]) cs)"

definition py_split :: "string \<Rightarrow> string list" where
  "py_split s = split_ws [] s"

text \<open>\<open>s.split(sep)\<close> for a one-character separator: every separator ends a field, so
  the result is never empty.\<close>

fun split_sep :: "char \<Rightarrow> string \<Rightarrow> string \<Rightarrow> string list" where
  "split_sep sep cur [] = [cur]"
| "split_sep sep cur (c # cs) =
     (if c = sep then cur # split_sep sep [] cs else split_sep sep (cur @ [c]) cs)"

definition py_split_on :: "char \<Rightarrow> string \<Rightarrow> string list" where
  "py_split_on sep s = split_sep sep [] s"

text \<open>\<open>sep.join(xs)\<close>\<close>

fun py_join :: "string \<Rightarrow> string list \<Rightarrow> string" where
  "py_join sep [] = []"
| "py_join sep [x] = x"
| "py_join sep (x # y # ys) = x @ sep @ py_join sep (y # ys)"

text \<open>\<open>s.lower()\<close>: the letters A-Z and, in Latin-1, the capitals 0xC0-0xDE other than
  the multiplication sign 0xD7 move up by 32.\<close>

definition upper_chars :: string where
  "upper_chars = ''ABCDEFGHIJKLMNOPQRSTUVWXYZ'' @
     [CHR 0xC0, CHR 0xC1, CHR 0xC2, CHR 0xC3, CHR 0xC4, CHR 0xC5, CHR 0xC6, CHR 0xC7,
      CHR 0xC8, CHR 0xC9, CHR 0xCA, CHR 0xCB, CHR 0xCC, CHR 0xCD, CHR 0xCE, CHR 0xCF,
      CHR 0xD0, CHR 0xD1, CHR 0xD2, CHR 0xD3, CHR 0xD4, CHR 0xD5, CHR 0xD6,
      CHR 0xD8, CHR 0xD9, CHR 0xDA, CHR 0xDB, CHR 0xDC, CHR 0xDD, CHR 0xDE]"

definition lower_chars :: string where
  "lower_chars = ''abcdefghijklmnopqrstuvwxyz'' @
     [CHR 0xE0, CHR 0xE1, CHR 0xE2, CHR 0xE3, CHR 0xE4, CHR 0xE5, CHR 0xE6, CHR 0xE7,
      CHR 0xE8, CHR 0xE9, CHR 0xEA, CHR 0xEB, CHR 0xEC, CHR 0xED, CHR 0xEE, CHR 0xEF,
      CHR 0xF0, CHR 0xF1, CHR 0xF2, CHR 0xF3, CHR 0xF4, CHR 0xF5, CHR 0xF6,
      CHR 0xF8, CHR 0xF9, CHR 0xFA, CHR 0xFB, CHR 0xFC, CHR 0xFD, CHR 0xFE]"

definition py_lower :: "string \<Rightarrow> string" where
  "py_lower s =
     map (\<lambda>c. case map_of (zip upper_chars lower_chars) c of None \<Rightarrow> c | Some d \<Rightarrow> d) s"

text \<open>\<open>sub in s\<close> for strings.\<close>

fun py_in_str :: "string \<Rightarrow> string \<Rightarrow> bool" where
  "py_in_str sub [] = (sub = [])"
| "py_in_str sub (c # cs) = (take (length sub) (c # cs) = sub \<or> py_in_str sub cs)"

text \<open>\<open>s.replace(c, rep)\<close> for a one-character pattern.\<close>

definition py_replace :: "char \<Rightarrow> string \<Rightarrow> string \<Rightarrow> string" where
  "py_replace c rep s = concat (map (\<lambda>x. if x = c then rep else [x]) s)"

text \<open>Decimal digits.\<close>

definition is_digit :: "char \<Rightarrow> bool" where
  "is_digit c = (c \<in> set ''0123456789'')"

definition digit_val :: "char \<Rightarrow> nat" where
  "digit_val c = length (takeWhile (\<lambda>d. d \<noteq> c) ''0123456789'')"

text \<open>\<open>str(i)\<close> for an integer.\<close>

fun str_nat :: "nat \<Rightarrow> string" where
  "str_nat n = (if n < 10 then [''0123456789'' ! n]
                else str_nat (n div 10) @ [''0123456789'' ! (n mod 10)])"

declare str_nat.simps [simp del]

definition py_str :: "int \<Rightarrow> string" where
  "py_str i = (if i < 0 then CHR ''-'' # str_nat (nat (- i)) else str_nat (nat i))"

text \<open>\<open>int(s)\<close> for a string: surrounding whitespace is dropped, one sign is allowed, and
  the rest is decimal digits, single underscores allowed between two digits.  Anything
  else raises \<open>ValueError\<close>.\<close>

fun int_literal :: "string \<Rightarrow> bool" where
  "int_literal [] = False"
| "int_literal [c] = is_digit c"
| "int_literal (c # d # cs) =
     (is_digit c \<and> (if d = CHR ''_'' then cs \<noteq> [] \<and> int_literal cs else int_literal (d # cs)))"

definition dec_value :: "string \<Rightarrow> nat" where
  "dec_value s = foldl (\<lambda>a c. if c = CHR ''_'' then a else 10 * a + digit_val c) 0 s"

definition py_int :: "string \<Rightarrow> py_error + int" where
  "py_int s =
     (case py_strip s of
        [] \<Rightarrow> Inl ValueError
      | c # r \<Rightarrow>
          if c = CHR ''-'' then (if int_literal r then Inr (- int (dec_value r)) else Inl ValueError)
          else if c = CHR ''+'' then (if int_literal r then Inr (int (dec_value r)) else Inl ValueError)
          else if int_literal (c # r) then Inr (int (dec_value (c # r))) else Inl ValueError)"

text \<open>\<open>s.zfill(width)\<close>: zeros go after a leading sign.\<close>

definition zfill :: "nat \<Rightarrow> string \<Rightarrow> string" where
  "zfill width s =
     (if width \<le> length s then s
      else case s of
        [] \<Rightarrow> replicate width (CHR ''0'')
      | c # r \<Rightarrow>
          if c = CHR ''+'' \<or> c = CHR ''-'' then c # replicate (width - length s) (CHR ''0'') @ r
          else replicate (width - length s) (CHR ''0'') @ s)"

text \<open>\<open>xs[i]\<close> on a string or list: a negative index counts from the end, and an index
  out of range raises \<open>IndexError\<close>.\<close>

definition py_getitem :: "'a list \<Rightarrow> int \<Rightarrow> py_error + 'a" where
  "py_getitem xs i =
     (if 0 \<le> i \<and> i < int (length xs) then Inr (xs ! nat i)
      else if i < 0 \<and> - int (length xs) \<le> i then Inr (xs ! nat (int (length xs) + i))
      else Inl IndexError)"

section \<open>Key obfuscation\<close>

text \<open>
  The two loops of \<open>_obfuscate_api_key\<close>,
  \<^verbatim>\<open>for i in range(0, len(n), 1): key += api_key[int(n[i]) + off]\<close>
  with \<open>off = 0\<close> over \<open>n\<close> and \<open>off = 2\<close> over \<open>r\<close>.
\<close>

function select_chars :: "string \<Rightarrow> string \<Rightarrow> int \<Rightarrow> nat \<Rightarrow> string \<Rightarrow> py_error + string" where
  "select_chars api_key ds off i key =
     (if i < length ds then
        (case py_int [ds ! i] of
           Inl e \<Rightarrow> Inl e
         | Inr d \<Rightarrow>
             (case py_getitem api_key (d + off) of
                Inl e \<Rightarrow> Inl e
              | Inr c \<Rightarrow> select_chars api_key ds off (i + 1) (key @ [c])))
      else Inr key)"
  by pat_completeness auto
termination
  by (relation "measure (\<lambda>(api_key, ds, off, i, key). length ds - i)") auto

declare select_chars.simps [simp del]

text \<open>
  \<open>_obfuscate_api_key\<close>.  The clock enters as \<open>ms = int(time.time() * 1000)\<close>, the whole
  milliseconds since the epoch; \<open>now[-6:]\<close> is the last six characters of \<open>now\<close>, or all of
  it when it is shorter, and \<open>>> 1\<close> is \<open>drop_bit 1\<close>.
\<close>

definition obfuscate_api_key :: "string \<Rightarrow> int \<Rightarrow> py_error + (string \<times> string)" where
  "obfuscate_api_key api_key ms =
     (let now = py_str ms;
          n = drop (length now - 6) now
      in case py_int n of
           Inl e \<Rightarrow> Inl e
         | Inr v \<Rightarrow>
             (let r = zfill 6 (py_str (drop_bit 1 v))
              in case select_chars api_key n 0 0 [] of
                   Inl e \<Rightarrow> Inl e
                 | Inr key1 \<Rightarrow>
                     (case select_chars api_key r 2 0 key1 of
                        Inl e \<Rightarrow> Inl e
                      | Inr key \<Rightarrow> Inr (now, key))))"

text \<open>
  The key as the specification words it: \<open>n\<close> is the six low-order decimal digits of the
  timestamp, \<open>r\<close> is \<open>int(n) >> 1\<close> zero-padded to six digits, and the key is
  \<open>api_key[n[i]]\<close> for \<open>i = 0..5\<close> followed by \<open>api_key[r[j] + 2]\<close> for \<open>j = 0..5\<close>.
\<close>

definition spec_obfuscated_key :: "string \<Rightarrow> int \<Rightarrow> string" where
  "spec_obfuscated_key api_key ms =
     (let n = zfill 6 (py_str (ms mod 1000000));
          r = zfill 6 (py_str ((ms mod 1000000) div 2))
      in map (\<lambda>i. api_key ! digit_val (n ! i)) [0..<6] @
         map (\<lambda>j. api_key ! (digit_val (r ! j) + 2)) [0..<6])"

section \<open>The gateway, the connector and the action result\<close>

text \<open>
  Every call of \<open>_make_rest_call\<close> in the modelled code names one of these four functions
  of \<open>requests\<close>, so its \<open>Invalid method\<close> branch is not reachable from them.
\<close>

datatype http_method = GET | POST | PUT | DELETE

text \<open>
  A request as \<open>_make_rest_call\<close> sends it.  The one endpoint that is built with
  \<open>format\<close>, \<open>'/api/v1/urlCategories/{}'.format(self._category['id'])\<close>, keeps the formatted
  value beside the path in \<open>rq_url_arg\<close>.
\<close>

record request =
  rq_method :: http_method
  rq_url :: string
  rq_url_arg :: "json option"
  rq_headers :: "(string \<times> string) list"
  rq_params :: "(string \<times> string) list"
  rq_data :: "json option"

text \<open>
  What the connector reads of a response: \<open>r.status_code\<close>,
  \<open>r.headers.get('Content-Type')\<close>, \<open>r.text\<close>, \<open>r.json()\<close> (\<open>Inl\<close> when it raises, holding the
  text \<open>_get_error_message_from_exception\<close> renders for the exception) and the text
  \<open>BeautifulSoup(r.text, "html.parser").text\<close> (\<open>None\<close> when that raises).
\<close>

record response =
  status_code :: int
  content_type :: "string option"
  body_text :: string
  body_json :: "string + json"
  soup_text :: "string option"

text \<open>The outcome of one HTTP call: \<open>requests\<close> raises (the rendered error text is kept), or a
  response arrives.\<close>

datatype reply = Transport_failure string | Reply response

text \<open>
  The first component of a \<open>RetVal\<close>.  It is \<open>phantom.APP_SUCCESS\<close> (\<open>True\<close>) or
  \<open>phantom.APP_ERROR\<close> (\<open>False\<close>), except that \<open>_make_rest_call_helper\<close> has a return that
  puts the Retry-After string there.  \<open>phantom.is_fail\<close> compares with \<open>APP_ERROR\<close>.
\<close>

datatype ret_val = Status bool | Retry_after string

abbreviation APP_SUCCESS :: ret_val where "APP_SUCCESS \<equiv> Status True"

abbreviation APP_ERROR :: ret_val where "APP_ERROR \<equiv> Status False"

definition is_fail :: "ret_val \<Rightarrow> bool" where
  "is_fail rv = (rv = APP_ERROR)"

text \<open>
  The state one action runs in.  \<open>server\<close> is the gateway: its reply to the latest request,
  given all requests sent so far.  \<open>calls\<close> logs the requests and \<open>slept\<close> the arguments of
  \<open>time.sleep\<close>.  The next fields are the connector's (\<open>self._base_url\<close>, \<open>self._headers\<close>,
  \<open>self._response\<close>, \<open>self._allowlist\<close>, \<open>self._category\<close>, \<open>get_action_identifier()\<close>), and the
  \<open>ar_\<close> fields are the action's \<open>ActionResult\<close>: status, message, summary and data.
  Debug and progress output is not modelled.
\<close>

record connector =
  server :: "request list \<Rightarrow> reply"
  calls :: "request list"
  slept :: "int list"
  base_url :: string
  session_headers :: "(string \<times> string) list"
  last_response :: "response option"
  self_allowlist :: json
  self_category :: "json option"
  action_id :: string
  ar_status :: bool
  ar_message :: json
  ar_summary :: "string \<rightharpoonup> string list"
  ar_data :: "json list"

text \<open>\<open>action_result.set_status(status, message)\<close> stores both and returns the status.\<close>

definition set_status :: "bool \<Rightarrow> json \<Rightarrow> connector \<Rightarrow> ret_val \<times> connector" where
  "set_status ok msg s = (Status ok, s\<lparr>ar_status := ok, ar_message := msg\<rparr>)"

text \<open>\<open>RetVal(action_result.set_status(phantom.APP_ERROR, message), None)\<close>\<close>

definition fail_with :: "json \<Rightarrow> connector \<Rightarrow> (ret_val \<times> json option) \<times> connector" where
  "fail_with msg s = (case set_status False msg s of (rv, s') \<Rightarrow> ((rv, None), s'))"

section \<open>Response classifier\<close>

definition escape_braces :: "string \<Rightarrow> string" where
  "escape_braces m = py_replace (CHR ''}'') ''}}'' (py_replace (CHR ''{'') ''{{'' m)"

definition process_empty_reponse ::
    "response \<Rightarrow> connector \<Rightarrow> (ret_val \<times> json option) \<times> connector" where
  "process_empty_reponse r s =
     (if status_code r = 200 \<or> status_code r = 204 then ((APP_SUCCESS, Some (JObj [])), s)
      else fail_with (JStr ''Empty response and no information in the header'') s)"

definition html_hint :: string where
  "html_hint = ''Please check the asset configuration parameters (the base_url should not end with /api/v1 e.g. https://admin.zscaler_instance.net).''"

text \<open>The \<open>error_text\<close> of \<open>_process_html_response\<close>: the stripped non-blank lines of the
  tag-free text, or the fallback when parsing raises.\<close>

definition html_error_text :: "response \<Rightarrow> string" where
  "html_error_text r =
     (case soup_text r of
        None \<Rightarrow> ''Cannot parse error details''
      | Some t \<Rightarrow>
          py_join [CHR 0x0A] (filter (\<lambda>x. x \<noteq> []) (map py_strip (py_split_on (CHR 0x0A) t))))"

definition process_html_response ::
    "response \<Rightarrow> connector \<Rightarrow> (ret_val \<times> json option) \<times> connector" where
  "process_html_response r s =
     (let error_text = html_error_text r;
          message =
            (if length error_text \<le> 500
             then html_hint @ ''Status Code: '' @ py_str (status_code r) @
                  ''. Data from server:'' @ [CHR 0x0A] @ error_text @ [CHR 0x0A]
             else html_hint)
      in fail_with (JStr (escape_braces message)) s)"

definition process_json_response ::
    "response \<Rightarrow> connector \<Rightarrow> (ret_val \<times> json option) \<times> connector" where
  "process_json_response r s =
     (case body_json r of
        Inl err \<Rightarrow> fail_with (JStr (''Unable to parse JSON response. Error: '' @ err)) s
      | Inr resp_json \<Rightarrow>
          if 200 \<le> status_code r \<and> status_code r < 399 then ((APP_SUCCESS, Some resp_json), s)
          else
            (let synthesized = JStr (''Error from server. Status Code: '' @ py_str (status_code r) @
                   '' Data from server: '' @ escape_braces (body_text r))
             in fail_with
                  (case resp_json of
                     JObj kvs \<Rightarrow> (case map_of kvs ''message'' of Some m \<Rightarrow> m | None \<Rightarrow> synthesized)
                   | _ \<Rightarrow> synthesized) s))"

definition process_response ::
    "response \<Rightarrow> connector \<Rightarrow> (ret_val \<times> json option) \<times> connector" where
  "process_response r s =
     (let ct = (case content_type r of None \<Rightarrow> [] | Some c \<Rightarrow> c)
      in if py_in_str ''json'' ct then process_json_response r s
         else if py_in_str ''html'' ct then process_html_response r s
         else if body_text r = [] then process_empty_reponse r s
         else fail_with (JStr (''Can'' @ [CHR 0x27] @ ''t process response from server. Status Code: '' @
                  py_str (status_code r) @ '' Data from server: '' @ escape_braces (body_text r))) s)"

section \<open>Resilient request executor\<close>

text \<open>The arguments of \<open>_make_rest_call\<close>; \<open>headers\<close> is never passed, so the request carries
  \<open>self._headers\<close>.\<close>

record rest_args =
  ra_endpoint :: string
  ra_arg :: "json option"
  ra_params :: "(string \<times> string) list"
  ra_data :: "json option"
  ra_method :: http_method

text \<open>The request \<open>_make_rest_call\<close> sends: the URL is \<open>self._base_url\<close> followed by the
  endpoint.\<close>

definition build_request :: "rest_args \<Rightarrow> connector \<Rightarrow> request" where
  "build_request a s =
     \<lparr>rq_method = ra_method a, rq_url = base_url s @ ra_endpoint a, rq_url_arg = ra_arg a,
      rq_headers = session_headers s, rq_params = ra_params a, rq_data = ra_data a\<rparr>"

text \<open>The gateway's answer to the next request of the connector.\<close>

definition next_reply :: "rest_args \<Rightarrow> connector \<Rightarrow> reply" where
  "next_reply a s = server s (calls s @ [build_request a s])"

text \<open>\<open>_make_rest_call\<close>: \<open>self._response\<close> is set only when a response arrives.\<close>

definition make_rest_call ::
    "rest_args \<Rightarrow> connector \<Rightarrow> (ret_val \<times> json option) \<times> connector" where
  "make_rest_call a s =
     (let s1 = s\<lparr>calls := calls s @ [build_request a s]\<rparr>
      in case next_reply a s of
           Transport_failure err \<Rightarrow>
             fail_with (JStr (''Error Connecting to Zscaler server. '' @ err)) s1
         | Reply r \<Rightarrow> process_response r (s1\<lparr>last_response := Some r\<rparr>))"

definition parse_retry_time :: "string \<Rightarrow> py_error + int option" where
  "parse_retry_time retry_time =
     (let parts = py_split retry_time
      in if length parts < 2 then Inl IndexError
         else if py_lower (parts ! 1) = ''seconds''
           then (case py_int (parts ! 0) of Inl e \<Rightarrow> Inl e | Inr v \<Rightarrow> Inr (Some v))
         else if py_lower (parts ! 1) = ''minutes''
           then (case py_int (parts ! 0) of Inl e \<Rightarrow> Inl e | Inr v \<Rightarrow> Inr (Some (v * 60)))
         else Inr None)"

text \<open>
  \<open>_make_rest_call_helper\<close>.  It calls itself after a 409 and after a 429 with a usable
  Retry-After, with no bound, so it is a partial function: \<open>None\<close> is the run that never
  returns.  A result \<open>Inl e\<close> is an exception that leaves the function: \<open>response.json()\<close>
  raising (\<open>ValueError\<close>), a body that is no dict (\<open>TypeError\<close>), a Retry-After that is no
  string (\<open>AttributeError\<close>), and whatever \<open>_parse_retry_time\<close> raises outside the \<open>try\<close>.
\<close>

partial_function (option) make_rest_call_helper ::
    "rest_args \<Rightarrow> connector \<Rightarrow> ((py_error + ret_val \<times> json option) \<times> connector) option" where
  "make_rest_call_helper a s =
     (case make_rest_call a s of
        ((ret_val, response), s1) \<Rightarrow>
          if is_fail ret_val then
            (case last_response s1 of
               None \<Rightarrow> Some (Inr (ret_val, response), s1)
             | Some r \<Rightarrow>
                 if status_code r = 409 then
                   make_rest_call_helper a (s1\<lparr>slept := slept s1 @ [1]\<rparr>)
                 else if status_code r = 429 then
                   (case body_json r of
                      Inl err \<Rightarrow> Some (Inl ValueError, s1)
                    | Inr (JObj kvs) \<Rightarrow>
                        (case map_of kvs ''Retry-After'' of
                           None \<Rightarrow> Some (Inr (ret_val, response), s1)
                         | Some (JStr retry_time) \<Rightarrow>
                             (case parse_retry_time retry_time of
                                Inl e \<Rightarrow> Some (Inl e, s1)
                              | Inr None \<Rightarrow> Some (Inr (Retry_after retry_time, response), s1)
                              | Inr (Some seconds_to_wait) \<Rightarrow>
                                  if seconds_to_wait < 0
                                  then Some (Inr (Retry_after retry_time, response), s1)
                                  else make_rest_call_helper a
                                         (s1\<lparr>slept := slept s1 @ [seconds_to_wait]\<rparr>))
                         | Some _ \<Rightarrow> Some (Inl AttributeError, s1))
                    | Inr _ \<Rightarrow> Some (Inl TypeError, s1))
                 else Some (Inr (ret_val, response), s1))
          else Some (Inr (ret_val, response), s1))"

section \<open>Python operations on parsed JSON\<close>

text \<open>\<open>d.get(key, default)\<close>: only a dict has \<open>get\<close>.\<close>

definition py_get :: "json \<Rightarrow> string \<Rightarrow> json \<Rightarrow> py_error + json" where
  "py_get d key dflt =
     (case d of
        JObj kvs \<Rightarrow> Inr (case map_of kvs key of None \<Rightarrow> dflt | Some v \<Rightarrow> v)
      | _ \<Rightarrow> Inl AttributeError)"

text \<open>\<open>d[key]\<close> with a string key: \<open>KeyError\<close> on a dict without the key, \<open>TypeError\<close> on
  anything that is not a dict.\<close>

definition py_subscript :: "json \<Rightarrow> string \<Rightarrow> py_error + json" where
  "py_subscript d key =
     (case d of
        JObj kvs \<Rightarrow> (case map_of kvs key of None \<Rightarrow> Inl KeyError | Some v \<Rightarrow> Inr v)
      | _ \<Rightarrow> Inl TypeError)"

text \<open>\<open>d[key] = v\<close> on a dict.\<close>

definition py_setitem :: "json \<Rightarrow> string \<Rightarrow> json \<Rightarrow> json" where
  "py_setitem d key v = (case d of JObj kvs \<Rightarrow> JObj (AList.update key v kvs) | _ \<Rightarrow> d)"

text \<open>What a \<open>for\<close> loop, \<open>enumerate\<close>, \<open>set(...)\<close> or \<open>extend\<close> reads from a value: the items
  of a list, the characters of a string, the keys of a dict; nothing else is iterable.\<close>

definition py_iter :: "json \<Rightarrow> py_error + json list" where
  "py_iter v =
     (case v of
        JArr xs \<Rightarrow> Inr xs
      | JStr t \<Rightarrow> Inr (map (\<lambda>c. JStr [c]) t)
      | JObj kvs \<Rightarrow> Inr (map JStr (remdups (map fst kvs)))
      | _ \<Rightarrow> Inl TypeError)"

fun hashable :: "json \<Rightarrow> bool" where
  "hashable (JArr xs) = False"
| "hashable (JObj kvs) = False"
| "hashable v = True"

text \<open>
  Python compares \<open>True\<close> with \<open>1\<close> and \<open>False\<close> with \<open>0\<close> as equal, with equal hashes, so
  a set holds one of two such values: the one inserted first.  \<open>py_key\<close> maps equal values
  to one value, and \<open>py_distinct\<close> keeps the first of the values with the same key.
\<close>

fun py_key :: "json \<Rightarrow> json" where
  "py_key (JBool b) = JNum (if b then 1 else 0)"
| "py_key v = v"

function py_distinct :: "json list \<Rightarrow> json list" where
  "py_distinct [] = []"
| "py_distinct (x # xs) = x # py_distinct (filter (\<lambda>y. py_key y \<noteq> py_key x) xs)"
  by pat_completeness auto
termination
  by (relation "measure length") (auto simp: less_Suc_eq_le)

text \<open>
  \<open>set(v)\<close>, kept as a list of distinct values.  Python fixes no order for the elements of
  a set, and \<open>list(set(...))\<close> returns them in whatever order the set holds them; the model
  takes the order of first occurrence.  The theorems about these lists speak of their
  elements, not of their order.
\<close>

definition py_set :: "json \<Rightarrow> py_error + json list" where
  "py_set v =
     (case py_iter v of
        Inl e \<Rightarrow> Inl e
      | Inr xs \<Rightarrow> if list_all hashable xs then Inr (py_distinct xs) else Inl TypeError)"

text \<open>The strings among a list of JSON values.\<close>

fun json_strs :: "json list \<Rightarrow> string list" where
  "json_strs [] = []"
| "json_strs (JStr t # xs) = t # json_strs xs"
| "json_strs (v # xs) = json_strs xs"

text \<open>\<open>e in v\<close> for a string \<open>e\<close>.\<close>

definition py_contains :: "json \<Rightarrow> string \<Rightarrow> py_error + bool" where
  "py_contains v e =
     (case v of
        JArr xs \<Rightarrow> Inr (JStr e \<in> set xs)
      | JStr t \<Rightarrow> Inr (py_in_str e t)
      | JObj kvs \<Rightarrow> Inr (e \<in> set (map fst kvs))
      | _ \<Rightarrow> Inl TypeError)"

section \<open>The calls of the list operations\<close>

text \<open>The arguments each list operation passes to \<open>_make_rest_call_helper\<close>; an argument
  the source leaves out is \<open>None\<close> or empty here.\<close>

definition get_advanced :: rest_args where
  "get_advanced =
     \<lparr>ra_endpoint = ''/api/v1/security/advanced'', ra_arg = None, ra_params = [],
      ra_data = None, ra_method = GET\<rparr>"

definition post_blacklist :: "string \<Rightarrow> string list \<Rightarrow> rest_args" where
  "post_blacklist action filtered_endpoints =
     \<lparr>ra_endpoint = ''/api/v1/security/advanced/blacklistUrls'', ra_arg = None,
      ra_params = [(''action'', action)],
      ra_data = Some (JObj [(''blacklistUrls'', JArr (map JStr filtered_endpoints))]),
      ra_method = POST\<rparr>"

definition get_security :: rest_args where
  "get_security =
     \<lparr>ra_endpoint = ''/api/v1/security'', ra_arg = None, ra_params = [],
      ra_data = None, ra_method = GET\<rparr>"

definition put_security :: "json list \<Rightarrow> rest_args" where
  "put_security to_add_endpoints =
     \<lparr>ra_endpoint = ''/api/v1/security'', ra_arg = None, ra_params = [],
      ra_data = Some (JObj [(''whitelistUrls'', JArr to_add_endpoints)]), ra_method = PUT\<rparr>"

definition get_categories :: rest_args where
  "get_categories =
     \<lparr>ra_endpoint = ''/api/v1/urlCategories'', ra_arg = None, ra_params = [],
      ra_data = None, ra_method = GET\<rparr>"

definition put_category :: "json \<Rightarrow> json \<Rightarrow> rest_args" where
  "put_category ident data =
     \<lparr>ra_endpoint = ''/api/v1/urlCategories/{}'', ra_arg = Some ident, ra_params = [],
      ra_data = Some data, ra_method = PUT\<rparr>"

definition post_lookup :: "string list \<Rightarrow> rest_args" where
  "post_lookup endpoints =
     \<lparr>ra_endpoint = ''/api/v1/urlLookup'', ra_arg = None, ra_params = [],
      ra_data = Some (JArr (map JStr endpoints)), ra_method = POST\<rparr>"

definition get_advanced_for :: "string list \<Rightarrow> rest_args" where
  "get_advanced_for endpoints =
     \<lparr>ra_endpoint = ''/api/v1/security/advanced'', ra_arg = None, ra_params = [],
      ra_data = Some (JArr (map JStr endpoints)), ra_method = GET\<rparr>"

text \<open>The value of a key of a dict, \<open>None\<close> when the key is missing or the value is no
  dict.\<close>

definition json_field :: "json \<Rightarrow> string \<Rightarrow> json option" where
  "json_field d key = (case d of JObj kvs \<Rightarrow> map_of kvs key | _ \<Rightarrow> None)"

section \<open>List mutation engine\<close>

text \<open>
  \<open>_filter_endpoints\<close>.  \<open>to_add\<close> is the requested list, \<open>existing\<close> the list the gateway
  returned.  Only a string of \<open>existing\<close> can equal a requested endpoint, so both
  differences are lists of strings.
\<close>

definition filter_endpoints ::
    "string list \<Rightarrow> json \<Rightarrow> string \<Rightarrow> string \<Rightarrow> connector \<Rightarrow>
     (py_error + ret_val \<times> string list option) \<times> connector" where
  "filter_endpoints to_add existing action name s =
     (case py_set existing of
        Inl e \<Rightarrow> (Inl e, s)
      | Inr ex \<Rightarrow>
          (let msg = (if action = ''REMOVE_FROM_LIST''
                      then name @ '' contains none of these endpoints''
                      else name @ '' contains all of these endpoints'');
               endpoints = (if action = ''REMOVE_FROM_LIST''
                            then filter (\<lambda>x. x \<in> set to_add) (json_strs ex)
                            else remdups (filter (\<lambda>x. JStr x \<notin> set ex) to_add))
           in if endpoints = [] then
                (case set_status True (JStr msg)
                        (s\<lparr>ar_summary := [''updated'' \<mapsto> [], ''ignored'' \<mapsto> to_add]\<rparr>) of
                   (rv, s') \<Rightarrow> (Inr (rv, None), s'))
              else (Inr (APP_SUCCESS, Some endpoints), s)))"

text \<open>\<open>summary['updated'] = filtered_endpoints\<close> and
  \<open>summary['ignored'] = list(set(endpoints) - set(filtered_endpoints))\<close> on a fresh summary,
  then \<open>action_result.set_status(phantom.APP_SUCCESS)\<close>.\<close>

definition report_summary ::
    "string list \<Rightarrow> string list \<Rightarrow> connector \<Rightarrow> ret_val \<times> connector" where
  "report_summary endpoints filtered_endpoints s =
     set_status True (JStr [])
       (s\<lparr>ar_summary := [''updated'' \<mapsto> filtered_endpoints,
                         ''ignored'' \<mapsto> remdups (filter (\<lambda>x. x \<notin> set filtered_endpoints) endpoints)]\<rparr>)"

text \<open>\<open>action_result.add_data(response)\<close>\<close>

definition add_data :: "json option \<Rightarrow> connector \<Rightarrow> connector" where
  "add_data response s =
     s\<lparr>ar_data := ar_data s @ [case response of None \<Rightarrow> JNull | Some j \<Rightarrow> j]\<rparr>"

subsection \<open>Block list\<close>

definition get_blocklist ::
    "connector \<Rightarrow> ((py_error + ret_val \<times> json option) \<times> connector) option" where
  "get_blocklist s =
     make_rest_call_helper get_advanced s"

definition check_blocklist ::
    "string list \<Rightarrow> string \<Rightarrow> connector \<Rightarrow>
     ((py_error + ret_val \<times> string list option) \<times> connector) option" where
  "check_blocklist endpoints action s =
     (case get_blocklist s of
        None \<Rightarrow> None
      | Some (Inl e, s1) \<Rightarrow> Some (Inl e, s1)
      | Some (Inr (ret_val, response), s1) \<Rightarrow>
          if is_fail ret_val then Some (Inr (ret_val, None), s1)
          else
            (case response of
               None \<Rightarrow> Some (Inl AttributeError, s1)
             | Some resp \<Rightarrow>
                 (case py_get resp ''blacklistUrls'' (JArr []) of
                    Inl e \<Rightarrow> Some (Inl e, s1)
                  | Inr blocklist \<Rightarrow>
                      Some (filter_endpoints endpoints blocklist action ''Blocklist'' s1))))"

text \<open>\<open>_amend_blocklist\<close>.  After the write, \<open>self._response.status_code\<close> is read from
  whatever response the connector saw last.\<close>

definition amend_blocklist ::
    "string list \<Rightarrow> string \<Rightarrow> connector \<Rightarrow> ((py_error + ret_val) \<times> connector) option" where
  "amend_blocklist endpoints action s =
     (case check_blocklist endpoints action s of
        None \<Rightarrow> None
      | Some (Inl e, s1) \<Rightarrow> Some (Inl e, s1)
      | Some (Inr (ret_val, filtered), s1) \<Rightarrow>
          (case filtered of
             None \<Rightarrow> Some (Inr ret_val, s1)
           | Some filtered_endpoints \<Rightarrow>
               if is_fail ret_val then Some (Inr ret_val, s1)
               else
                 (case make_rest_call_helper (post_blacklist action filtered_endpoints) s1 of
                    None \<Rightarrow> None
                  | Some (Inl e, s2) \<Rightarrow> Some (Inl e, s2)
                  | Some (Inr (ret_val2, response), s2) \<Rightarrow>
                      if is_fail ret_val2 then
                        (case last_response s2 of
                           None \<Rightarrow> Some (Inl AttributeError, s2)
                         | Some r \<Rightarrow>
                             if status_code r \<noteq> 204 then Some (Inr ret_val2, s2)
                             else (case report_summary endpoints filtered_endpoints s2 of
                                     (rv, s3) \<Rightarrow> Some (Inr rv, s3)))
                      else (case report_summary endpoints filtered_endpoints s2 of
                              (rv, s3) \<Rightarrow> Some (Inr rv, s3)))))"

subsection \<open>Allow list\<close>

definition get_allowlist ::
    "connector \<Rightarrow> ((py_error + ret_val \<times> json option) \<times> connector) option" where
  "get_allowlist s =
     make_rest_call_helper get_security s"

definition check_allowlist ::
    "string list \<Rightarrow> string \<Rightarrow> connector \<Rightarrow>
     ((py_error + ret_val \<times> string list option) \<times> connector) option" where
  "check_allowlist endpoints action s =
     (case get_allowlist s of
        None \<Rightarrow> None
      | Some (Inl e, s1) \<Rightarrow> Some (Inl e, s1)
      | Some (Inr (ret_val, response), s1) \<Rightarrow>
          if is_fail ret_val then Some (Inr (ret_val, None), s1)
          else
            (case response of
               None \<Rightarrow> Some (Inl AttributeError, s1)
             | Some resp \<Rightarrow>
                 (case py_get resp ''whitelistUrls'' (JArr []) of
                    Inl e \<Rightarrow> Some (Inl e, s1)
                  | Inr wl \<Rightarrow>
                      Some (filter_endpoints endpoints wl action ''Allowlist''
                              (s1\<lparr>self_allowlist := wl\<rparr>)))))"

text \<open>
  The list written back.  \<open>list(set(current + filtered_endpoints))\<close> needs \<open>current\<close> to be
  a list (\<open>+\<close> raises \<open>TypeError\<close> on anything else); otherwise it is
  \<open>list(set(current) - set(filtered_endpoints))\<close>.
\<close>

definition new_list :: "json \<Rightarrow> string list \<Rightarrow> string \<Rightarrow> py_error + json list" where
  "new_list current filtered_endpoints action =
     (if action = ''ADD_TO_LIST'' then
        (case current of
           JArr xs \<Rightarrow>
             if list_all hashable xs then Inr (py_distinct (xs @ map JStr filtered_endpoints))
             else Inl TypeError
         | _ \<Rightarrow> Inl TypeError)
      else
        (case py_set current of
           Inl e \<Rightarrow> Inl e
         | Inr ex \<Rightarrow> Inr (filter (\<lambda>x. x \<notin> set (map JStr filtered_endpoints)) ex)))"

definition amend_allowlist ::
    "string list \<Rightarrow> string \<Rightarrow> connector \<Rightarrow> ((py_error + ret_val) \<times> connector) option" where
  "amend_allowlist endpoints action s =
     (case check_allowlist endpoints action s of
        None \<Rightarrow> None
      | Some (Inl e, s1) \<Rightarrow> Some (Inl e, s1)
      | Some (Inr (ret_val, filtered), s1) \<Rightarrow>
          (case filtered of
             None \<Rightarrow> Some (Inr ret_val, s1)
           | Some filtered_endpoints \<Rightarrow>
               if is_fail ret_val then Some (Inr ret_val, s1)
               else
                 (case new_list (self_allowlist s1) filtered_endpoints action of
                    Inl e \<Rightarrow> Some (Inl e, s1)
                  | Inr to_add_endpoints \<Rightarrow>
                      (case make_rest_call_helper (put_security to_add_endpoints) s1 of
                         None \<Rightarrow> None
                       | Some (Inl e, s2) \<Rightarrow> Some (Inl e, s2)
                       | Some (Inr (ret_val2, response), s2) \<Rightarrow>
                           if is_fail ret_val2 then Some (Inr ret_val2, s2)
                           else (case report_summary endpoints filtered_endpoints
                                        (add_data response s2) of
                                   (rv, s3) \<Rightarrow> Some (Inr rv, s3))))))"

subsection \<open>Categories\<close>

text \<open>The two loops of \<open>_get_category\<close>.\<close>

fun find_configured_name :: "json list \<Rightarrow> string \<Rightarrow> py_error + json option" where
  "find_configured_name [] category = Inr None"
| "find_configured_name (cat # rest) category =
     (case py_get cat ''configuredName'' JNull of
        Inl e \<Rightarrow> Inl e
      | Inr v \<Rightarrow> if v = JStr category then Inr (Some cat) else find_configured_name rest category)"

fun find_id :: "json list \<Rightarrow> string \<Rightarrow> py_error + json option" where
  "find_id [] category = Inr None"
| "find_id (cat # rest) category =
     (case py_subscript cat ''id'' of
        Inl e \<Rightarrow> Inl e
      | Inr v \<Rightarrow> if v = JStr category then Inr (Some cat) else find_id rest category)"

definition get_category ::
    "string \<Rightarrow> connector \<Rightarrow> ((py_error + ret_val \<times> json option) \<times> connector) option" where
  "get_category category s =
     (case make_rest_call_helper get_categories s of
        None \<Rightarrow> None
      | Some (Inl e, s1) \<Rightarrow> Some (Inl e, s1)
      | Some (Inr (ret_val, response), s1) \<Rightarrow>
          if is_fail ret_val then Some (Inr (ret_val, response), s1)
          else
            (case (case response of None \<Rightarrow> Inl TypeError | Some resp \<Rightarrow> py_iter resp) of
               Inl e \<Rightarrow> Some (Inl e, s1)
             | Inr cats \<Rightarrow>
                 (case find_configured_name cats category of
                    Inl e \<Rightarrow> Some (Inl e, s1)
                  | Inr (Some cat) \<Rightarrow> Some (Inr (APP_SUCCESS, Some cat), s1)
                  | Inr None \<Rightarrow>
                      (case find_id cats category of
                         Inl e \<Rightarrow> Some (Inl e, s1)
                       | Inr (Some cat) \<Rightarrow> Some (Inr (APP_SUCCESS, Some cat), s1)
                       | Inr None \<Rightarrow>
                           (case fail_with (JStr ''Unable to find category'') s1 of
                              (res, s2) \<Rightarrow> Some (Inr res, s2))))))"

text \<open>\<open>_check_category\<close>.  On failure the source hands back the response beside the status;
  it is \<open>None\<close> then, and \<open>_amend_category\<close> returns on the status alone.\<close>

definition check_category ::
    "string list \<Rightarrow> string \<Rightarrow> string \<Rightarrow> connector \<Rightarrow>
     ((py_error + ret_val \<times> string list option) \<times> connector) option" where
  "check_category endpoints category action s =
     (case get_category category s of
        None \<Rightarrow> None
      | Some (Inl e, s1) \<Rightarrow> Some (Inl e, s1)
      | Some (Inr (ret_val, response), s1) \<Rightarrow>
          if is_fail ret_val then Some (Inr (ret_val, None), s1)
          else
            (case response of
               None \<Rightarrow> Some (Inl AttributeError, s1\<lparr>self_category := None\<rparr>)
             | Some resp \<Rightarrow>
                 (case py_get resp ''dbCategorizedUrls'' (JArr []) of
                    Inl e \<Rightarrow> Some (Inl e, s1\<lparr>self_category := response\<rparr>)
                  | Inr urls \<Rightarrow>
                      Some (filter_endpoints endpoints urls action ''Category''
                              (s1\<lparr>self_category := response\<rparr>)))))"

definition amend_category ::
    "string list \<Rightarrow> string \<Rightarrow> string \<Rightarrow> connector \<Rightarrow>
     ((py_error + ret_val) \<times> connector) option" where
  "amend_category endpoints category action s =
     (case check_category endpoints category action s of
        None \<Rightarrow> None
      | Some (Inl e, s1) \<Rightarrow> Some (Inl e, s1)
      | Some (Inr (ret_val, filtered), s1) \<Rightarrow>
          (case filtered of
             None \<Rightarrow> Some (Inr ret_val, s1)
           | Some filtered_endpoints \<Rightarrow>
               if is_fail ret_val then Some (Inr ret_val, s1)
               else
                 (case self_category s1 of
                    None \<Rightarrow> Some (Inl AttributeError, s1)
                  | Some data \<Rightarrow>
                      (case py_get data ''dbCategorizedUrls'' (JArr []) of
                         Inl e \<Rightarrow> Some (Inl e, s1)
                       | Inr current \<Rightarrow>
                           (case new_list current filtered_endpoints action of
                              Inl e \<Rightarrow> Some (Inl e, s1)
                            | Inr to_add_endpoints \<Rightarrow>
                                (let data' = py_setitem data ''dbCategorizedUrls'' (JArr to_add_endpoints);
                                     s1' = s1\<lparr>self_category := Some data'\<rparr>
                                 in case py_subscript data' ''id'' of
                                      Inl e \<Rightarrow> Some (Inl e, s1')
                                    | Inr ident \<Rightarrow>
                                        (case make_rest_call_helper (put_category ident data') s1' of
                                           None \<Rightarrow> None
                                         | Some (Inl e, s2) \<Rightarrow> Some (Inl e, s2)
                                         | Some (Inr (ret_val2, response), s2) \<Rightarrow>
                                             if is_fail ret_val2 then Some (Inr ret_val2, s2)
                                             else (case report_summary endpoints filtered_endpoints
                                                          (add_data response s2) of
                                                     (rv, s3) \<Rightarrow> Some (Inr rv, s3)))))))))"

section \<open>Endpoint normalizer\<close>

text \<open>The first two statements of every endpoint action:
  \<^verbatim>\<open>[x.strip() for x in endpoints.split(',')]\<close> and \<^verbatim>\<open>list(filter(None, list_endpoints))\<close>.\<close>

definition split_endpoints :: "string \<Rightarrow> string list" where
  "split_endpoints raw = filter (\<lambda>x. x \<noteq> []) (map py_strip (py_split_on (CHR '','') raw))"

text \<open>\<open>s.startswith(prefix)\<close>\<close>

definition startswith :: "string \<Rightarrow> string \<Rightarrow> bool" where
  "startswith s prefix = (take (length prefix) s = prefix)"

text \<open>\<open>_truncate_protocol\<close>: the loop over \<open>range(len(endpoints))\<close>, from index \<open>i\<close> on.\<close>

function truncate_from :: "string list \<Rightarrow> nat \<Rightarrow> string list" where
  "truncate_from endpoints i =
     (if i < length endpoints then
        truncate_from
          (if startswith (endpoints ! i) ''http://''
           then endpoints[i := drop (length ''http://'') (endpoints ! i)]
           else if startswith (endpoints ! i) ''https://''
           then endpoints[i := drop (length ''https://'') (endpoints ! i)]
           else endpoints)
          (i + 1)
      else endpoints)"
  by pat_completeness auto
termination
  by (relation "measure (\<lambda>(endpoints, i). length endpoints - i)") auto

declare truncate_from.simps [simp del]

definition truncate_protocol :: "string list \<Rightarrow> string list" where
  "truncate_protocol endpoints = truncate_from endpoints 0"

fun check_for_overlength :: "string list \<Rightarrow> connector \<Rightarrow> ret_val \<times> connector" where
  "check_for_overlength [] s = (APP_SUCCESS, s)"
| "check_for_overlength (url # rest) s =
     (if length url > 1024
      then set_status False (JStr ''Please provide valid comma-separated values in the action parameter. Max allowed length for each value is 1024.'') s
      else check_for_overlength rest s)"

section \<open>Action handlers\<close>

text \<open>
  \<open>_block_endpoint\<close>, \<open>_unblock_endpoint\<close>, \<open>_allowlist_endpoint\<close> and \<open>_unallow_endpoint\<close>.
  The length check runs only under the one action identifier each of them names; the
  \<open>category\<close> argument is \<open>param.get('url_category')\<close>.
\<close>

definition block_endpoint ::
    "string \<Rightarrow> string option \<Rightarrow> connector \<Rightarrow> ((py_error + ret_val) \<times> connector) option" where
  "block_endpoint raw url_category s =
     (let endpoints = truncate_protocol (split_endpoints raw);
          chk = check_for_overlength endpoints s
      in if action_id s \<in> set [''block_url''] \<and> is_fail (fst chk) then Some (Inr (fst chk), snd chk)
         else (case url_category of
                 None \<Rightarrow> amend_blocklist endpoints ''ADD_TO_LIST'' s
               | Some c \<Rightarrow> amend_category endpoints c ''ADD_TO_LIST'' s))"

definition unblock_endpoint ::
    "string \<Rightarrow> string option \<Rightarrow> connector \<Rightarrow> ((py_error + ret_val) \<times> connector) option" where
  "unblock_endpoint raw url_category s =
     (let endpoints = truncate_protocol (split_endpoints raw);
          chk = check_for_overlength endpoints s
      in if action_id s \<in> set [''unblock_url''] \<and> is_fail (fst chk) then Some (Inr (fst chk), snd chk)
         else (case url_category of
                 None \<Rightarrow> amend_blocklist endpoints ''REMOVE_FROM_LIST'' s
               | Some c \<Rightarrow> amend_category endpoints c ''REMOVE_FROM_LIST'' s))"

definition allowlist_endpoint ::
    "string \<Rightarrow> string option \<Rightarrow> connector \<Rightarrow> ((py_error + ret_val) \<times> connector) option" where
  "allowlist_endpoint raw url_category s =
     (let endpoints = truncate_protocol (split_endpoints raw);
          chk = check_for_overlength endpoints s
      in if action_id s \<in> set [''allow_url''] \<and> is_fail (fst chk) then Some (Inr (fst chk), snd chk)
         else (case url_category of
                 None \<Rightarrow> amend_allowlist endpoints ''ADD_TO_LIST'' s
               | Some c \<Rightarrow> amend_category endpoints c ''ADD_TO_LIST'' s))"

definition unallow_endpoint ::
    "string \<Rightarrow> string option \<Rightarrow> connector \<Rightarrow> ((py_error + ret_val) \<times> connector) option" where
  "unallow_endpoint raw url_category s =
     (let endpoints = truncate_protocol (split_endpoints raw);
          chk = check_for_overlength endpoints s
      in if action_id s \<in> set [''unallow_url''] \<and> is_fail (fst chk) then Some (Inr (fst chk), snd chk)
         else (case url_category of
                 None \<Rightarrow> amend_allowlist endpoints ''REMOVE_FROM_LIST'' s
               | Some c \<Rightarrow> amend_category endpoints c ''REMOVE_FROM_LIST'' s))"

subsection \<open>Lookup\<close>

text \<open>The comprehension
  \<^verbatim>\<open>[response[i].update({"blocklisted": flag}) for i, item in enumerate(response) if item['url'] == e]\<close>
  over the items of a list response.\<close>

fun mark_items :: "string \<Rightarrow> bool \<Rightarrow> json list \<Rightarrow> py_error + json list" where
  "mark_items e flag [] = Inr []"
| "mark_items e flag (item # rest) =
     (case py_subscript item ''url'' of
        Inl err \<Rightarrow> Inl err
      | Inr u \<Rightarrow>
          (case mark_items e flag rest of
             Inl err \<Rightarrow> Inl err
           | Inr rest' \<Rightarrow>
               Inr ((if u = JStr e then py_setitem item ''blocklisted'' (JBool flag) else item) # rest')))"

text \<open>The same over any response: \<open>enumerate\<close> needs an iterable, and an item that is a
  character or a key is a string, whose \<open>['url']\<close> raises \<open>TypeError\<close>.\<close>

definition mark_response :: "string \<Rightarrow> bool \<Rightarrow> json option \<Rightarrow> py_error + json option" where
  "mark_response e flag response =
     (case response of
        Some (JArr items) \<Rightarrow>
          (case mark_items e flag items of Inl err \<Rightarrow> Inl err | Inr items' \<Rightarrow> Inr (Some (JArr items')))
      | Some (JStr t) \<Rightarrow> if t = [] then Inr response else Inl TypeError
      | Some (JObj kvs) \<Rightarrow> if kvs = [] then Inr response else Inl TypeError
      | _ \<Rightarrow> Inl TypeError)"

text \<open>The loop \<open>for e in endpoints\<close> of \<open>_lookup_endpoint\<close>.\<close>

fun mark_endpoints :: "string list \<Rightarrow> json option \<Rightarrow> json option \<Rightarrow> py_error + json option" where
  "mark_endpoints [] blocklist_response response = Inr response"
| "mark_endpoints (e # es) blocklist_response response =
     (case (case blocklist_response of
              None \<Rightarrow> Inl AttributeError
            | Some b \<Rightarrow> py_get b ''blacklistUrls'' (JArr [])) of
        Inl err \<Rightarrow> Inl err
      | Inr urls \<Rightarrow>
          (case py_contains urls e of
             Inl err \<Rightarrow> Inl err
           | Inr flag \<Rightarrow>
               (case mark_response e flag response of
                  Inl err \<Rightarrow> Inl err
                | Inr response' \<Rightarrow> mark_endpoints es blocklist_response response')))"

text \<open>\<open>action_result.update_data(response)\<close>: the data list is extended by the items of
  the response.\<close>

definition update_data :: "json option \<Rightarrow> connector \<Rightarrow> py_error + connector" where
  "update_data response s =
     (case (case response of None \<Rightarrow> Inl TypeError | Some resp \<Rightarrow> py_iter resp) of
        Inl e \<Rightarrow> Inl e
      | Inr items \<Rightarrow> Inr (s\<lparr>ar_data := ar_data s @ items\<rparr>))"

text \<open>\<open>_lookup_endpoint\<close>.  The check of an empty list sets the failure status and goes
  on to the next statement.\<close>

definition lookup_endpoint ::
    "string list \<Rightarrow> connector \<Rightarrow> ((py_error + ret_val) \<times> connector) option" where
  "lookup_endpoint endpoints s =
     (let s0 = (if endpoints = []
                then snd (set_status False (JStr ''Please provide valid list of URL(s)'') s)
                else s)
      in case make_rest_call_helper (post_lookup endpoints) s0 of
           None \<Rightarrow> None
         | Some (Inl e, s1) \<Rightarrow> Some (Inl e, s1)
         | Some (Inr (ret_val, response), s1) \<Rightarrow>
             if is_fail ret_val then Some (Inr ret_val, s1)
             else
               (case make_rest_call_helper (get_advanced_for endpoints) s1 of
                  None \<Rightarrow> None
                | Some (Inl e, s2) \<Rightarrow> Some (Inl e, s2)
                | Some (Inr (ret_val2, blocklist_response), s2) \<Rightarrow>
                    if is_fail ret_val2 then Some (Inr ret_val2, s2)
                    else
                      (case mark_endpoints endpoints blocklist_response response of
                         Inl e \<Rightarrow> Some (Inl e, s2)
                       | Inr response' \<Rightarrow>
                           (case update_data response' s2 of
                              Inl e \<Rightarrow> Some (Inl e, s2)
                            | Inr s3 \<Rightarrow>
                                (case set_status True (JStr ''Successfully completed lookup'') s3 of
                                   (rv, s4) \<Rightarrow> Some (Inr rv, s4))))))"

subsection \<open>The handlers\<close>

text \<open>
  \<open>handle_action\<close> calls the handler named after \<open>get_action_identifier()\<close>:
  \<open>_handle_block_ip\<close> under \<open>block_ip\<close>, \<open>_handle_block_url\<close> under \<open>block_url\<close>, and so on.

  \<open>self.add_action_result(ActionResult(dict(param)))\<close>: a fresh action result, with the
  failure status, no message, no summary and no data.  \<open>param\<close> is the action's parameter
  dict; \<open>param['ip']\<close> raises \<open>KeyError\<close> when the key is missing.
\<close>

definition new_action_result :: "connector \<Rightarrow> connector" where
  "new_action_result s =
     s\<lparr>ar_status := False, ar_message := JStr [], ar_summary := Map.empty, ar_data := []\<rparr>"

definition with_param ::
    "(string \<rightharpoonup> string) \<Rightarrow> string \<Rightarrow> connector \<Rightarrow>
     (string \<Rightarrow> connector \<Rightarrow> ((py_error + ret_val) \<times> connector) option) \<Rightarrow>
     ((py_error + ret_val) \<times> connector) option" where
  "with_param param key s body =
     (case param key of
        None \<Rightarrow> Some (Inl KeyError, new_action_result s)
      | Some raw \<Rightarrow> body raw (new_action_result s))"

definition handle_block_ip where
  "handle_block_ip param s =
     with_param param ''ip'' s (\<lambda>raw. block_endpoint raw (param ''url_category''))"

definition handle_block_url where
  "handle_block_url param s =
     with_param param ''url'' s (\<lambda>raw. block_endpoint raw (param ''url_category''))"

definition handle_unblock_ip where
  "handle_unblock_ip param s =
     with_param param ''ip'' s (\<lambda>raw. unblock_endpoint raw (param ''url_category''))"

definition handle_unblock_url where
  "handle_unblock_url param s =
     with_param param ''url'' s (\<lambda>raw. unblock_endpoint raw (param ''url_category''))"

definition handle_allow_ip where
  "handle_allow_ip param s =
     with_param param ''ip'' s (\<lambda>raw. allowlist_endpoint raw (param ''url_category''))"

definition handle_allow_url where
  "handle_allow_url param s =
     with_param param ''url'' s (\<lambda>raw. allowlist_endpoint raw (param ''url_category''))"

definition handle_unallow_ip where
  "handle_unallow_ip param s =
     with_param param ''ip'' s (\<lambda>raw. unallow_endpoint raw (param ''url_category''))"

definition handle_unallow_url where
  "handle_unallow_url param s =
     with_param param ''url'' s (\<lambda>raw. unallow_endpoint raw (param ''url_category''))"

definition handle_lookup_ip where
  "handle_lookup_ip param s =
     with_param param ''ip'' s (\<lambda>raw. lookup_endpoint (split_endpoints raw))"

definition handle_lookup_url where
  "handle_lookup_url param s =
     with_param param ''url'' s
       (\<lambda>raw s'.
          let endpoints = truncate_protocol (split_endpoints raw);
              chk = check_for_overlength endpoints s'
          in if is_fail (fst chk) then Some (Inr (fst chk), snd chk)
             else lookup_endpoint endpoints s')"

section \<open>Scenarios\<close>

text \<open>A connector after \<open>initialize\<close>, before its first request of an action: the gateway
  and the action identifier are given, nothing has been sent and no response seen.\<close>

definition fresh_connector :: "(request list \<Rightarrow> reply) \<Rightarrow> string \<Rightarrow> connector" where
  "fresh_connector srv ident =
     \<lparr>server = srv, calls = [], slept = [], base_url = ''https://admin.zscaler.net'',
      session_headers = [(''cookie'', ''JSESSIONID=1'')], last_response = None,
      self_allowlist = JNull, self_category = None, action_id = ident,
      ar_status = False, ar_message = JStr [], ar_summary = Map.empty, ar_data = []\<rparr>"

text \<open>A JSON response with the given status, raw text and parsed body; \<open>quoted\<close> puts a
  string between double quotes.\<close>

definition quoted :: "string \<Rightarrow> string" where
  "quoted t = CHR 0x22 # t @ [CHR 0x22]"

definition json_response :: "int \<Rightarrow> string \<Rightarrow> json \<Rightarrow> response" where
  "json_response code raw body =
     \<lparr>status_code = code, content_type = Some ''application/json'', body_text = raw,
      body_json = Inr body, soup_text = None\<rparr>"

definition json_reply :: "int \<Rightarrow> string \<Rightarrow> json \<Rightarrow> reply" where
  "json_reply code raw body = Reply (json_response code raw body)"

text \<open>A rate-limited gateway: every request is answered with status 429 and the JSON body
  \<open>{"Retry-After": t}\<close>.\<close>

definition rate_limit_response :: "string \<Rightarrow> response" where
  "rate_limit_response t =
     \<lparr>status_code = 429, content_type = Some ''application/json'',
      body_text = ''{'' @ quoted ''Retry-After'' @ '': '' @ quoted t @ ''}'',
      body_json = Inr (JObj [(''Retry-After'', JStr t)]), soup_text = None\<rparr>"

definition rate_limited :: "string \<Rightarrow> request list \<Rightarrow> reply" where
  "rate_limited t h = Reply (rate_limit_response t)"

text \<open>A gateway that answers every request with a list of three categories: the first
  carries a configured name that is also the id of the second.\<close>

definition three_categories :: "json list" where
  "three_categories =
     [JObj [(''id'', JStr ''CUSTOM_01''), (''configuredName'', JStr ''Phishing'')],
      JObj [(''id'', JStr ''Phishing'')],
      JObj [(''id'', JStr ''OTHER_ADULT_MATERIAL''), (''dbCategorizedUrls'', JArr [JStr ''a.com''])]]"

definition category_gateway :: "request list \<Rightarrow> reply" where
  "category_gateway h = json_reply 200 ''(three categories)'' (JArr three_categories)"

text \<open>A gateway that answers every request with a list of one category, which has a
  configured name and no id.\<close>

definition unidentified_categories :: "json list" where
  "unidentified_categories = [JObj [(''configuredName'', JStr ''A'')]]"

definition unidentified_gateway :: "request list \<Rightarrow> reply" where
  "unidentified_gateway h = json_reply 200 ''(one category)'' (JArr unidentified_categories)"

section \<open>Frame of a classification\<close>

text \<open>\<open>result_only s s'\<close>: \<open>s'\<close> is \<open>s\<close> but for the status and message of the action result.\<close>

definition result_only :: "connector \<Rightarrow> connector \<Rightarrow> bool" where
  "result_only s s' = (s' = s\<lparr>ar_status := ar_status s', ar_message := ar_message s'\<rparr>)"

section \<open>Scenarios for the classifier\<close>

text \<open>The message of an HTML response with the detail cut to its first 500 characters, as
  the specification words it.\<close>

definition spec_html_message :: "response \<Rightarrow> string" where
  "spec_html_message r =
     escape_braces (html_hint @ ''Status Code: '' @ py_str (status_code r) @
       ''. Data from server:'' @ [CHR 0x0A] @ take 500 (html_error_text r) @ [CHR 0x0A])"

text \<open>An HTML error page whose tag-free text is one line of 501 characters.\<close>

definition long_html_response :: response where
  "long_html_response =
     \<lparr>status_code = 502, content_type = Some ''text/html'', body_text = replicate 501 (CHR ''a''),
      body_json = Inl ''Expecting value'', soup_text = Some (replicate 501 (CHR ''a''))\<rparr>"

text \<open>A 200 response whose Content-Type names both \<open>html\<close> and \<open>json\<close>, with a JSON body.\<close>

definition html_json_response :: response where
  "html_json_response =
     \<lparr>status_code = 200, content_type = Some ''text/html+json'', body_text = ''{}'',
      body_json = Inr (JObj []), soup_text = Some ''{}''\<rparr>"

text \<open>A proxy's 502 page: two text lines with a blank line and spaces around them, and a
  brace pair in the second.\<close>

definition proxy_error_response :: response where
  "proxy_error_response =
     \<lparr>status_code = 502, content_type = Some ''text/html; charset=utf-8'',
      body_text = ''<html><h1>Bad Gateway</h1>'' @ [CHR 0x0A, CHR 0x0A] @ ''  <p>upstream {zs1}</p> </html>'',
      body_json = Inl ''Expecting value'',
      soup_text = Some (''Bad Gateway'' @ [CHR 0x0A, CHR 0x0A] @ ''  upstream {zs1} '')\<rparr>"

text \<open>A gateway that answers every request with the same response.\<close>

definition constant_gateway :: "response \<Rightarrow> request list \<Rightarrow> reply" where
  "constant_gateway r h = Reply r"

section \<open>Deltas and summaries\<close>

text \<open>The list \<open>_filter_endpoints\<close> hands on for writing: \<open>None\<close> is the empty delta.\<close>

definition to_write :: "string list option \<Rightarrow> string list" where
  "to_write filtered = (case filtered of None \<Rightarrow> [] | Some w \<Rightarrow> w)"

text \<open>The summary reports \<open>updated\<close> and \<open>ignored\<close>, and together they hold exactly the
  requested endpoints.\<close>

definition summary_covers :: "string list \<Rightarrow> connector \<Rightarrow> bool" where
  "summary_covers requested s =
     (\<exists>u i. ar_summary s ''updated'' = Some u \<and> ar_summary s ''ignored'' = Some i \<and>
            set u \<union> set i = set requested)"

text \<open>The two ways the delta is empty: everything requested is already listed, or none
  of it is.\<close>

definition nothing_to_write :: "string \<Rightarrow> string list \<Rightarrow> string list \<Rightarrow> bool" where
  "nothing_to_write action requested existing =
     ((action = ''ADD_TO_LIST'' \<and> set requested \<subseteq> set existing) \<or>
      (action = ''REMOVE_FROM_LIST'' \<and> set requested \<inter> set existing = {}))"

text \<open>The action result after the short circuit of \<open>_filter_endpoints\<close>.\<close>

definition short_circuited :: "string \<Rightarrow> string \<Rightarrow> string list \<Rightarrow> connector \<Rightarrow> connector" where
  "short_circuited name action requested s =
     s\<lparr>ar_summary := [''updated'' \<mapsto> [], ''ignored'' \<mapsto> requested],
       ar_status := True,
       ar_message := JStr (name @ (if action = ''REMOVE_FROM_LIST''
                                    then '' contains none of these endpoints''
                                    else '' contains all of these endpoints''))\<rparr>"

text \<open>What a run returned, and the status code of the last response it saw.\<close>

definition returned :: "('a \<times> connector) option \<Rightarrow> 'a option" where
  "returned x = map_option fst x"

definition last_status :: "('a \<times> connector) option \<Rightarrow> int option" where
  "last_status x = (case x of None \<Rightarrow> None | Some (res, s) \<Rightarrow> map_option status_code (last_response s))"


section \<open>Scenarios for the list mutation engine\<close>

text \<open>A gateway that keeps a block list.  A POST changes the list by the endpoints of its
  body, according to its \<open>action\<close> parameter, and is answered 204 with no body; any other
  request is answered with the list as it stands.\<close>

fun posted_urls :: "json option \<Rightarrow> string list" where
  "posted_urls (Some (JObj [(k, JArr xs)])) = json_strs xs"
| "posted_urls d = []"

definition apply_write :: "string list \<Rightarrow> request \<Rightarrow> string list" where
  "apply_write bl rq =
     (if rq_method rq = POST then
        (if map_of (rq_params rq) ''action'' = Some ''REMOVE_FROM_LIST''
         then filter (\<lambda>x. x \<notin> set (posted_urls (rq_data rq))) bl
         else bl @ filter (\<lambda>x. x \<notin> set bl) (posted_urls (rq_data rq)))
      else bl)"

definition no_content :: response where
  "no_content =
     \<lparr>status_code = 204, content_type = None, body_text = [],
      body_json = Inl ''Expecting value'', soup_text = Some []\<rparr>"

definition blocklist_response :: "string list \<Rightarrow> response" where
  "blocklist_response bl =
     json_response 200 (''{'' @ quoted ''blacklistUrls'' @ '': [...]}'')
       (JObj [(''blacklistUrls'', JArr (map JStr bl))])"

definition blocklist_gateway :: "request list \<Rightarrow> reply" where
  "blocklist_gateway h =
     (if h \<noteq> [] \<and> rq_method (last h) = POST then Reply no_content
      else Reply (blocklist_response (foldl apply_write [] h)))"

text \<open>A gateway that answers every request with the same allow list.\<close>

definition allowlist_gateway :: "request list \<Rightarrow> reply" where
  "allowlist_gateway h =
     json_reply 200 (''{'' @ quoted ''whitelistUrls'' @ '': [...]}'')
       (JObj [(''whitelistUrls'', JArr [JStr ''a.com'', JStr ''b.com''])])"

text \<open>The connector after it has blocked \<open>a.com\<close> and \<open>b.com\<close> on the gateway that keeps a
  block list.\<close>

definition blocked_once :: connector where
  "blocked_once =
     (fresh_connector blocklist_gateway ''block_url'')
       \<lparr>calls := [build_request get_advanced (fresh_connector blocklist_gateway ''block_url''),
                  build_request (post_blacklist ''ADD_TO_LIST'' [''a.com'', ''b.com''])
                    (fresh_connector blocklist_gateway ''block_url'')],
        last_response := Some no_content,
        ar_summary := [''updated'' \<mapsto> [''a.com'', ''b.com''], ''ignored'' \<mapsto> []],
        ar_status := True, ar_message := JStr []\<rparr>"

text \<open>A gateway that answers a GET with a fixed listing and every write with status 204,
  Content-Type \<open>application/json\<close> and an empty body, which \<open>response.json()\<close> cannot
  parse.  \<open>parse_failure\<close> is the action result the classifier leaves for such a response.\<close>

definition no_content_json :: response where
  "no_content_json =
     \<lparr>status_code = 204, content_type = Some ''application/json'', body_text = [],
      body_json = Inl ''Expecting value: line 1 column 1 (char 0)'', soup_text = Some []\<rparr>"

definition strict_gateway :: "json \<Rightarrow> request list \<Rightarrow> reply" where
  "strict_gateway listing h =
     (if h \<noteq> [] \<and> rq_method (last h) = GET then json_reply 200 ''(listing)'' listing
      else Reply no_content_json)"

definition parse_failure :: "connector \<Rightarrow> connector" where
  "parse_failure s =
     s\<lparr>ar_status := False,
       ar_message := JStr ''Unable to parse JSON response. Error: Expecting value: line 1 column 1 (char 0)''\<rparr>"

section \<open>The endpoint list of an action\<close>

text \<open>The normalizer in the words of the specification: split on commas, trim whitespace,
  drop empty entries, strip one leading \<open>http://\<close> or \<open>https://\<close> from each entry.\<close>

definition strip_scheme :: "string \<Rightarrow> string" where
  "strip_scheme x =
     (if startswith x ''http://'' then drop (length ''http://'') x
      else if startswith x ''https://'' then drop (length ''https://'') x
      else x)"

definition spec_normalize :: "string \<Rightarrow> string list" where
  "spec_normalize raw =
     map strip_scheme (filter (\<lambda>x. x \<noteq> []) (map py_strip (py_split_on (CHR '','') raw)))"

text \<open>Some entry is longer than 1024 characters.\<close>

definition overlong :: "string list \<Rightarrow> bool" where
  "overlong endpoints = list_ex (\<lambda>e. 1024 < length e) endpoints"

text \<open>The rejection of an overlong entry: the failure status with the message of
  \<open>_check_for_overlength\<close> on a fresh action result, and nothing else changed.\<close>

definition rejected :: "connector \<Rightarrow> ((py_error + ret_val) \<times> connector) option" where
  "rejected s =
     Some (Inr APP_ERROR,
           (new_action_result s)
             \<lparr>ar_status := False,
              ar_message := JStr ''Please provide valid comma-separated values in the action parameter. Max allowed length for each value is 1024.''\<rparr>)"

text \<open>What each kind of action does with its endpoint list and the \<open>url_category\<close>
  parameter, on a fresh action result.\<close>

definition block_list ::
    "string list \<Rightarrow> (string \<rightharpoonup> string) \<Rightarrow> connector \<Rightarrow> ((py_error + ret_val) \<times> connector) option" where
  "block_list endpoints param s =
     (case param ''url_category'' of
        None \<Rightarrow> amend_blocklist endpoints ''ADD_TO_LIST'' (new_action_result s)
      | Some c \<Rightarrow> amend_category endpoints c ''ADD_TO_LIST'' (new_action_result s))"

definition unblock_list ::
    "string list \<Rightarrow> (string \<rightharpoonup> string) \<Rightarrow> connector \<Rightarrow> ((py_error + ret_val) \<times> connector) option" where
  "unblock_list endpoints param s =
     (case param ''url_category'' of
        None \<Rightarrow> amend_blocklist endpoints ''REMOVE_FROM_LIST'' (new_action_result s)
      | Some c \<Rightarrow> amend_category endpoints c ''REMOVE_FROM_LIST'' (new_action_result s))"

definition allow_list ::
    "string list \<Rightarrow> (string \<rightharpoonup> string) \<Rightarrow> connector \<Rightarrow> ((py_error + ret_val) \<times> connector) option" where
  "allow_list endpoints param s =
     (case param ''url_category'' of
        None \<Rightarrow> amend_allowlist endpoints ''ADD_TO_LIST'' (new_action_result s)
      | Some c \<Rightarrow> amend_category endpoints c ''ADD_TO_LIST'' (new_action_result s))"

definition unallow_list ::
    "string list \<Rightarrow> (string \<rightharpoonup> string) \<Rightarrow> connector \<Rightarrow> ((py_error + ret_val) \<times> connector) option" where
  "unallow_list endpoints param s =
     (case param ''url_category'' of
        None \<Rightarrow> amend_allowlist endpoints ''REMOVE_FROM_LIST'' (new_action_result s)
      | Some c \<Rightarrow> amend_category endpoints c ''REMOVE_FROM_LIST'' (new_action_result s))"

definition lookup_list :: "string list \<Rightarrow> connector \<Rightarrow> ((py_error + ret_val) \<times> connector) option" where
  "lookup_list endpoints s = lookup_endpoint endpoints (new_action_result s)"

text \<open>The requests a run has sent: method, URL and body of each, in order.\<close>

definition sent_by :: "connector \<Rightarrow> (http_method \<times> string \<times> json option) list" where
  "sent_by s = map (\<lambda>q. (rq_method q, rq_url q, rq_data q)) (calls s)"

definition requests_sent ::
    "('a \<times> connector) option \<Rightarrow> (http_method \<times> string \<times> json option) list option" where
  "requests_sent x = map_option (\<lambda>(res, s). sent_by s) x"

text \<open>The message of the action result at the end of a run.\<close>

definition final_message :: "('a \<times> connector) option \<Rightarrow> json option" where
  "final_message x = map_option (\<lambda>(res, s). ar_message s) x"

section \<open>Scenarios for the endpoint actions\<close>

text \<open>The parameter dicts \<open>{"ip": raw}\<close> and \<open>{"url": raw}\<close>.\<close>

definition ip_param :: "string \<Rightarrow> (string \<rightharpoonup> string)" where
  "ip_param raw = [''ip'' \<mapsto> raw]"

definition url_param :: "string \<Rightarrow> (string \<rightharpoonup> string)" where
  "url_param raw = [''url'' \<mapsto> raw]"

text \<open>An entry of 1025 characters.\<close>

definition long_entry :: string where
  "long_entry = replicate 1025 (CHR ''a'')"

text \<open>A gateway with no classification to report and an empty block list: a POST is
  answered with the JSON list \<open>[]\<close>, any other request with \<open>{"blacklistUrls": []}\<close>.\<close>

definition lookup_gateway :: "request list \<Rightarrow> reply" where
  "lookup_gateway h =
     (if h \<noteq> [] \<and> rq_method (last h) = POST then json_reply 200 ''[]'' (JArr [])
      else Reply (blocklist_response []))"

text \<open>The connector after a lookup of \<open>endpoints\<close> on that gateway.\<close>

definition looked_up :: "string list \<Rightarrow> connector \<Rightarrow> connector" where
  "looked_up endpoints s =
     s\<lparr>calls := calls s @ [build_request (post_lookup endpoints) s,
                            build_request (get_advanced_for endpoints) s],
       last_response := Some (blocklist_response []),
       ar_status := True,
       ar_message := JStr ''Successfully completed lookup''\<rparr>"
section \<open>Key obfuscation: proofs\<close>

lemma digit_nth_is_digit: "k < 10 \<Longrightarrow> is_digit (''0123456789'' ! k)"
  unfolding is_digit_def by (rule nth_mem) simp

lemma nat_less_10_cases:
  "k < 10 \<Longrightarrow> k = 0 \<or> k = 1 \<or> k = 2 \<or> k = 3 \<or> k = 4 \<or> k = 5 \<or> k = 6 \<or> k = 7 \<or> k = 8 \<or> k = (9::nat)"
  by arith

lemma digit_val_nth: "k < 10 \<Longrightarrow> digit_val (''0123456789'' ! k) = k"
  using nat_less_10_cases [of k] by (auto simp: digit_val_def)

lemma is_digit_cases:
  assumes "is_digit c"
  shows "\<exists>k<10. c = ''0123456789'' ! k"
proof -
  from assms have "c \<in> set ''0123456789''" by (simp only: is_digit_def)
  then obtain i where "i < length ''0123456789''" and "''0123456789'' ! i = c"
    unfolding in_set_conv_nth by blast
  moreover have "length ''0123456789'' = 10" by simp
  ultimately show ?thesis by metis
qed

lemma digit_val_less: "is_digit c \<Longrightarrow> digit_val c < 10"
  using is_digit_cases [of c] digit_val_nth by auto

lemma is_digit_not_special:
  "is_digit c \<Longrightarrow> c \<noteq> CHR ''_'' \<and> c \<noteq> CHR ''-'' \<and> c \<noteq> CHR ''+'' \<and> \<not> is_space c"
  by (auto simp: is_digit_def is_space_def)

lemma str_nat_digits: "\<forall>c \<in> set (str_nat m). is_digit c"
proof (induction m rule: str_nat.induct)
  case (1 n)
  show ?case
  proof (cases "n < 10")
    case True
    then show ?thesis by (simp add: str_nat.simps [of n] digit_nth_is_digit)
  next
    case False
    with 1 show ?thesis by (simp add: str_nat.simps [of n] digit_nth_is_digit)
  qed
qed

lemma str_nat_nonempty: "str_nat m \<noteq> []"
  by (subst str_nat.simps) simp

lemma str_nat_length_le: "m < 10 ^ k \<Longrightarrow> 0 < k \<Longrightarrow> length (str_nat m) \<le> k"
proof (induction m arbitrary: k rule: str_nat.induct)
  case (1 n)
  show ?case
  proof (cases "n < 10")
    case True
    with 1 show ?thesis by (simp add: str_nat.simps [of n] Suc_leI)
  next
    case False
    then obtain j where k: "k = Suc j" using 1(3) by (cases k) auto
    from False 1(2) k have j: "0 < j" by (cases j) auto
    from 1(2) k have "n div 10 < 10 ^ j" by (simp add: less_mult_imp_div_less mult.commute)
    with 1(1) [OF False _ j] have "length (str_nat (n div 10)) \<le> j" by simp
    with False k show ?thesis by (simp add: str_nat.simps [of n])
  qed
qed

lemma str_nat_hd_digit: "is_digit (hd (str_nat m))"
  using str_nat_digits [of m] str_nat_nonempty [of m] by (cases "str_nat m") auto

lemma zfill_plain:
  "s \<noteq> [] \<Longrightarrow> is_digit (hd s) \<Longrightarrow> zfill w s = replicate (w - length s) (CHR ''0'') @ s"
  using is_digit_not_special [of "hd s"] by (cases s) (auto simp: zfill_def)

lemma zfill_str_nat:
  "zfill w (str_nat x) = replicate (w - length (str_nat x)) (CHR ''0'') @ str_nat x"
  by (rule zfill_plain [OF str_nat_nonempty str_nat_hd_digit])

lemma str_nat_small: "x < 10 \<Longrightarrow> str_nat x = [''0123456789'' ! x]"
  by (subst str_nat.simps) simp

lemma str_nat_big:
  "\<not> x < 10 \<Longrightarrow> str_nat x = str_nat (x div 10) @ [''0123456789'' ! (x mod 10)]"
  by (subst str_nat.simps) simp

lemma zfill_step:
  assumes "0 < k"
  shows "zfill (Suc k) (str_nat x) = zfill k (str_nat (x div 10)) @ [''0123456789'' ! (x mod 10)]"
proof (cases "x < 10")
  case True
  from assms obtain j where k: "k = Suc j" by (cases k) auto
  have d: "''0123456789'' ! x \<noteq> CHR ''+''" "''0123456789'' ! x \<noteq> CHR ''-''"
    using digit_nth_is_digit [OF True] is_digit_not_special by blast+
  have s0: "str_nat (x div 10) = ''0''" using True by (simp add: str_nat_small)
  have lhs: "zfill (Suc k) (str_nat x) = replicate k (CHR ''0'') @ [''0123456789'' ! x]"
    using True d k by (simp add: str_nat_small zfill_def)
  have rhs: "zfill k ''0'' = replicate k (CHR ''0'')"
    using k by (simp add: zfill_def replicate_append_same)
  from True lhs rhs s0 show ?thesis by simp
next
  case False
  have "zfill (Suc k) (str_nat x) = replicate (Suc k - length (str_nat x)) (CHR ''0'') @ str_nat x"
    by (rule zfill_str_nat)
  with False show ?thesis
    by (simp add: zfill_str_nat [of k "x div 10"] str_nat_big [of x])
qed

lemma last_digits:
  "10 ^ k \<le> m \<Longrightarrow>
   drop (length (str_nat m) - Suc k) (str_nat m) = zfill (Suc k) (str_nat (m mod 10 ^ Suc k))"
proof (induction k arbitrary: m)
  case 0
  have small: "str_nat (m mod 10) = [''0123456789'' ! (m mod 10)]"
    by (rule str_nat_small) simp
  show ?case
  proof (cases "m < 10")
    case True
    then show ?thesis by (simp add: str_nat_small zfill_def)
  next
    case False
    then show ?thesis by (simp add: str_nat_big [of m] small zfill_def)
  qed
next
  case (Suc k)
  from Suc.prems have "10 * 10 ^ k \<le> m" by simp
  moreover have "(0::nat) < 10 ^ k" by simp
  ultimately have big: "\<not> m < 10" by linarith
  from Suc.prems have "10 ^ k \<le> m div 10" by simp
  from Suc.IH [OF this]
  have ih: "drop (length (str_nat (m div 10)) - Suc k) (str_nat (m div 10)) =
            zfill (Suc k) (str_nat (m div 10 mod 10 ^ Suc k))" .
  let ?x = "m mod 10 ^ Suc (Suc k)"
  define q :: nat where "q = 10 ^ Suc k"
  have pw: "(10::nat) ^ Suc (Suc k) = 10 * q" by (simp add: q_def)
  have split: "m mod (10 * q) = 10 * (m div 10 mod q) + m mod 10" by (rule mod_mult2_eq)
  have x_div: "?x div 10 = m div 10 mod 10 ^ Suc k"
    unfolding pw split by (simp add: q_def)
  have x_mod: "?x mod 10 = m mod 10"
    unfolding pw split by simp
  have "zfill (Suc (Suc k)) (str_nat ?x) =
        zfill (Suc k) (str_nat (?x div 10)) @ [''0123456789'' ! (?x mod 10)]"
    by (rule zfill_step) simp
  with x_div x_mod ih big show ?case
    by (simp add: str_nat_big [of m])
qed

lemma dec_value_snoc:
  "c \<noteq> CHR ''_'' \<Longrightarrow> dec_value (s @ [c]) = 10 * dec_value s + digit_val c"
  by (simp add: dec_value_def)

lemma dec_value_single: "c \<noteq> CHR ''_'' \<Longrightarrow> dec_value [c] = digit_val c"
  by (simp add: dec_value_def)

lemma digit_nth_not_underscore: "k < 10 \<Longrightarrow> ''0123456789'' ! k \<noteq> CHR ''_''"
  using digit_nth_is_digit [of k] is_digit_not_special by blast

lemma dec_value_str_nat: "dec_value (str_nat m) = m"
proof (induction m rule: str_nat.induct)
  case (1 n)
  show ?case
  proof (cases "n < 10")
    case True
    then show ?thesis
      by (simp add: str_nat_small dec_value_single digit_nth_not_underscore digit_val_nth)
  next
    case False
    with 1 show ?thesis
      by (simp add: str_nat_big [of n] dec_value_snoc digit_nth_not_underscore digit_val_nth)
  qed
qed

lemma dec_value_zeros: "dec_value (replicate j (CHR ''0'') @ s) = dec_value s"
proof -
  have "foldl (\<lambda>a c. if c = CHR ''_'' then a else 10 * a + digit_val c) 0 (replicate j (CHR ''0'')) = 0"
    by (induction j) (simp_all add: digit_val_def)
  then show ?thesis by (simp add: dec_value_def)
qed

lemma dec_value_zfill: "dec_value (zfill w (str_nat x)) = x"
  by (simp add: zfill_str_nat dec_value_zeros dec_value_str_nat)

lemma zfill_digits: "\<forall>c \<in> set (zfill w (str_nat x)). is_digit c"
proof -
  have "is_digit (CHR ''0'')" by (simp add: is_digit_def)
  with str_nat_digits [of x] show ?thesis by (auto simp: zfill_str_nat)
qed

lemma zfill_length: "x < 10 ^ w \<Longrightarrow> 0 < w \<Longrightarrow> length (zfill w (str_nat x)) = w"
  using str_nat_length_le [of x w] by (simp add: zfill_str_nat)

lemma py_strip_no_space: "\<forall>c \<in> set s. \<not> is_space c \<Longrightarrow> py_strip s = s"
proof -
  assume a: "\<forall>c \<in> set s. \<not> is_space c"
  then have "dropWhile is_space s = s" by (cases s) auto
  moreover from a have "dropWhile is_space (rev s) = rev s" by (cases "rev s") auto
  ultimately show ?thesis by (simp add: py_strip_def)
qed

lemma int_literal_digits: "s \<noteq> [] \<Longrightarrow> \<forall>c \<in> set s. is_digit c \<Longrightarrow> int_literal s"
proof (induction s rule: int_literal.induct)
  case 1
  then show ?case by simp
next
  case (2 c)
  then show ?case by simp
next
  case (3 c d cs)
  then show ?case using is_digit_not_special [of d] by simp
qed

lemma py_int_digits:
  assumes "s \<noteq> []" and "\<forall>c \<in> set s. is_digit c"
  shows "py_int s = Inr (int (dec_value s))"
proof -
  from assms(2) have "py_strip s = s"
    using is_digit_not_special by (intro py_strip_no_space) blast
  moreover from assms obtain c r where s: "s = c # r" by (cases s) auto
  moreover from assms(2) s have "c \<noteq> CHR ''-''" "c \<noteq> CHR ''+''"
    using is_digit_not_special [of c] by auto
  moreover note int_literal_digits [OF assms]
  ultimately show ?thesis by (simp add: py_int_def)
qed

lemma select_chars_digits:
  assumes "\<forall>c \<in> set ds. is_digit c" and "0 \<le> off" and "9 + off < int (length api_key)"
  shows "select_chars api_key ds off i key =
         Inr (key @ map (\<lambda>c. api_key ! (digit_val c + nat off)) (drop i ds))"
proof (induction "length ds - i" arbitrary: i key)
  case 0
  then show ?case by (subst select_chars.simps) simp
next
  case (Suc k)
  then have i: "i < length ds" by simp
  with assms(1) have dig: "is_digit (ds ! i)" by simp
  then have pi: "py_int [ds ! i] = Inr (int (digit_val (ds ! i)))"
    using is_digit_not_special [of "ds ! i"]
    by (simp add: py_int_digits dec_value_single)
  from digit_val_less [OF dig] assms(2,3)
  have gi: "py_getitem api_key (int (digit_val (ds ! i)) + off) =
            Inr (api_key ! (digit_val (ds ! i) + nat off))"
    by (simp add: py_getitem_def nat_add_distrib)
  from Suc(2) have "k = length ds - (i + 1)" by simp
  from Suc(1) [OF this]
  have "select_chars api_key ds off (i + 1) (key @ [api_key ! (digit_val (ds ! i) + nat off)]) =
        Inr ((key @ [api_key ! (digit_val (ds ! i) + nat off)]) @
             map (\<lambda>c. api_key ! (digit_val c + nat off)) (drop (i + 1) ds))" .
  with i pi gi Cons_nth_drop_Suc [OF i, symmetric] show ?case
    by (subst select_chars.simps) simp
qed

lemma map_by_index: "length xs = k \<Longrightarrow> map (\<lambda>i. f (xs ! i)) [0..<k] = map f xs"
  by (auto simp: list_eq_iff_nth_eq)

text \<open>
  C1 (as amended).  For every \<open>api_key\<close> of at least 12 characters and every clock value
  whose millisecond timestamp has at least six digits (\<open>100000 \<le> ms\<close>),
  \<open>_obfuscate_api_key\<close> raises nothing and returns the timestamp string together with
  the 12-character key built from the six low-order digits \<open>n\<close> of the timestamp and from
  \<open>r = str(int(n) >> 1).zfill(6)\<close>: \<open>api_key[n[i]]\<close> for \<open>i = 0..5\<close>, then
  \<open>api_key[r[j] + 2]\<close> for \<open>j = 0..5\<close>.  The result is a function of the timestamp and
  the key alone.
\<close>

theorem obfuscate_api_key_spec:
  assumes "12 \<le> length api_key" and "100000 \<le> ms"
  shows "obfuscate_api_key api_key ms = Inr (py_str ms, spec_obfuscated_key api_key ms) \<and>
         length (spec_obfuscated_key api_key ms) = 12"
proof -
  define m where "m = nat ms"
  define n where "n = zfill 6 (str_nat (m mod 10 ^ 6))"
  define r where "r = zfill 6 (str_nat (m mod 10 ^ 6 div 2))"
  from assms(2) have ms: "ms = int m" and m5: "10 ^ 5 \<le> m" by (simp_all add: m_def)
  have now: "py_str ms = str_nat m" by (simp add: py_str_def ms)
  have "drop (length (str_nat m) - Suc 5) (str_nat m) = zfill (Suc 5) (str_nat (m mod 10 ^ Suc 5))"
    using m5 by (rule last_digits)
  then have last6: "drop (length (str_nat m) - 6) (str_nat m) = n" by (simp add: n_def)
  have n_dig: "\<forall>c \<in> set n. is_digit c" unfolding n_def by (rule zfill_digits)
  have n_len: "length n = 6" unfolding n_def by (rule zfill_length) simp_all
  have n_val: "dec_value n = m mod 10 ^ 6" unfolding n_def by (rule dec_value_zfill)
  from n_len have "n \<noteq> []" by auto
  from py_int_digits [OF this n_dig] n_val
  have pn: "py_int n = Inr (int (m mod 1000000))" by simp
  have shift: "drop_bit (Suc 0) (int (m mod 1000000)) = int (m mod 1000000 div 2)"
    by (simp add: drop_bit_eq_div zdiv_int)
  have r_str: "zfill 6 (py_str (int (m mod 1000000 div 2))) = r"
    by (simp add: py_str_def r_def)
  have r_dig: "\<forall>c \<in> set r. is_digit c" unfolding r_def by (rule zfill_digits)
  have "m mod 10 ^ 6 div 2 < 10 ^ 6"
    by (rule le_less_trans [OF div_le_dividend]) simp
  then have r_len: "length r = 6" unfolding r_def by (rule zfill_length) simp
  from assms(1) have s1: "select_chars api_key n 0 0 [] = Inr (map (\<lambda>c. api_key ! digit_val c) n)"
    using select_chars_digits [OF n_dig, of 0 api_key 0 "[]"] by simp
  from assms(1) have s2: "select_chars api_key r 2 0 key1 =
      Inr (key1 @ map (\<lambda>c. api_key ! (digit_val c + 2)) r)" for key1
    using select_chars_digits [OF r_dig, of 2 api_key 0 key1] by simp
  have code: "obfuscate_api_key api_key ms =
      Inr (str_nat m, map (\<lambda>c. api_key ! digit_val c) n @ map (\<lambda>c. api_key ! (digit_val c + 2)) r)"
    by (simp add: obfuscate_api_key_def now last6 pn shift r_str s1 s2)
  have e1: "ms mod 1000000 = int (m mod 1000000)" by (simp add: ms zmod_int)
  have e2: "ms mod 1000000 div 2 = int (m mod 1000000 div 2)" by (simp add: e1 zdiv_int)
  have py_str_int: "py_str (int k) = str_nat k" for k by (simp add: py_str_def)
  have sn: "zfill 6 (py_str (ms mod 1000000)) = n"
    unfolding e1 py_str_int by (simp add: n_def)
  have sr: "zfill 6 (py_str (ms mod 1000000 div 2)) = r"
    unfolding e2 py_str_int by (simp add: r_def)
  have m1: "map (\<lambda>i. api_key ! digit_val (n ! i)) [0..<6] = map (\<lambda>c. api_key ! digit_val c) n"
    by (rule map_by_index [OF n_len, of "\<lambda>c. api_key ! digit_val c"])
  have m2: "map (\<lambda>j. api_key ! (digit_val (r ! j) + 2)) [0..<6] =
            map (\<lambda>c. api_key ! (digit_val c + 2)) r"
    by (rule map_by_index [OF r_len, of "\<lambda>c. api_key ! (digit_val c + 2)"])
  have spec: "spec_obfuscated_key api_key ms =
      map (\<lambda>c. api_key ! digit_val c) n @ map (\<lambda>c. api_key ! (digit_val c + 2)) r"
    unfolding spec_obfuscated_key_def Let_def sn sr m1 m2 ..
  from code spec now n_len r_len show ?thesis by simp
qed

theorem obfuscate_api_key_spec_witness:
  "12 \<le> length ''abcdefghijklmnop'' \<and> (100000::int) \<le> 1700000123456 \<and>
   obfuscate_api_key ''abcdefghijklmnop'' 1700000123456 = Inr (''1700000123456'', ''bcdefgcidjek'')"
  using obfuscate_api_key_spec [of "''abcdefghijklmnop''" 1700000123456]
  by (simp add: spec_obfuscated_key_def py_str_def str_nat.simps zfill_def digit_val_def upt_rec)

text \<open>
  C1 as stated ranges over every clock value.  Five milliseconds after the epoch the
  timestamp is \<open>''5''\<close>, \<open>n\<close> has one digit and the key has seven characters.
\<close>

theorem obfuscate_api_key_short_timestamp_counterexample:
  "12 \<le> length ''abcdefghijkl'' \<and>
   obfuscate_api_key ''abcdefghijkl'' 5 = Inr (''5'', ''fccccce'') \<and>
   length ''fccccce'' \<noteq> 12"
  by code_simp

section \<open>Response classifier and request executor: proofs\<close>

lemma fail_with_eq:
  "fail_with msg s = ((APP_ERROR, None), s\<lparr>ar_status := False, ar_message := msg\<rparr>)"
  by (simp add: fail_with_def set_status_def)

lemma process_json_response_fail:
  "\<not> (200 \<le> status_code r \<and> status_code r < 399) \<Longrightarrow>
   fst (process_json_response r s) = (APP_ERROR, None)"
  by (auto simp: process_json_response_def fail_with_eq Let_def split: sum.split)

lemma process_html_response_fail: "fst (process_html_response r s) = (APP_ERROR, None)"
  by (simp add: process_html_response_def fail_with_eq Let_def)

lemma process_empty_reponse_fail:
  "\<not> (200 \<le> status_code r \<and> status_code r < 399) \<Longrightarrow>
   fst (process_empty_reponse r s) = (APP_ERROR, None)"
  by (auto simp: process_empty_reponse_def fail_with_eq)

lemma process_response_fail:
  "\<not> (200 \<le> status_code r \<and> status_code r < 399) \<Longrightarrow>
   fst (process_response r s) = (APP_ERROR, None)"
  by (simp add: process_response_def Let_def process_json_response_fail
      process_html_response_fail process_empty_reponse_fail fail_with_eq)

text \<open>The classifier changes nothing but the status and message of the action result.\<close>

lemma result_only_refl: "result_only s s"
  by (simp add: result_only_def)

lemma result_only_upd: "result_only s (s\<lparr>ar_status := ok, ar_message := msg\<rparr>)"
  by (simp add: result_only_def)

lemma process_response_frame: "result_only s (snd (process_response r s))"
  by (simp add: process_response_def process_json_response_def process_html_response_def
      process_empty_reponse_def fail_with_eq Let_def result_only_refl result_only_upd
      split: sum.split)

lemma make_rest_call_Reply:
  "next_reply a s = Reply r \<Longrightarrow>
   make_rest_call a s =
     process_response r (s\<lparr>calls := calls s @ [build_request a s], last_response := Some r\<rparr>)"
  by (simp add: make_rest_call_def)

lemma make_rest_call_Reply_fields:
  assumes "next_reply a s = Reply r"
  shows "last_response (snd (make_rest_call a s)) = Some r"
    and "calls (snd (make_rest_call a s)) = calls s @ [build_request a s]"
    and "slept (snd (make_rest_call a s)) = slept s"
    and "server (snd (make_rest_call a s)) = server s"
proof -
  let ?s1 = "s\<lparr>calls := calls s @ [build_request a s], last_response := Some r\<rparr>"
  from process_response_frame [of ?s1 r]
  have "snd (process_response r ?s1) =
        ?s1\<lparr>ar_status := ar_status (snd (process_response r ?s1)),
            ar_message := ar_message (snd (process_response r ?s1))\<rparr>"
    by (simp only: result_only_def)
  then obtain ok msg where e: "snd (process_response r ?s1) = ?s1\<lparr>ar_status := ok, ar_message := msg\<rparr>"
    by blast
  show "last_response (snd (make_rest_call a s)) = Some r"
    and "calls (snd (make_rest_call a s)) = calls s @ [build_request a s]"
    and "slept (snd (make_rest_call a s)) = slept s"
    and "server (snd (make_rest_call a s)) = server s"
    by (simp_all add: make_rest_call_Reply [OF assms] e)
qed

lemma make_rest_call_fail_Reply:
  assumes "next_reply a s = Reply r" and "\<not> (200 \<le> status_code r \<and> status_code r < 399)"
  shows "fst (make_rest_call a s) = (APP_ERROR, None)"
  by (simp add: make_rest_call_Reply [OF assms(1)] process_response_fail [OF assms(2)])

text \<open>A call that is not classified as a failure is returned at once.\<close>

lemma helper_not_fail:
  "\<not> is_fail (fst (fst (make_rest_call a s))) \<Longrightarrow>
   make_rest_call_helper a s = Some (Inr (fst (make_rest_call a s)), snd (make_rest_call a s))"
  by (subst make_rest_call_helper.simps) (cases "make_rest_call a s", auto)

lemma make_rest_call_json_ok:
  assumes "next_reply a s = json_reply code raw body" and "200 \<le> code" and "code < 399"
  shows "make_rest_call a s =
     ((APP_SUCCESS, Some body),
      s\<lparr>calls := calls s @ [build_request a s],
        last_response := Some (json_response code raw body)\<rparr>)"
  using assms
  by (simp add: make_rest_call_def json_reply_def json_response_def process_response_def
      process_json_response_def)

lemma helper_json_ok:
  assumes "next_reply a s = json_reply code raw body" and "200 \<le> code" and "code < 399"
  shows "make_rest_call_helper a s =
     Some (Inr (APP_SUCCESS, Some body),
      s\<lparr>calls := calls s @ [build_request a s],
        last_response := Some (json_response code raw body)\<rparr>)"
  using helper_not_fail [of a s] by (simp add: make_rest_call_json_ok [OF assms] is_fail_def)

lemma py_int_error: "py_int t = Inl e \<Longrightarrow> e = ValueError"
  by (auto simp: py_int_def split: list.splits if_splits)

lemma helper_429_eq:
  assumes "next_reply a s = Reply r" and "status_code r = 429"
  shows "make_rest_call_helper a s =
     (case body_json r of
        Inl err \<Rightarrow> Some (Inl ValueError, snd (make_rest_call a s))
      | Inr (JObj kvs) \<Rightarrow>
          (case map_of kvs ''Retry-After'' of
             None \<Rightarrow> Some (Inr (APP_ERROR, None), snd (make_rest_call a s))
           | Some (JStr retry_time) \<Rightarrow>
               (case parse_retry_time retry_time of
                  Inl e \<Rightarrow> Some (Inl e, snd (make_rest_call a s))
                | Inr None \<Rightarrow> Some (Inr (Retry_after retry_time, None), snd (make_rest_call a s))
                | Inr (Some seconds_to_wait) \<Rightarrow>
                    if seconds_to_wait < 0
                    then Some (Inr (Retry_after retry_time, None), snd (make_rest_call a s))
                    else make_rest_call_helper a
                           ((snd (make_rest_call a s))
                              \<lparr>slept := slept (snd (make_rest_call a s)) @ [seconds_to_wait]\<rparr>))
           | Some _ \<Rightarrow> Some (Inl AttributeError, snd (make_rest_call a s)))
      | Inr _ \<Rightarrow> Some (Inl TypeError, snd (make_rest_call a s)))"
proof -
  define s1 where "s1 = snd (make_rest_call a s)"
  from assms have "fst (make_rest_call a s) = (APP_ERROR, None)"
    by (intro make_rest_call_fail_Reply) auto
  then have m: "make_rest_call a s = ((APP_ERROR, None), s1)"
    unfolding s1_def by (metis prod.collapse)
  from make_rest_call_Reply_fields(1) [OF assms(1)] have l: "last_response s1 = Some r"
    by (simp add: s1_def)
  have "make_rest_call_helper a s =
     (case body_json r of
        Inl err \<Rightarrow> Some (Inl ValueError, s1)
      | Inr (JObj kvs) \<Rightarrow>
          (case map_of kvs ''Retry-After'' of
             None \<Rightarrow> Some (Inr (APP_ERROR, None), s1)
           | Some (JStr retry_time) \<Rightarrow>
               (case parse_retry_time retry_time of
                  Inl e \<Rightarrow> Some (Inl e, s1)
                | Inr None \<Rightarrow> Some (Inr (Retry_after retry_time, None), s1)
                | Inr (Some seconds_to_wait) \<Rightarrow>
                    if seconds_to_wait < 0
                    then Some (Inr (Retry_after retry_time, None), s1)
                    else make_rest_call_helper a (s1\<lparr>slept := slept s1 @ [seconds_to_wait]\<rparr>))
           | Some _ \<Rightarrow> Some (Inl AttributeError, s1))
      | Inr _ \<Rightarrow> Some (Inl TypeError, s1))"
    by (subst make_rest_call_helper.simps) (simp add: m l assms(2) is_fail_def)
  then show ?thesis unfolding s1_def .
qed

text \<open>
  C10.  \<open>_parse_retry_time\<close> is partial.  A string with fewer than two whitespace-separated
  tokens raises \<open>IndexError\<close>; with a second token that lower-cases to \<open>seconds\<close> or
  \<open>minutes\<close> and a first token \<open>int()\<close> does not accept, it raises \<open>ValueError\<close>; it
  returns \<open>None\<close> exactly when a second token exists and lower-cases to neither word.  The
  call sits outside the \<open>try\<close> of \<open>_make_rest_call_helper\<close>, so a 429 response whose
  Retry-After string has no unit token makes the helper raise \<open>IndexError\<close>.
\<close>

theorem parse_retry_time_partial:
  "(length (py_split t) < 2 \<longrightarrow> parse_retry_time t = Inl IndexError) \<and>
   (2 \<le> length (py_split t) \<and> py_lower (py_split t ! 1) \<in> {''seconds'', ''minutes''} \<and>
      (\<forall>v. py_int (py_split t ! 0) \<noteq> Inr v) \<longrightarrow> parse_retry_time t = Inl ValueError) \<and>
   ((parse_retry_time t = Inr None) =
      (2 \<le> length (py_split t) \<and> py_lower (py_split t ! 1) \<notin> {''seconds'', ''minutes''})) \<and>
   (next_reply a s = Reply r \<and> status_code r = 429 \<and> body_json r = Inr (JObj kvs) \<and>
      map_of kvs ''Retry-After'' = Some (JStr t) \<and> length (py_split t) < 2 \<longrightarrow>
      make_rest_call_helper a s = Some (Inl IndexError, snd (make_rest_call a s)))"
proof (intro conjI impI)
  assume "length (py_split t) < 2"
  then show "parse_retry_time t = Inl IndexError"
    by (simp add: parse_retry_time_def)
next
  assume a: "2 \<le> length (py_split t) \<and> py_lower (py_split t ! 1) \<in> {''seconds'', ''minutes''} \<and>
      (\<forall>v. py_int (py_split t ! 0) \<noteq> Inr v)"
  then obtain e where "py_int (py_split t ! 0) = Inl e"
    by (cases "py_int (py_split t ! 0)") auto
  with py_int_error [OF this] a show "parse_retry_time t = Inl ValueError"
    by (auto simp: parse_retry_time_def Let_def)
next
  show "(parse_retry_time t = Inr None) =
      (2 \<le> length (py_split t) \<and> py_lower (py_split t ! 1) \<notin> {''seconds'', ''minutes''})"
    by (auto simp: parse_retry_time_def Let_def split: sum.splits)
next
  assume a: "next_reply a s = Reply r \<and> status_code r = 429 \<and> body_json r = Inr (JObj kvs) \<and>
      map_of kvs ''Retry-After'' = Some (JStr t) \<and> length (py_split t) < 2"
  then have "parse_retry_time t = Inl IndexError" by (simp add: parse_retry_time_def)
  with a show "make_rest_call_helper a s = Some (Inl IndexError, snd (make_rest_call a s))"
    by (simp add: helper_429_eq [of a s r])
qed

text \<open>Facts that evaluate the string primitives on literals.\<close>

lemmas str_eval = py_split_def is_space_def py_lower_def upper_chars_def lower_chars_def
  py_int_def py_strip_def is_digit_def dec_value_def digit_val_def

theorem parse_retry_time_partial_witness:
  "length (py_split ''soon'') < 2 \<and> parse_retry_time ''soon'' = Inl IndexError \<and>
   2 \<le> length (py_split ''x seconds'') \<and> parse_retry_time ''x seconds'' = Inl ValueError \<and>
   parse_retry_time ''5 hours'' = Inr None \<and>
   map_option fst (make_rest_call_helper get_advanced (fresh_connector (rate_limited ''soon'') ''block_ip''))
     = Some (Inl IndexError)"
proof -
  let ?s = "fresh_connector (rate_limited ''soon'') ''block_ip''"
  have 1: "length (py_split ''soon'') < 2" by (simp add: str_eval)
  have 2: "py_split ''x seconds'' = [''x'', ''seconds'']" by (simp add: str_eval)
  have 3: "py_split ''5 hours'' = [''5'', ''hours'']" by (simp add: str_eval)
  have 4: "py_lower ''seconds'' = ''seconds''" by (simp add: str_eval)
  have 5: "py_lower ''hours'' = ''hours''" by (simp add: str_eval)
  have 6: "\<forall>v. py_int ''x'' \<noteq> Inr v" by (simp add: str_eval)
  have 7: "next_reply get_advanced ?s = Reply (rate_limit_response ''soon'')"
    by (simp add: next_reply_def fresh_connector_def rate_limited_def)
  have 8: "status_code (rate_limit_response ''soon'') = 429"
    "body_json (rate_limit_response ''soon'') = Inr (JObj [(''Retry-After'', JStr ''soon'')])"
    by (simp_all add: rate_limit_response_def)
  from parse_retry_time_partial [of "''soon''" get_advanced ?s "rate_limit_response ''soon''"
      "[(''Retry-After'', JStr ''soon'')]"] 1 7 8
  have a: "parse_retry_time ''soon'' = Inl IndexError"
    and d: "make_rest_call_helper get_advanced ?s = Some (Inl IndexError, snd (make_rest_call get_advanced ?s))"
    by simp_all
  from parse_retry_time_partial [of "''x seconds''"] 2 4 6
  have b: "parse_retry_time ''x seconds'' = Inl ValueError" by simp
  from parse_retry_time_partial [of "''5 hours''"] 3 5
  have c: "parse_retry_time ''5 hours'' = Inr None" by simp
  from 1 2 a b c d show ?thesis by simp
qed

text \<open>
  C4.  A 429 response with the body \<open>{"Retry-After": "5 hours"}\<close>: the call is classified
  as the failure \<open>(APP_ERROR, None)\<close>, the helper sends nothing more, and it returns the
  Retry-After string in the place of the status.
\<close>

theorem helper_unknown_unit_returns_retry_after:
  "fst (make_rest_call get_advanced (fresh_connector (rate_limited ''5 hours'') ''block_ip''))
     = (APP_ERROR, None) \<and>
   map_option fst (make_rest_call_helper get_advanced (fresh_connector (rate_limited ''5 hours'') ''block_ip''))
     = Some (Inr (Retry_after ''5 hours'', None)) \<and>
   map_option (length \<circ> calls \<circ> snd)
     (make_rest_call_helper get_advanced (fresh_connector (rate_limited ''5 hours'') ''block_ip''))
     = Some 1"
proof -
  let ?s = "fresh_connector (rate_limited ''5 hours'') ''block_ip''"
  let ?r = "rate_limit_response ''5 hours''"
  have n: "next_reply get_advanced ?s = Reply ?r"
    by (simp add: next_reply_def fresh_connector_def rate_limited_def)
  have p: "parse_retry_time ''5 hours'' = Inr None"
    by (simp add: parse_retry_time_def str_eval)
  have f: "fst (make_rest_call get_advanced ?s) = (APP_ERROR, None)"
    by (rule make_rest_call_fail_Reply [OF n]) (simp add: rate_limit_response_def)
  have h: "make_rest_call_helper get_advanced ?s =
           Some (Inr (Retry_after ''5 hours'', None), snd (make_rest_call get_advanced ?s))"
    by (simp add: helper_429_eq [OF n] p rate_limit_response_def)
  have c: "calls (snd (make_rest_call get_advanced ?s)) = [build_request get_advanced ?s]"
    using make_rest_call_Reply_fields(2) [OF n] by (simp add: fresh_connector_def)
  from f h c show ?thesis by simp
qed

section \<open>HTML responses: proofs\<close>

lemma escape_braces_append: "escape_braces (a @ b) = escape_braces a @ escape_braces b"
  by (simp add: escape_braces_def py_replace_def)

lemma escape_braces_Nil: "escape_braces [] = []"
  by (simp add: escape_braces_def py_replace_def)

lemma escape_braces_hint: "escape_braces html_hint = html_hint"
  by (simp add: escape_braces_def py_replace_def html_hint_def)

lemma py_replace_empty: "rep \<noteq> [] \<Longrightarrow> (py_replace c rep t = []) = (t = [])"
  by (cases t) (simp_all add: py_replace_def)

lemma escape_braces_empty: "(escape_braces t = []) = (t = [])"
  by (simp add: escape_braces_def py_replace_empty)

lemma split_sep_no_sep: "sep \<notin> set t \<Longrightarrow> split_sep sep cur t = [cur @ t]"
  by (induction t arbitrary: cur) auto

lemma process_response_html_eq:
  assumes "content_type r = Some ct" and "py_in_str ''html'' ct" and "\<not> py_in_str ''json'' ct"
  shows "process_response r s =
     ((APP_ERROR, None),
      s\<lparr>ar_status := False,
        ar_message := JStr (html_hint @
          escape_braces (if length (html_error_text r) \<le> 500
            then ''Status Code: '' @ py_str (status_code r) @ ''. Data from server:'' @
                 [CHR 0x0A] @ html_error_text r @ [CHR 0x0A]
            else []))\<rparr>)"
  using assms
  by (simp add: process_response_def process_html_response_def fail_with_eq Let_def
      escape_braces_append escape_braces_hint escape_braces_Nil)

lemma long_html_text: "html_error_text long_html_response = replicate 501 (CHR ''a'')"
proof -
  have ns: "\<forall>c \<in> set (replicate 501 (CHR ''a'')). \<not> is_space c" by (simp add: is_space_def)
  have sp: "split_sep (CHR 0x0A) [] (replicate 501 (CHR ''a'')) = [replicate 501 (CHR ''a'')]"
    using split_sep_no_sep [of "CHR 0x0A" "replicate 501 (CHR ''a'')" "[]"] by simp
  have st: "soup_text long_html_response = Some (replicate 501 (CHR ''a''))"
    by (simp add: long_html_response_def)
  show ?thesis
    by (simp add: html_error_text_def st py_split_on_def sp py_strip_no_space [OF ns])
qed

text \<open>
  C8 (as amended).  For every response whose Content-Type contains \<open>html\<close> and does not
  contain \<open>json\<close>, whatever its status code, the classifier returns the failure
  \<open>(APP_ERROR, None)\<close> and changes nothing but the action result.  The message is the hint
  about the base URL followed, with braces doubled, by the status code and the stripped
  non-blank lines of the tag-free text when these lines have at most 500 characters; a
  longer text is left out whole.
\<close>

theorem process_response_html:
  assumes "content_type r = Some ct" and "py_in_str ''html'' ct" and "\<not> py_in_str ''json'' ct"
  shows "process_response r s =
     ((APP_ERROR, None),
      s\<lparr>ar_status := False,
        ar_message := JStr (html_hint @
          escape_braces (if length (html_error_text r) \<le> 500
            then ''Status Code: '' @ py_str (status_code r) @ ''. Data from server:'' @
                 [CHR 0x0A] @ html_error_text r @ [CHR 0x0A]
            else []))\<rparr>)"
  using assms by (rule process_response_html_eq)

theorem process_response_html_witness:
  "content_type proxy_error_response = Some ''text/html; charset=utf-8'' \<and>
   py_in_str ''html'' ''text/html; charset=utf-8'' \<and>
   \<not> py_in_str ''json'' ''text/html; charset=utf-8'' \<and>
   process_response proxy_error_response (fresh_connector (constant_gateway proxy_error_response) ''block_url'') =
     ((APP_ERROR, None),
      (fresh_connector (constant_gateway proxy_error_response) ''block_url'')
        \<lparr>ar_status := False,
         ar_message := JStr (html_hint @ ''Status Code: 502. Data from server:'' @ [CHR 0x0A] @
            ''Bad Gateway'' @ [CHR 0x0A] @ ''upstream {{zs1}}'' @ [CHR 0x0A])\<rparr>)"
proof -
  have 1: "content_type proxy_error_response = Some ''text/html; charset=utf-8''"
    by (simp add: proxy_error_response_def)
  have 2: "py_in_str ''html'' ''text/html; charset=utf-8''" by simp
  have 3: "\<not> py_in_str ''json'' ''text/html; charset=utf-8''" by simp
  have 4: "html_error_text proxy_error_response = ''Bad Gateway'' @ [CHR 0x0A] @ ''upstream {zs1}''"
    by (simp add: html_error_text_def proxy_error_response_def py_split_on_def py_strip_def is_space_def)
  have 5: "py_str (status_code proxy_error_response) = ''502''"
    by (simp add: proxy_error_response_def py_str_def str_nat.simps)
  from process_response_html [OF 1 2 3] 1 2 3 show ?thesis
    by (simp add: 4 5 escape_braces_def py_replace_def)
qed

text \<open>
  C8 as stated fails twice.  A tag-free text of 501 characters is not cut to 500: the
  message is the bare hint, which is not the message with the truncated detail.  And a
  Content-Type that contains both \<open>html\<close> and \<open>json\<close> is classified as JSON: with status 200
  and a parsable body the outcome is a success.
\<close>

theorem process_response_html_counterexample:
  "process_response long_html_response (fresh_connector (constant_gateway long_html_response) ''block_url'') =
     ((APP_ERROR, None),
      (fresh_connector (constant_gateway long_html_response) ''block_url'')
        \<lparr>ar_status := False, ar_message := JStr html_hint\<rparr>) \<and>
   html_hint \<noteq> spec_html_message long_html_response \<and>
   py_in_str ''html'' ''text/html+json'' \<and>
   process_response html_json_response (fresh_connector (constant_gateway html_json_response) ''block_url'') =
     ((APP_SUCCESS, Some (JObj [])), fresh_connector (constant_gateway html_json_response) ''block_url'')"
proof -
  have ct: "content_type long_html_response = Some ''text/html''"
    by (simp add: long_html_response_def)
  have a: "process_response long_html_response (fresh_connector (constant_gateway long_html_response) ''block_url'') =
     ((APP_ERROR, None),
      (fresh_connector (constant_gateway long_html_response) ''block_url'')
        \<lparr>ar_status := False, ar_message := JStr html_hint\<rparr>)"
    using process_response_html_eq [OF ct, of "fresh_connector (constant_gateway long_html_response) ''block_url''"]
    by (simp add: long_html_text escape_braces_Nil)
  have b: "html_hint \<noteq> spec_html_message long_html_response"
    by (simp add: spec_html_message_def escape_braces_append escape_braces_hint escape_braces_empty)
  have c: "process_response html_json_response (fresh_connector (constant_gateway html_json_response) ''block_url'') =
     ((APP_SUCCESS, Some (JObj [])), fresh_connector (constant_gateway html_json_response) ''block_url'')"
    by (simp add: process_response_def process_json_response_def html_json_response_def)
  from a b c show ?thesis by simp
qed

section \<open>Category lookup: proofs\<close>

lemma find_configured_name_eq:
  "\<forall>c \<in> set cats. json_field c ''id'' \<noteq> None \<Longrightarrow>
   find_configured_name cats ident =
     Inr (find (\<lambda>c. json_field c ''configuredName'' = Some (JStr ident)) cats)"
proof (induction cats)
  case Nil
  then show ?case by simp
next
  case (Cons c cats)
  then obtain kvs where c: "c = JObj kvs" by (cases c) (auto simp: json_field_def)
  from Cons show ?case
    by (auto simp: c py_get_def json_field_def split: option.splits)
qed

lemma find_id_eq:
  "\<forall>c \<in> set cats. json_field c ''id'' \<noteq> None \<Longrightarrow>
   find_id cats ident = Inr (find (\<lambda>c. json_field c ''id'' = Some (JStr ident)) cats)"
proof (induction cats)
  case Nil
  then show ?case by simp
next
  case (Cons c cats)
  then obtain kvs where c: "c = JObj kvs" by (cases c) (auto simp: json_field_def)
  from Cons show ?case
    by (auto simp: c py_subscript_def json_field_def split: option.splits)
qed

lemma get_category_eq:
  assumes "make_rest_call_helper get_categories s = Some (Inr (APP_SUCCESS, Some (JArr cats)), s1)"
    and "\<forall>c \<in> set cats. json_field c ''id'' \<noteq> None"
  shows "get_category ident s =
     (case find (\<lambda>c. json_field c ''configuredName'' = Some (JStr ident)) cats of
        Some cat \<Rightarrow> Some (Inr (APP_SUCCESS, Some cat), s1)
      | None \<Rightarrow>
          (case find (\<lambda>c. json_field c ''id'' = Some (JStr ident)) cats of
             Some cat \<Rightarrow> Some (Inr (APP_SUCCESS, Some cat), s1)
           | None \<Rightarrow>
               Some (Inr (APP_ERROR, None),
                     s1\<lparr>ar_status := False, ar_message := JStr ''Unable to find category''\<rparr>)))"
  by (simp add: get_category_def assms(1) is_fail_def py_iter_def
      find_configured_name_eq [OF assms(2)] find_id_eq [OF assms(2)] fail_with_eq
      split: option.split)



text \<open>
  C6 (as amended).  Once the category list is fetched, and every category in it is a dict
  with an \<open>id\<close>, \<open>_get_category\<close> returns the first category whose \<open>configuredName\<close> equals
  the identifier; when no \<open>configuredName\<close> matches, the first whose \<open>id\<close> equals it; and
  when neither matches, the failure \<open>(APP_ERROR, None)\<close> with the message
  \<open>Unable to find category\<close>.  Nothing but the action result changes after the fetch.
\<close>

theorem get_category_lookup:
  assumes "make_rest_call_helper get_categories s = Some (Inr (APP_SUCCESS, Some (JArr cats)), s1)"
    and "\<forall>c \<in> set cats. json_field c ''id'' \<noteq> None"
  shows "get_category ident s =
     (case find (\<lambda>c. json_field c ''configuredName'' = Some (JStr ident)) cats of
        Some cat \<Rightarrow> Some (Inr (APP_SUCCESS, Some cat), s1)
      | None \<Rightarrow>
          (case find (\<lambda>c. json_field c ''id'' = Some (JStr ident)) cats of
             Some cat \<Rightarrow> Some (Inr (APP_SUCCESS, Some cat), s1)
           | None \<Rightarrow>
               Some (Inr (APP_ERROR, None),
                     s1\<lparr>ar_status := False, ar_message := JStr ''Unable to find category''\<rparr>)))"
  using assms by (rule get_category_eq)

theorem get_category_lookup_witness:
  "map_option fst (get_category ''Phishing'' (fresh_connector category_gateway ''block_url'')) =
     Some (Inr (APP_SUCCESS,
       Some (JObj [(''id'', JStr ''CUSTOM_01''), (''configuredName'', JStr ''Phishing'')]))) \<and>
   map_option fst (get_category ''OTHER_ADULT_MATERIAL'' (fresh_connector category_gateway ''block_url'')) =
     Some (Inr (APP_SUCCESS,
       Some (JObj [(''id'', JStr ''OTHER_ADULT_MATERIAL''), (''dbCategorizedUrls'', JArr [JStr ''a.com''])]))) \<and>
   map_option fst (get_category ''Gambling'' (fresh_connector category_gateway ''block_url'')) =
     Some (Inr (APP_ERROR, None))"
proof -
  let ?s = "fresh_connector category_gateway ''block_url''"
  have n: "next_reply get_categories ?s = json_reply 200 ''(three categories)'' (JArr three_categories)"
    by (simp add: next_reply_def fresh_connector_def category_gateway_def)
  note h = helper_json_ok [OF n]
  have ids: "\<forall>c \<in> set three_categories. json_field c ''id'' \<noteq> None"
    by (simp add: three_categories_def json_field_def)
  have a: "map_option fst (get_category ''Phishing'' ?s) =
     Some (Inr (APP_SUCCESS,
       Some (JObj [(''id'', JStr ''CUSTOM_01''), (''configuredName'', JStr ''Phishing'')])))"
    using get_category_lookup [OF h ids, of "''Phishing''"]
    by (simp add: three_categories_def json_field_def)
  have b: "map_option fst (get_category ''OTHER_ADULT_MATERIAL'' ?s) =
     Some (Inr (APP_SUCCESS,
       Some (JObj [(''id'', JStr ''OTHER_ADULT_MATERIAL''), (''dbCategorizedUrls'', JArr [JStr ''a.com''])])))"
    using get_category_lookup [OF h ids, of "''OTHER_ADULT_MATERIAL''"]
    by (simp add: three_categories_def json_field_def)
  have c: "map_option fst (get_category ''Gambling'' ?s) = Some (Inr (APP_ERROR, None))"
    using get_category_lookup [OF h ids, of "''Gambling''"]
    by (simp add: three_categories_def json_field_def)
  from a b c show ?thesis by simp
qed

text \<open>
  C6 as stated covers every fetched list.  On the list \<open>[{"configuredName": "A"}]\<close> and the
  identifier \<open>B\<close> no name matches, and the search by id reads \<open>cat['id']\<close> of a category
  that has none: \<open>KeyError\<close> leaves \<open>_get_category\<close>, and no \<open>Unable to find category\<close> is
  returned.
\<close>

theorem get_category_lookup_counterexample:
  "map_option fst (get_category ''B'' (fresh_connector unidentified_gateway ''block_url'')) =
     Some (Inl KeyError)"
proof -
  have "next_reply get_categories (fresh_connector unidentified_gateway ''block_url'') =
      json_reply 200 ''(one category)'' (JArr unidentified_categories)"
    by (simp add: next_reply_def fresh_connector_def unidentified_gateway_def)
  note h = helper_json_ok [OF this]
  show ?thesis
    by (simp add: get_category_def h is_fail_def py_iter_def unidentified_categories_def
        py_get_def py_subscript_def)
qed

section \<open>List mutation engine: proofs\<close>

lemma set_json_strs: "set (json_strs xs) = {t. JStr t \<in> set xs}"
  by (induction xs rule: json_strs.induct) auto

lemma py_key_str: "py_key x = JStr t \<longleftrightarrow> x = JStr t"
  by (cases x) auto

lemma str_in_py_distinct: "JStr t \<in> set (py_distinct xs) \<longleftrightarrow> JStr t \<in> set xs"
proof (induction xs rule: py_distinct.induct)
  case 1
  then show ?case by simp
next
  case (2 x xs)
  have "py_key x = JStr t \<longleftrightarrow> x = JStr t" by (rule py_key_str)
  with 2 show ?case by auto
qed

lemma py_distinct_subset: "set (py_distinct xs) \<subseteq> set xs"
  by (induction xs rule: py_distinct.induct) auto

text \<open>\<open>list(set([1, True, "a.com"] + ["b.com"]))\<close> has three values.\<close>

lemma new_list_merges_equal:
  "new_list (JArr [JNum 1, JBool True, JStr ''a.com'']) [''b.com''] ''ADD_TO_LIST'' =
     Inr [JNum 1, JStr ''a.com'', JStr ''b.com'']"
  by (simp add: new_list_def)

lemma hashable_strs: "list_all hashable (map JStr E)"
  by (induction E) auto

lemma py_set_strs: "py_set (JArr (map JStr E)) = Inr (py_distinct (map JStr E))"
  by (simp add: py_set_def py_iter_def hashable_strs)

text \<open>The list \<open>endpoints\<close> that \<open>_filter_endpoints\<close> computes from lists of strings.\<close>

lemma filter_endpoints_strs:
  "filter_endpoints R (JArr (map JStr E)) action name s =
     (let endpoints = (if action = ''REMOVE_FROM_LIST''
                       then filter (\<lambda>x. x \<in> set R) (json_strs (py_distinct (map JStr E)))
                       else remdups (filter (\<lambda>x. x \<notin> set E) R))
      in if endpoints = [] then (Inr (APP_SUCCESS, None), short_circuited name action R s)
         else (Inr (APP_SUCCESS, Some endpoints), s))"
proof -
  have "(\<lambda>x. JStr x \<notin> set (py_distinct (map JStr E))) = (\<lambda>x. x \<notin> set E)"
    by (auto simp: str_in_py_distinct)
  then show ?thesis
    by (simp add: filter_endpoints_def py_set_strs Let_def set_status_def short_circuited_def)
qed

lemma remove_delta_set:
  "set (filter (\<lambda>x. x \<in> set R) (json_strs (py_distinct (map JStr E)))) = set R \<inter> set E"
  by (auto simp: set_json_strs str_in_py_distinct)

lemma add_delta_set: "set (remdups (filter (\<lambda>x. x \<notin> set E) R)) = set R - set E"
  by auto

lemma filter_endpoints_short:
  assumes "nothing_to_write action R E"
  shows "filter_endpoints R (JArr (map JStr E)) action name s =
         (Inr (APP_SUCCESS, None), short_circuited name action R s)"
proof -
  from assms consider
      (add) "action = ''ADD_TO_LIST''" "set R \<subseteq> set E"
    | (remove) "action = ''REMOVE_FROM_LIST''" "set R \<inter> set E = {}"
    unfolding nothing_to_write_def by blast
  then show ?thesis
  proof cases
    case add
    from add(2) have "set (remdups (filter (\<lambda>x. x \<notin> set E) R)) = {}"
      unfolding add_delta_set by blast
    then have "remdups (filter (\<lambda>x. x \<notin> set E) R) = []" by (simp only: set_empty)
    with add(1) show ?thesis by (simp add: filter_endpoints_strs)
  next
    case remove
    from remove(2) have "set (filter (\<lambda>x. x \<in> set R) (json_strs (py_distinct (map JStr E)))) = {}"
      unfolding remove_delta_set .
    then have "filter (\<lambda>x. x \<in> set R) (json_strs (py_distinct (map JStr E))) = []"
      by (simp only: set_empty)
    with remove(1) show ?thesis by (simp add: filter_endpoints_strs)
  qed
qed

lemma short_circuited_fields:
  "calls (short_circuited name action R s) = calls s"
  "ar_summary (short_circuited name action R s) ''updated'' = Some []"
  "ar_summary (short_circuited name action R s) ''ignored'' = Some R"
  "ar_status (short_circuited name action R s) = True"
  by (simp_all add: short_circuited_def)

lemma amend_blocklist_short:
  assumes "make_rest_call_helper get_advanced s = Some (Inr (APP_SUCCESS, Some resp), s1)"
    and "py_get resp ''blacklistUrls'' (JArr []) = Inr (JArr (map JStr E))"
    and "nothing_to_write action R E"
  shows "amend_blocklist R action s = Some (Inr APP_SUCCESS, short_circuited ''Blocklist'' action R s1)"
  by (simp add: amend_blocklist_def check_blocklist_def get_blocklist_def assms(1,2) is_fail_def
      filter_endpoints_short [OF assms(3)])

lemma amend_allowlist_short:
  assumes "make_rest_call_helper get_security s = Some (Inr (APP_SUCCESS, Some resp), s1)"
    and "py_get resp ''whitelistUrls'' (JArr []) = Inr (JArr (map JStr E))"
    and "nothing_to_write action R E"
  shows "amend_allowlist R action s =
         Some (Inr APP_SUCCESS,
               short_circuited ''Allowlist'' action R (s1\<lparr>self_allowlist := JArr (map JStr E)\<rparr>))"
  by (simp add: amend_allowlist_def check_allowlist_def get_allowlist_def assms(1,2) is_fail_def
      filter_endpoints_short [OF assms(3)])

lemma amend_category_short:
  assumes "get_category ident s = Some (Inr (APP_SUCCESS, Some cat), s1)"
    and "py_get cat ''dbCategorizedUrls'' (JArr []) = Inr (JArr (map JStr E))"
    and "nothing_to_write action R E"
  shows "amend_category R ident action s =
         Some (Inr APP_SUCCESS,
               short_circuited ''Category'' action R (s1\<lparr>self_category := Some cat\<rparr>))"
  by (simp add: amend_category_def check_category_def assms(1,2) is_fail_def
      filter_endpoints_short [OF assms(3)])

text \<open>
  C3.  When the delta is empty (\<open>ADD_TO_LIST\<close> with every requested endpoint already
  listed, or \<open>REMOVE_FROM_LIST\<close> with none of them listed), each of the three mutations
  returns success with \<open>updated = []\<close> and \<open>ignored\<close> the requested list, and the requests
  sent are those of the fetch: no write follows.  So a second \<open>ADD_TO_LIST\<close> of the same
  endpoints, on a gateway that kept the first, updates nothing and writes nothing.
\<close>

theorem amend_short_circuit:
  "(make_rest_call_helper get_advanced s = Some (Inr (APP_SUCCESS, Some resp), fetched) \<and>
    py_get resp ''blacklistUrls'' (JArr []) = Inr (JArr (map JStr E)) \<and>
    nothing_to_write action R E \<longrightarrow>
      (\<exists>s'. amend_blocklist R action s = Some (Inr APP_SUCCESS, s') \<and> calls s' = calls fetched \<and>
            ar_summary s' ''updated'' = Some [] \<and> ar_summary s' ''ignored'' = Some R)) \<and>
   (make_rest_call_helper get_security s = Some (Inr (APP_SUCCESS, Some resp), fetched) \<and>
    py_get resp ''whitelistUrls'' (JArr []) = Inr (JArr (map JStr E)) \<and>
    nothing_to_write action R E \<longrightarrow>
      (\<exists>s'. amend_allowlist R action s = Some (Inr APP_SUCCESS, s') \<and> calls s' = calls fetched \<and>
            ar_summary s' ''updated'' = Some [] \<and> ar_summary s' ''ignored'' = Some R)) \<and>
   (get_category ident s = Some (Inr (APP_SUCCESS, Some cat), fetched) \<and>
    py_get cat ''dbCategorizedUrls'' (JArr []) = Inr (JArr (map JStr E)) \<and>
    nothing_to_write action R E \<longrightarrow>
      (\<exists>s'. amend_category R ident action s = Some (Inr APP_SUCCESS, s') \<and> calls s' = calls fetched \<and>
            ar_summary s' ''updated'' = Some [] \<and> ar_summary s' ''ignored'' = Some R))"
  by (auto simp: amend_blocklist_short amend_allowlist_short amend_category_short
      short_circuited_fields)

lemma process_response_no_content:
  "process_response no_content s = ((APP_SUCCESS, Some (JObj [])), s)"
  by (simp add: process_response_def process_empty_reponse_def no_content_def)

lemma helper_no_content:
  assumes "next_reply a s = Reply no_content"
  shows "make_rest_call_helper a s =
     Some (Inr (APP_SUCCESS, Some (JObj [])),
           s\<lparr>calls := calls s @ [build_request a s], last_response := Some no_content\<rparr>)"
  using helper_not_fail [of a s]
  by (simp add: make_rest_call_Reply [OF assms] process_response_no_content is_fail_def)

lemma helper_blocklist_response:
  assumes "next_reply a s = Reply (blocklist_response bl)"
  shows "make_rest_call_helper a s =
     Some (Inr (APP_SUCCESS, Some (JObj [(''blacklistUrls'', JArr (map JStr bl))])),
           s\<lparr>calls := calls s @ [build_request a s],
             last_response := Some (blocklist_response bl)\<rparr>)"
  using assms unfolding blocklist_response_def
  by (intro helper_json_ok) (simp_all add: json_reply_def)

text \<open>Blocking two endpoints on the gateway that keeps a block list, from an empty list.\<close>

lemma block_once:
  "amend_blocklist [''a.com'', ''b.com''] ''ADD_TO_LIST'' (fresh_connector blocklist_gateway ''block_url'') =
     Some (Inr APP_SUCCESS, blocked_once)"
proof -
  let ?R = "[''a.com'', ''b.com'']"
  let ?s0 = "fresh_connector blocklist_gateway ''block_url''"
  let ?g = "build_request get_advanced ?s0"
  let ?p = "build_request (post_blacklist ''ADD_TO_LIST'' ?R) ?s0"
  define s1 where "s1 = ?s0\<lparr>calls := calls ?s0 @ [?g], last_response := Some (blocklist_response [])\<rparr>"
  have g1: "next_reply get_advanced ?s0 = Reply (blocklist_response [])"
    by (simp add: next_reply_def fresh_connector_def blocklist_gateway_def build_request_def
        get_advanced_def apply_write_def)
  have h1: "make_rest_call_helper get_advanced ?s0 =
            Some (Inr (APP_SUCCESS, Some (JObj [(''blacklistUrls'', JArr (map JStr []))])), s1)"
    unfolding s1_def by (rule helper_blocklist_response [OF g1])
  have f1: "filter_endpoints ?R (JArr []) ''ADD_TO_LIST'' ''Blocklist'' s1 =
            (Inr (APP_SUCCESS, Some ?R), s1)"
    using filter_endpoints_strs [of ?R "[]" "''ADD_TO_LIST''" "''Blocklist''" s1] by simp
  have p_eq: "build_request (post_blacklist ''ADD_TO_LIST'' ?R) s1 = ?p"
    by (simp add: build_request_def s1_def fresh_connector_def)
  have p1: "next_reply (post_blacklist ''ADD_TO_LIST'' ?R) s1 = Reply no_content"
    by (simp add: next_reply_def p_eq) 
       (simp add: s1_def fresh_connector_def blocklist_gateway_def build_request_def post_blacklist_def)
  have w1: "make_rest_call_helper (post_blacklist ''ADD_TO_LIST'' ?R) s1 =
            Some (Inr (APP_SUCCESS, Some (JObj [])),
                  s1\<lparr>calls := calls s1 @ [?p], last_response := Some no_content\<rparr>)"
    using helper_no_content [OF p1] by (simp add: p_eq)
  have "amend_blocklist ?R ''ADD_TO_LIST'' ?s0 =
        Some (Inr APP_SUCCESS,
          s1\<lparr>calls := calls s1 @ [?p], last_response := Some no_content,
             ar_summary := [''updated'' \<mapsto> ?R, ''ignored'' \<mapsto> []],
             ar_status := True, ar_message := JStr []\<rparr>)"
    using f1
    by (simp add: amend_blocklist_def check_blocklist_def get_blocklist_def h1 py_get_def w1
        is_fail_def report_summary_def set_status_def)
  then show ?thesis by (simp add: s1_def fresh_connector_def blocked_once_def)
qed

lemma block_again_fetch:
  "make_rest_call_helper get_advanced blocked_once =
     Some (Inr (APP_SUCCESS, Some (JObj [(''blacklistUrls'', JArr (map JStr [''a.com'', ''b.com'']))])),
           blocked_once\<lparr>calls := calls blocked_once @ [build_request get_advanced blocked_once],
             last_response := Some (blocklist_response [''a.com'', ''b.com''])\<rparr>)"
proof -
  have "next_reply get_advanced blocked_once = Reply (blocklist_response [''a.com'', ''b.com''])"
    by (simp add: next_reply_def blocked_once_def fresh_connector_def blocklist_gateway_def
        build_request_def get_advanced_def post_blacklist_def apply_write_def)
  then show ?thesis by (rule helper_blocklist_response)
qed

theorem amend_short_circuit_witness:
  "amend_blocklist [''a.com'', ''b.com''] ''ADD_TO_LIST'' (fresh_connector blocklist_gateway ''block_url'') =
     Some (Inr APP_SUCCESS, blocked_once) \<and>
   ar_summary blocked_once ''updated'' = Some [''a.com'', ''b.com''] \<and>
   map rq_method (calls blocked_once) = [GET, POST] \<and>
   (\<exists>s'. amend_blocklist [''a.com'', ''b.com''] ''ADD_TO_LIST'' blocked_once = Some (Inr APP_SUCCESS, s') \<and>
      map rq_method (calls s') = [GET, POST, GET] \<and>
      ar_summary s' ''updated'' = Some [] \<and> ar_summary s' ''ignored'' = Some [''a.com'', ''b.com'']) \<and>
   (\<exists>s'. amend_allowlist [''b.com'', ''a.com''] ''ADD_TO_LIST'' (fresh_connector allowlist_gateway ''allow_url'') =
        Some (Inr APP_SUCCESS, s') \<and>
      map rq_method (calls s') = [GET] \<and>
      ar_summary s' ''updated'' = Some [] \<and> ar_summary s' ''ignored'' = Some [''b.com'', ''a.com'']) \<and>
   (\<exists>s'. amend_category [''x.com''] ''OTHER_ADULT_MATERIAL'' ''REMOVE_FROM_LIST''
          (fresh_connector category_gateway ''unblock_url'') = Some (Inr APP_SUCCESS, s') \<and>
      map rq_method (calls s') = [GET] \<and>
      ar_summary s' ''updated'' = Some [] \<and> ar_summary s' ''ignored'' = Some [''x.com''])"
proof -
  let ?R = "[''a.com'', ''b.com'']"
  have n1: "nothing_to_write ''ADD_TO_LIST'' ?R ?R" by (simp add: nothing_to_write_def)
  have pg1: "py_get (JObj [(''blacklistUrls'', JArr (map JStr ?R))]) ''blacklistUrls'' (JArr []) =
             Inr (JArr (map JStr ?R))"
    by (simp add: py_get_def)
  from amend_short_circuit [where s = blocked_once and E = ?R and action = "''ADD_TO_LIST''" and R = ?R
      and resp = "JObj [(''blacklistUrls'', JArr (map JStr ?R))]"
      and fetched = "blocked_once\<lparr>calls := calls blocked_once @ [build_request get_advanced blocked_once],
             last_response := Some (blocklist_response [''a.com'', ''b.com''])\<rparr>"]
    block_again_fetch pg1 n1
  obtain s' where a: "amend_blocklist ?R ''ADD_TO_LIST'' blocked_once = Some (Inr APP_SUCCESS, s')"
      "calls s' = calls blocked_once @ [build_request get_advanced blocked_once]"
      "ar_summary s' ''updated'' = Some []" "ar_summary s' ''ignored'' = Some ?R"
    by auto
  have b: "map rq_method (calls blocked_once) = [GET, POST]"
    "rq_method (build_request get_advanced blocked_once) = GET"
    by (simp_all add: blocked_once_def build_request_def get_advanced_def post_blacklist_def)
  have c: "ar_summary blocked_once ''updated'' = Some ?R" by (simp add: blocked_once_def)
  \<comment> \<open>allow list\<close>
  let ?sa = "fresh_connector allowlist_gateway ''allow_url''"
  let ?A = "[''b.com'', ''a.com'']"
  have "next_reply get_security ?sa =
        json_reply 200 (''{'' @ quoted ''whitelistUrls'' @ '': [...]}'')
          (JObj [(''whitelistUrls'', JArr (map JStr ?R))])"
    by (simp add: next_reply_def fresh_connector_def allowlist_gateway_def)
  note ha = helper_json_ok [OF this]
  have n2: "nothing_to_write ''ADD_TO_LIST'' ?A ?R" by (simp add: nothing_to_write_def)
  have pg2: "py_get (JObj [(''whitelistUrls'', JArr (map JStr ?R))]) ''whitelistUrls'' (JArr []) =
             Inr (JArr (map JStr ?R))"
    by (simp add: py_get_def)
  from amend_short_circuit [where s = ?sa and E = ?R and action = "''ADD_TO_LIST''" and R = ?A
      and resp = "JObj [(''whitelistUrls'', JArr (map JStr ?R))]"
      and fetched = "?sa\<lparr>calls := calls ?sa @ [build_request get_security ?sa],
             last_response := Some (json_response 200 (''{'' @ quoted ''whitelistUrls'' @ '': [...]}'')
               (JObj [(''whitelistUrls'', JArr (map JStr ?R))]))\<rparr>"]
    ha pg2 n2
  obtain sa' where d: "amend_allowlist ?A ''ADD_TO_LIST'' ?sa = Some (Inr APP_SUCCESS, sa')"
      "calls sa' = calls ?sa @ [build_request get_security ?sa]"
      "ar_summary sa' ''updated'' = Some []" "ar_summary sa' ''ignored'' = Some ?A"
    by auto
  have e: "map rq_method (calls ?sa @ [build_request get_security ?sa]) = [GET]"
    by (simp add: fresh_connector_def build_request_def get_security_def)
  \<comment> \<open>category\<close>
  let ?sc = "fresh_connector category_gateway ''unblock_url''"
  let ?cat = "JObj [(''id'', JStr ''OTHER_ADULT_MATERIAL''), (''dbCategorizedUrls'', JArr [JStr ''a.com''])]"
  have "next_reply get_categories ?sc = json_reply 200 ''(three categories)'' (JArr three_categories)"
    by (simp add: next_reply_def fresh_connector_def category_gateway_def)
  note hc = helper_json_ok [OF this]
  have ids: "\<forall>c \<in> set three_categories. json_field c ''id'' \<noteq> None"
    by (simp add: three_categories_def json_field_def)
  have gc: "get_category ''OTHER_ADULT_MATERIAL'' ?sc =
            Some (Inr (APP_SUCCESS, Some ?cat),
                  ?sc\<lparr>calls := calls ?sc @ [build_request get_categories ?sc],
                       last_response := Some (json_response 200 ''(three categories)'' (JArr three_categories))\<rparr>)"
    using get_category_eq [OF hc ids, of "''OTHER_ADULT_MATERIAL''"]
    by (simp add: three_categories_def json_field_def)
  have n3: "nothing_to_write ''REMOVE_FROM_LIST'' [''x.com''] [''a.com'']"
    by (simp add: nothing_to_write_def)
  have pg3: "py_get ?cat ''dbCategorizedUrls'' (JArr []) = Inr (JArr (map JStr [''a.com'']))"
    by (simp add: py_get_def)
  from amend_short_circuit [where s = ?sc and E = "[''a.com'']" and action = "''REMOVE_FROM_LIST''"
      and R = "[''x.com'']" and ident = "''OTHER_ADULT_MATERIAL''" and cat = ?cat
      and fetched = "?sc\<lparr>calls := calls ?sc @ [build_request get_categories ?sc],
             last_response := Some (json_response 200 ''(three categories)'' (JArr three_categories))\<rparr>"]
    gc pg3 n3
  obtain sc' where f: "amend_category [''x.com''] ''OTHER_ADULT_MATERIAL'' ''REMOVE_FROM_LIST'' ?sc =
        Some (Inr APP_SUCCESS, sc')"
      "calls sc' = calls ?sc @ [build_request get_categories ?sc]"
      "ar_summary sc' ''updated'' = Some []" "ar_summary sc' ''ignored'' = Some [''x.com'']"
    by auto
  have g: "map rq_method (calls ?sc @ [build_request get_categories ?sc]) = [GET]"
    by (simp add: fresh_connector_def build_request_def get_categories_def)
  from block_once a b c d e f g show ?thesis by simp
qed

lemma filter_endpoints_result:
  assumes "filter_endpoints R ex action name s = (Inr (rv, fe), s')"
  shows "rv = APP_SUCCESS \<and> (case fe of None \<Rightarrow> summary_covers R s' | Some w \<Rightarrow> set w \<subseteq> set R)"
proof (cases "py_set ex")
  case (Inl e)
  with assms show ?thesis by (simp add: filter_endpoints_def)
next
  case (Inr xs)
  with assms show ?thesis
    by (auto simp: filter_endpoints_def Let_def set_status_def summary_covers_def
        split: if_splits)
qed

lemma report_summary_covers:
  assumes "set w \<subseteq> set R"
  shows "fst (report_summary R w s) = APP_SUCCESS \<and> summary_covers R (snd (report_summary R w s))"
  using assms by (auto simp: report_summary_def set_status_def summary_covers_def)

lemma report_summary_coversD:
  "report_summary R w s = (rv, s') \<Longrightarrow> set w \<subseteq> set R \<Longrightarrow> summary_covers R s'"
  using report_summary_covers [of w R s] by simp

lemma summary_covers_add_data:
  "summary_covers R (snd (report_summary R w (add_data d s))) = summary_covers R (snd (report_summary R w s))"
  by (simp add: report_summary_def set_status_def summary_covers_def add_data_def)

lemma check_blocklist_result:
  assumes "check_blocklist R action s = Some (Inr (rv, fe), s1)"
  shows "(rv = APP_ERROR \<and> fe = None) \<or>
         (rv = APP_SUCCESS \<and> (case fe of None \<Rightarrow> summary_covers R s1 | Some w \<Rightarrow> set w \<subseteq> set R))"
  using assms
  by (auto simp: check_blocklist_def is_fail_def
      split: option.splits sum.splits prod.splits if_splits
      dest!: filter_endpoints_result)

lemma check_allowlist_result:
  assumes "check_allowlist R action s = Some (Inr (rv, fe), s1)"
  shows "(rv = APP_ERROR \<and> fe = None) \<or>
         (rv = APP_SUCCESS \<and> (case fe of None \<Rightarrow> summary_covers R s1 | Some w \<Rightarrow> set w \<subseteq> set R))"
  using assms
  by (auto simp: check_allowlist_def is_fail_def
      split: option.splits sum.splits prod.splits if_splits
      dest!: filter_endpoints_result)

lemma check_category_result:
  assumes "check_category R ident action s = Some (Inr (rv, fe), s1)"
  shows "(rv = APP_ERROR \<and> fe = None) \<or>
         (rv = APP_SUCCESS \<and> (case fe of None \<Rightarrow> summary_covers R s1 | Some w \<Rightarrow> set w \<subseteq> set R))"
  using assms
  by (auto simp: check_category_def is_fail_def
      split: option.splits sum.splits prod.splits if_splits
      dest!: filter_endpoints_result)

lemma amend_blocklist_covers:
  assumes "amend_blocklist R action s = Some (Inr APP_SUCCESS, s')"
  shows "summary_covers R s'"
proof (cases "check_blocklist R action s")
  case None
  with assms show ?thesis by (simp add: amend_blocklist_def)
next
  case (Some c)
  obtain res s1 where c: "c = (res, s1)" by (cases c)
  show ?thesis
  proof (cases res)
    case (Inl e)
    with assms Some c show ?thesis by (simp add: amend_blocklist_def)
  next
    case (Inr p)
    obtain rv fe where p: "p = (rv, fe)" by (cases p)
    from Some c Inr p have chk: "check_blocklist R action s = Some (Inr (rv, fe), s1)" by simp
    note r = check_blocklist_result [OF chk]
    show ?thesis
    proof (cases fe)
      case None
      with assms chk r show ?thesis by (auto simp: amend_blocklist_def)
    next
      case (Some w)
      with r have w: "set w \<subseteq> set R" and rv: "rv = APP_SUCCESS" by auto
      from assms chk Some rv w show ?thesis
        by (auto simp: amend_blocklist_def is_fail_def
            split: option.splits sum.splits prod.splits if_splits
            dest: report_summary_coversD)
    qed
  qed
qed

lemma amend_allowlist_covers:
  assumes "amend_allowlist R action s = Some (Inr APP_SUCCESS, s')"
  shows "summary_covers R s'"
proof (cases "check_allowlist R action s")
  case None
  with assms show ?thesis by (simp add: amend_allowlist_def)
next
  case (Some c)
  obtain res s1 where c: "c = (res, s1)" by (cases c)
  show ?thesis
  proof (cases res)
    case (Inl e)
    with assms Some c show ?thesis by (simp add: amend_allowlist_def)
  next
    case (Inr p)
    obtain rv fe where p: "p = (rv, fe)" by (cases p)
    from Some c Inr p have chk: "check_allowlist R action s = Some (Inr (rv, fe), s1)" by simp
    note r = check_allowlist_result [OF chk]
    show ?thesis
    proof (cases fe)
      case None
      with assms chk r show ?thesis by (auto simp: amend_allowlist_def)
    next
      case (Some w)
      with r have w: "set w \<subseteq> set R" and rv: "rv = APP_SUCCESS" by auto
      from assms chk Some rv w show ?thesis
        by (auto simp: amend_allowlist_def is_fail_def
            split: option.splits sum.splits prod.splits if_splits
            dest: report_summary_coversD)
    qed
  qed
qed

lemma amend_category_covers:
  assumes "amend_category R ident action s = Some (Inr APP_SUCCESS, s')"
  shows "summary_covers R s'"
proof (cases "check_category R ident action s")
  case None
  with assms show ?thesis by (simp add: amend_category_def)
next
  case (Some c)
  obtain res s1 where c: "c = (res, s1)" by (cases c)
  show ?thesis
  proof (cases res)
    case (Inl e)
    with assms Some c show ?thesis by (simp add: amend_category_def)
  next
    case (Inr p)
    obtain rv fe where p: "p = (rv, fe)" by (cases p)
    from Some c Inr p have chk: "check_category R ident action s = Some (Inr (rv, fe), s1)" by simp
    note r = check_category_result [OF chk]
    show ?thesis
    proof (cases fe)
      case None
      with assms chk r show ?thesis by (auto simp: amend_category_def)
    next
      case (Some w)
      with r have w: "set w \<subseteq> set R" and rv: "rv = APP_SUCCESS" by auto
      from assms chk Some rv w show ?thesis
        by (auto simp: amend_category_def is_fail_def Let_def
            split: option.splits sum.splits prod.splits if_splits
            dest: report_summary_coversD)
    qed
  qed
qed

lemma filter_endpoints_add_delta:
  "\<exists>fe. fst (filter_endpoints R (JArr (map JStr E)) ''ADD_TO_LIST'' name s) = Inr (APP_SUCCESS, fe) \<and>
        set (to_write fe) = set R - set E"
proof -
  define W where "W = remdups (filter (\<lambda>x. x \<notin> set E) R)"
  have sw: "set W = set R - set E" unfolding W_def by (rule add_delta_set)
  have fe: "filter_endpoints R (JArr (map JStr E)) ''ADD_TO_LIST'' name s =
      (if W = [] then (Inr (APP_SUCCESS, None), short_circuited name ''ADD_TO_LIST'' R s)
       else (Inr (APP_SUCCESS, Some W), s))"
    unfolding filter_endpoints_strs W_def Let_def by simp
  show ?thesis
  proof (cases "W = []")
    case True
    with sw have "set (to_write None) = set R - set E" by (simp add: to_write_def)
    with True fe show ?thesis by (intro exI [of _ None]) simp
  next
    case False
    from sw have "set (to_write (Some W)) = set R - set E" by (simp add: to_write_def)
    with False fe show ?thesis by (intro exI [of _ "Some W"]) simp
  qed
qed

lemma filter_endpoints_remove_delta:
  "\<exists>fe. fst (filter_endpoints R (JArr (map JStr E)) ''REMOVE_FROM_LIST'' name s) = Inr (APP_SUCCESS, fe) \<and>
        set (to_write fe) = set R \<inter> set E"
proof -
  define W where "W = filter (\<lambda>x. x \<in> set R) (json_strs (py_distinct (map JStr E)))"
  have sw: "set W = set R \<inter> set E" unfolding W_def by (rule remove_delta_set)
  have fe: "filter_endpoints R (JArr (map JStr E)) ''REMOVE_FROM_LIST'' name s =
      (if W = [] then (Inr (APP_SUCCESS, None), short_circuited name ''REMOVE_FROM_LIST'' R s)
       else (Inr (APP_SUCCESS, Some W), s))"
    unfolding filter_endpoints_strs W_def Let_def by simp
  show ?thesis
  proof (cases "W = []")
    case True
    with sw have "set (to_write None) = set R \<inter> set E" by (simp add: to_write_def)
    with True fe show ?thesis by (intro exI [of _ None]) simp
  next
    case False
    from sw have "set (to_write (Some W)) = set R \<inter> set E" by (simp add: to_write_def)
    with False fe show ?thesis by (intro exI [of _ "Some W"]) simp
  qed
qed

text \<open>
  C2.  Read as sets, the list \<open>_filter_endpoints\<close> hands on for writing is \<open>R - E\<close> under
  \<open>ADD_TO_LIST\<close> and \<open>R \<inter> E\<close> under \<open>REMOVE_FROM_LIST\<close>; and whenever a block-list,
  allow-list or category mutation returns success, the summary it reports has
  \<open>set(updated) \<union> set(ignored) = set(R)\<close>.
\<close>

theorem complementary_delta:
  "(\<exists>fe. fst (filter_endpoints R (JArr (map JStr E)) ''ADD_TO_LIST'' name s) = Inr (APP_SUCCESS, fe) \<and>
         set (to_write fe) = set R - set E) \<and>
   (\<exists>fe. fst (filter_endpoints R (JArr (map JStr E)) ''REMOVE_FROM_LIST'' name s) = Inr (APP_SUCCESS, fe) \<and>
         set (to_write fe) = set R \<inter> set E) \<and>
   (amend_blocklist R action s = Some (Inr APP_SUCCESS, s') \<longrightarrow> summary_covers R s') \<and>
   (amend_allowlist R action s = Some (Inr APP_SUCCESS, s') \<longrightarrow> summary_covers R s') \<and>
   (amend_category R ident action s = Some (Inr APP_SUCCESS, s') \<longrightarrow> summary_covers R s')"
  using filter_endpoints_add_delta [of R E name s] filter_endpoints_remove_delta [of R E name s]
    amend_blocklist_covers [of R action s s'] amend_allowlist_covers [of R action s s']
    amend_category_covers [of R ident action s s']
  by blast

lemma allow_once:
  "\<exists>s'. amend_allowlist [''c.com''] ''ADD_TO_LIST'' (fresh_connector allowlist_gateway ''allow_url'') =
          Some (Inr APP_SUCCESS, s')"
proof -
  let ?s = "fresh_connector allowlist_gateway ''allow_url''"
  let ?body = "JObj [(''whitelistUrls'', JArr (map JStr [''a.com'', ''b.com'']))]"
  let ?raw = "''{'' @ quoted ''whitelistUrls'' @ '': [...]}''"
  have reply: "next_reply a (s\<lparr>server := allowlist_gateway\<rparr>) = json_reply 200 ?raw ?body" for a s
    by (simp add: next_reply_def allowlist_gateway_def)
  have srv: "?s = ?s\<lparr>server := allowlist_gateway\<rparr>" by (simp add: fresh_connector_def)
  define s1 where "s1 = ?s\<lparr>calls := calls ?s @ [build_request get_security ?s],
      last_response := Some (json_response 200 ?raw ?body)\<rparr>"
  have h1: "make_rest_call_helper get_security ?s = Some (Inr (APP_SUCCESS, Some ?body), s1)"
    unfolding s1_def using reply [of get_security ?s] srv by (intro helper_json_ok) simp_all
  define s2 where "s2 = s1\<lparr>self_allowlist := JArr (map JStr [''a.com'', ''b.com''])\<rparr>"
  have f: "filter_endpoints [''c.com''] (JArr (map JStr [''a.com'', ''b.com''])) ''ADD_TO_LIST'' ''Allowlist'' s2 =
           (Inr (APP_SUCCESS, Some [''c.com'']), s2)"
    unfolding filter_endpoints_strs by simp
  have chk: "check_allowlist [''c.com''] ''ADD_TO_LIST'' ?s = Some (Inr (APP_SUCCESS, Some [''c.com'']), s2)"
    using f by (simp add: check_allowlist_def get_allowlist_def h1 is_fail_def py_get_def s2_def)
  have nl: "new_list (self_allowlist s2) [''c.com''] ''ADD_TO_LIST'' =
            Inr [JStr ''a.com'', JStr ''b.com'', JStr ''c.com'']"
    by (simp add: s2_def new_list_def)
  let ?put = "put_security [JStr ''a.com'', JStr ''b.com'', JStr ''c.com'']"
  have srv2: "s2 = s2\<lparr>server := allowlist_gateway\<rparr>"
    by (simp add: s2_def s1_def fresh_connector_def)
  have h2: "make_rest_call_helper ?put s2 =
            Some (Inr (APP_SUCCESS, Some ?body),
                  s2\<lparr>calls := calls s2 @ [build_request ?put s2],
                     last_response := Some (json_response 200 ?raw ?body)\<rparr>)"
    using reply [of ?put s2] srv2 by (intro helper_json_ok) simp_all
  show ?thesis
    by (simp add: amend_allowlist_def chk nl h2 is_fail_def report_summary_def set_status_def)
qed

lemma get_category_other:
  "get_category ''OTHER_ADULT_MATERIAL'' (fresh_connector category_gateway ident) =
     Some (Inr (APP_SUCCESS,
             Some (JObj [(''id'', JStr ''OTHER_ADULT_MATERIAL''), (''dbCategorizedUrls'', JArr [JStr ''a.com''])])),
           (fresh_connector category_gateway ident)
             \<lparr>calls := calls (fresh_connector category_gateway ident) @
                         [build_request get_categories (fresh_connector category_gateway ident)],
              last_response := Some (json_response 200 ''(three categories)'' (JArr three_categories))\<rparr>)"
proof -
  let ?sc = "fresh_connector category_gateway ident"
  have "next_reply get_categories ?sc = json_reply 200 ''(three categories)'' (JArr three_categories)"
    by (simp add: next_reply_def fresh_connector_def category_gateway_def)
  note hc = helper_json_ok [OF this]
  have ids: "\<forall>c \<in> set three_categories. json_field c ''id'' \<noteq> None"
    by (simp add: three_categories_def json_field_def)
  show ?thesis
    using get_category_eq [OF hc ids, of "''OTHER_ADULT_MATERIAL''"]
    by (simp add: three_categories_def json_field_def)
qed

lemma categorize_once:
  "\<exists>s'. amend_category [''x.com''] ''OTHER_ADULT_MATERIAL'' ''ADD_TO_LIST''
            (fresh_connector category_gateway ''block_url'') = Some (Inr APP_SUCCESS, s')"
proof -
  let ?s = "fresh_connector category_gateway ''block_url''"
  let ?cat = "JObj [(''id'', JStr ''OTHER_ADULT_MATERIAL''), (''dbCategorizedUrls'', JArr [JStr ''a.com''])]"
  let ?cat' = "JObj [(''id'', JStr ''OTHER_ADULT_MATERIAL''),
                     (''dbCategorizedUrls'', JArr [JStr ''a.com'', JStr ''x.com''])]"
  define s1 where "s1 = ?s\<lparr>calls := calls ?s @ [build_request get_categories ?s],
      last_response := Some (json_response 200 ''(three categories)'' (JArr three_categories))\<rparr>"
  have gc: "get_category ''OTHER_ADULT_MATERIAL'' ?s = Some (Inr (APP_SUCCESS, Some ?cat), s1)"
    unfolding s1_def by (rule get_category_other)
  define s2 where "s2 = s1\<lparr>self_category := Some ?cat\<rparr>"
  have f: "filter_endpoints [''x.com''] (JArr (map JStr [''a.com''])) ''ADD_TO_LIST'' ''Category'' s2 =
           (Inr (APP_SUCCESS, Some [''x.com'']), s2)"
    unfolding filter_endpoints_strs by simp
  have chk: "check_category [''x.com''] ''OTHER_ADULT_MATERIAL'' ''ADD_TO_LIST'' ?s =
             Some (Inr (APP_SUCCESS, Some [''x.com'']), s2)"
    using f by (simp add: check_category_def gc is_fail_def py_get_def s2_def)
  have c2: "self_category s2 = Some ?cat" by (simp add: s2_def)
  have nl: "new_list (JArr [JStr ''a.com'']) [''x.com''] ''ADD_TO_LIST'' = Inr [JStr ''a.com'', JStr ''x.com'']"
    by (simp add: new_list_def)
  have si: "py_setitem ?cat ''dbCategorizedUrls'' (JArr [JStr ''a.com'', JStr ''x.com'']) = ?cat'"
    by (simp add: py_setitem_def)
  define s3 where "s3 = s2\<lparr>self_category := Some ?cat'\<rparr>"
  let ?put = "put_category (JStr ''OTHER_ADULT_MATERIAL'') ?cat'"
  have "next_reply ?put s3 = json_reply 200 ''(three categories)'' (JArr three_categories)"
    by (simp add: next_reply_def s3_def s2_def s1_def fresh_connector_def category_gateway_def)
  note h2 = helper_json_ok [OF this]
  show ?thesis
    by (simp add: amend_category_def chk c2 py_get_def nl si py_subscript_def s3_def [symmetric]
        h2 is_fail_def report_summary_def set_status_def)
qed

theorem complementary_delta_witness:
  "amend_blocklist [''a.com'', ''b.com''] ''ADD_TO_LIST'' (fresh_connector blocklist_gateway ''block_url'') =
     Some (Inr APP_SUCCESS, blocked_once) \<and>
   summary_covers [''a.com'', ''b.com''] blocked_once \<and>
   (\<exists>s'. amend_allowlist [''c.com''] ''ADD_TO_LIST'' (fresh_connector allowlist_gateway ''allow_url'') =
          Some (Inr APP_SUCCESS, s') \<and> summary_covers [''c.com''] s') \<and>
   (\<exists>s'. amend_category [''x.com''] ''OTHER_ADULT_MATERIAL'' ''ADD_TO_LIST''
            (fresh_connector category_gateway ''block_url'') = Some (Inr APP_SUCCESS, s') \<and>
          summary_covers [''x.com''] s')"
proof -
  from allow_once obtain sa where
    a: "amend_allowlist [''c.com''] ''ADD_TO_LIST'' (fresh_connector allowlist_gateway ''allow_url'') =
        Some (Inr APP_SUCCESS, sa)" by blast
  from categorize_once obtain sc where
    c: "amend_category [''x.com''] ''OTHER_ADULT_MATERIAL'' ''ADD_TO_LIST''
          (fresh_connector category_gateway ''block_url'') = Some (Inr APP_SUCCESS, sc)" by blast
  from complementary_delta [where R = "[''a.com'', ''b.com'']" and action = "''ADD_TO_LIST''"
      and s = "fresh_connector blocklist_gateway ''block_url''" and s' = blocked_once] block_once
  have 1: "summary_covers [''a.com'', ''b.com''] blocked_once" by blast
  from complementary_delta [where R = "[''c.com'']" and action = "''ADD_TO_LIST''"
      and s = "fresh_connector allowlist_gateway ''allow_url''" and s' = sa] a
  have 2: "summary_covers [''c.com''] sa" by blast
  from complementary_delta [where R = "[''x.com'']" and action = "''ADD_TO_LIST''"
      and ident = "''OTHER_ADULT_MATERIAL''"
      and s = "fresh_connector category_gateway ''block_url''" and s' = sc] c
  have 3: "summary_covers [''x.com''] sc" by blast
  from block_once 1 a 2 c 3 show ?thesis by blast
qed

lemma helper_fail_direct:
  assumes "next_reply a s = Reply r" and "make_rest_call a s = ((APP_ERROR, p), s')"
    and "status_code r \<noteq> 409" and "status_code r \<noteq> 429"
  shows "make_rest_call_helper a s = Some (Inr (APP_ERROR, p), s')"
proof -
  from make_rest_call_Reply_fields(1) [OF assms(1)] assms(2) have "last_response s' = Some r" by simp
  with assms show ?thesis
    by (subst make_rest_call_helper.simps) (simp add: is_fail_def)
qed

lemma process_response_no_content_json:
  "process_response no_content_json s = ((APP_ERROR, None), parse_failure s)"
  by (simp add: process_response_def process_json_response_def no_content_json_def fail_with_eq
      parse_failure_def)

lemma helper_no_content_json:
  assumes "next_reply a s = Reply no_content_json"
  shows "make_rest_call_helper a s =
     Some (Inr (APP_ERROR, None),
           parse_failure (s\<lparr>calls := calls s @ [build_request a s],
                            last_response := Some no_content_json\<rparr>))"
  by (rule helper_fail_direct [OF assms])
     (simp_all add: make_rest_call_Reply [OF assms] process_response_no_content_json,
      simp_all add: no_content_json_def)

lemma amend_blocklist_write_fail:
  assumes "check_blocklist R action s = Some (Inr (APP_SUCCESS, Some W), s1)"
    and "make_rest_call_helper (post_blacklist action W) s1 = Some (Inr (APP_ERROR, resp), s2)"
    and "last_response s2 = Some r"
  shows "amend_blocklist R action s =
     (if status_code r = 204
      then Some (Inr APP_SUCCESS,
             s2\<lparr>ar_summary := [''updated'' \<mapsto> W,
                                 ''ignored'' \<mapsto> remdups (filter (\<lambda>x. x \<notin> set W) R)],
                ar_status := True, ar_message := JStr []\<rparr>)
      else Some (Inr APP_ERROR, s2))"
  by (simp add: amend_blocklist_def assms is_fail_def report_summary_def set_status_def)

lemma amend_allowlist_write_fail:
  assumes "check_allowlist R action s = Some (Inr (APP_SUCCESS, Some W), s1)"
    and "new_list (self_allowlist s1) W action = Inr new"
    and "make_rest_call_helper (put_security new) s1 = Some (Inr (APP_ERROR, resp), s2)"
  shows "amend_allowlist R action s = Some (Inr APP_ERROR, s2)"
  by (simp add: amend_allowlist_def assms is_fail_def)

lemma amend_category_write_fail:
  assumes "check_category R ident action s = Some (Inr (APP_SUCCESS, Some W), s1)"
    and "self_category s1 = Some cat"
    and "py_get cat ''dbCategorizedUrls'' (JArr []) = Inr current"
    and "new_list current W action = Inr new"
    and "py_subscript (py_setitem cat ''dbCategorizedUrls'' (JArr new)) ''id'' = Inr ident_value"
    and "make_rest_call_helper
           (put_category ident_value (py_setitem cat ''dbCategorizedUrls'' (JArr new)))
           (s1\<lparr>self_category := Some (py_setitem cat ''dbCategorizedUrls'' (JArr new))\<rparr>) =
         Some (Inr (APP_ERROR, resp), s2)"
  shows "amend_category R ident action s = Some (Inr APP_ERROR, s2)"
  by (simp add: amend_category_def assms is_fail_def Let_def)

text \<open>
  C5 (as amended).  In the block-list mutation, when the write-back call returns the
  failure status to the mutation and the gateway's response to it has status 204, the
  mutation reports success with the computed summary; with any other status the failure
  is returned.  In the allow-list and category mutations every write-back call that
  returns the failure status is returned to the caller, whatever the status of the
  response.  A write for which \<open>_make_rest_call_helper\<close> hands back the Retry-After value in
  place of the status (claim C4) is no failure to \<open>phantom.is_fail\<close> and is left out, and so
  is, for the block list, a write that gets no response.
\<close>

theorem write_failure_surfaced:
  "(check_blocklist R action s = Some (Inr (APP_SUCCESS, Some W), s1) \<and>
    make_rest_call_helper (post_blacklist action W) s1 = Some (Inr (APP_ERROR, resp), s2) \<and>
    server s2 (calls s2) = Reply r \<and> last_response s2 = Some r \<longrightarrow>
      amend_blocklist R action s =
        (if status_code r = 204
         then Some (Inr APP_SUCCESS,
                s2\<lparr>ar_summary := [''updated'' \<mapsto> W,
                                    ''ignored'' \<mapsto> remdups (filter (\<lambda>x. x \<notin> set W) R)],
                   ar_status := True, ar_message := JStr []\<rparr>)
         else Some (Inr APP_ERROR, s2))) \<and>
   (check_allowlist R action s = Some (Inr (APP_SUCCESS, Some W), s1) \<and>
    new_list (self_allowlist s1) W action = Inr new \<and>
    make_rest_call_helper (put_security new) s1 = Some (Inr (APP_ERROR, resp), s2) \<longrightarrow>
      amend_allowlist R action s = Some (Inr APP_ERROR, s2)) \<and>
   (check_category R ident action s = Some (Inr (APP_SUCCESS, Some W), s1) \<and>
    self_category s1 = Some cat \<and>
    py_get cat ''dbCategorizedUrls'' (JArr []) = Inr current \<and>
    new_list current W action = Inr new \<and>
    py_subscript (py_setitem cat ''dbCategorizedUrls'' (JArr new)) ''id'' = Inr ident_value \<and>
    make_rest_call_helper
      (put_category ident_value (py_setitem cat ''dbCategorizedUrls'' (JArr new)))
      (s1\<lparr>self_category := Some (py_setitem cat ''dbCategorizedUrls'' (JArr new))\<rparr>) =
    Some (Inr (APP_ERROR, resp), s2) \<longrightarrow>
      amend_category R ident action s = Some (Inr APP_ERROR, s2))"
  using amend_blocklist_write_fail [of R action s W s1 resp s2 r]
    amend_allowlist_write_fail [of R action s W s1 new resp s2]
    amend_category_write_fail [of R ident action s W s1 cat current new ident_value resp s2]
  by blast

lemma strict_gateway_get:
  "rq_method (build_request a s) = GET \<Longrightarrow> server s = strict_gateway listing \<Longrightarrow>
   next_reply a s = json_reply 200 ''(listing)'' listing"
  by (simp add: next_reply_def strict_gateway_def)

lemma strict_gateway_write:
  "rq_method (build_request a s) \<noteq> GET \<Longrightarrow> server s = strict_gateway listing \<Longrightarrow>
   next_reply a s = Reply no_content_json"
  by (simp add: next_reply_def strict_gateway_def)

lemma build_request_method: "rq_method (build_request a s) = ra_method a"
  by (simp add: build_request_def)

lemma block_204_steps:
  "\<exists>s1 s2.
     check_blocklist [''a.com''] ''ADD_TO_LIST''
       (fresh_connector (strict_gateway (JObj [(''blacklistUrls'', JArr [])])) ''block_url'') =
       Some (Inr (APP_SUCCESS, Some [''a.com'']), s1) \<and>
     make_rest_call_helper (post_blacklist ''ADD_TO_LIST'' [''a.com'']) s1 =
       Some (Inr (APP_ERROR, None), s2) \<and>
     server s2 (calls s2) = Reply no_content_json \<and> last_response s2 = Some no_content_json"
proof -
  let ?listing = "JObj [(''blacklistUrls'', JArr [])]"
  let ?s = "fresh_connector (strict_gateway ?listing) ''block_url''"
  let ?post = "post_blacklist ''ADD_TO_LIST'' [''a.com'']"
  define s1 where "s1 = ?s\<lparr>calls := calls ?s @ [build_request get_advanced ?s],
      last_response := Some (json_response 200 ''(listing)'' ?listing)\<rparr>"
  define s2 where "s2 = parse_failure (s1\<lparr>calls := calls s1 @ [build_request ?post s1],
      last_response := Some no_content_json\<rparr>)"
  have "next_reply get_advanced ?s = json_reply 200 ''(listing)'' ?listing"
    by (rule strict_gateway_get) (simp_all add: build_request_method get_advanced_def fresh_connector_def)
  then have h1: "make_rest_call_helper get_advanced ?s = Some (Inr (APP_SUCCESS, Some ?listing), s1)"
    unfolding s1_def by (intro helper_json_ok) simp_all
  have f: "filter_endpoints [''a.com''] (JArr []) ''ADD_TO_LIST'' ''Blocklist'' s1 =
           (Inr (APP_SUCCESS, Some [''a.com'']), s1)"
    using filter_endpoints_strs [of "[''a.com'']" "[]" "''ADD_TO_LIST''" "''Blocklist''" s1] by simp
  have chk: "check_blocklist [''a.com''] ''ADD_TO_LIST'' ?s = Some (Inr (APP_SUCCESS, Some [''a.com'']), s1)"
    using f by (simp add: check_blocklist_def get_blocklist_def h1 is_fail_def py_get_def)
  have "next_reply ?post s1 = Reply no_content_json"
    by (rule strict_gateway_write)
       (simp_all add: build_request_method post_blacklist_def s1_def fresh_connector_def)
  then have w: "make_rest_call_helper ?post s1 = Some (Inr (APP_ERROR, None), s2)"
    unfolding s2_def by (rule helper_no_content_json)
  have l: "last_response s2 = Some no_content_json"
    by (simp add: s2_def parse_failure_def)
  have sv: "server s2 (calls s2) = Reply no_content_json"
    by (simp add: s2_def parse_failure_def s1_def fresh_connector_def strict_gateway_def
        build_request_method post_blacklist_def)
  from chk w l sv show ?thesis by blast
qed

lemma allow_204_steps:
  "\<exists>s1 s2.
     check_allowlist [''a.com''] ''ADD_TO_LIST''
       (fresh_connector (strict_gateway (JObj [(''whitelistUrls'', JArr [])])) ''allow_url'') =
       Some (Inr (APP_SUCCESS, Some [''a.com'']), s1) \<and>
     new_list (self_allowlist s1) [''a.com''] ''ADD_TO_LIST'' = Inr [JStr ''a.com''] \<and>
     make_rest_call_helper (put_security [JStr ''a.com'']) s1 = Some (Inr (APP_ERROR, None), s2) \<and>
     server s2 (calls s2) = Reply no_content_json \<and> last_response s2 = Some no_content_json"
proof -
  let ?listing = "JObj [(''whitelistUrls'', JArr [])]"
  let ?s = "fresh_connector (strict_gateway ?listing) ''allow_url''"
  let ?put = "put_security [JStr ''a.com'']"
  define s1 where "s1 = ?s\<lparr>calls := calls ?s @ [build_request get_security ?s],
      last_response := Some (json_response 200 ''(listing)'' ?listing), self_allowlist := JArr []\<rparr>"
  define s2 where "s2 = parse_failure (s1\<lparr>calls := calls s1 @ [build_request ?put s1],
      last_response := Some no_content_json\<rparr>)"
  have "next_reply get_security ?s = json_reply 200 ''(listing)'' ?listing"
    by (rule strict_gateway_get) (simp_all add: build_request_method get_security_def fresh_connector_def)
  note h1 = helper_json_ok [OF this]
  have f: "filter_endpoints [''a.com''] (JArr []) ''ADD_TO_LIST'' ''Allowlist'' s1 =
           (Inr (APP_SUCCESS, Some [''a.com'']), s1)"
    using filter_endpoints_strs [of "[''a.com'']" "[]" "''ADD_TO_LIST''" "''Allowlist''" s1] by simp
  have chk: "check_allowlist [''a.com''] ''ADD_TO_LIST'' ?s = Some (Inr (APP_SUCCESS, Some [''a.com'']), s1)"
    using f by (simp add: check_allowlist_def get_allowlist_def h1 is_fail_def py_get_def s1_def)
  have nl: "new_list (self_allowlist s1) [''a.com''] ''ADD_TO_LIST'' = Inr [JStr ''a.com'']"
    by (simp add: s1_def new_list_def)
  have "next_reply ?put s1 = Reply no_content_json"
    by (rule strict_gateway_write)
       (simp_all add: build_request_method put_security_def s1_def fresh_connector_def)
  then have w: "make_rest_call_helper ?put s1 = Some (Inr (APP_ERROR, None), s2)"
    unfolding s2_def by (rule helper_no_content_json)
  have l: "last_response s2 = Some no_content_json"
    by (simp add: s2_def parse_failure_def)
  have sv: "server s2 (calls s2) = Reply no_content_json"
    by (simp add: s2_def parse_failure_def s1_def fresh_connector_def strict_gateway_def
        build_request_method put_security_def)
  from chk nl w l sv show ?thesis by blast
qed

lemma categorize_204_steps:
  "\<exists>s1 s2.
     check_category [''x.com''] ''OTHER_ADULT_MATERIAL'' ''ADD_TO_LIST''
       (fresh_connector (strict_gateway (JArr three_categories)) ''block_url'') =
       Some (Inr (APP_SUCCESS, Some [''x.com'']), s1) \<and>
     self_category s1 =
       Some (JObj [(''id'', JStr ''OTHER_ADULT_MATERIAL''), (''dbCategorizedUrls'', JArr [JStr ''a.com''])]) \<and>
     make_rest_call_helper
       (put_category (JStr ''OTHER_ADULT_MATERIAL'')
          (JObj [(''id'', JStr ''OTHER_ADULT_MATERIAL''),
                 (''dbCategorizedUrls'', JArr [JStr ''a.com'', JStr ''x.com''])]))
       (s1\<lparr>self_category :=
            Some (JObj [(''id'', JStr ''OTHER_ADULT_MATERIAL''),
                        (''dbCategorizedUrls'', JArr [JStr ''a.com'', JStr ''x.com''])])\<rparr>) =
       Some (Inr (APP_ERROR, None), s2) \<and>
     server s2 (calls s2) = Reply no_content_json \<and> last_response s2 = Some no_content_json"
proof -
  let ?s = "fresh_connector (strict_gateway (JArr three_categories)) ''block_url''"
  let ?cat = "JObj [(''id'', JStr ''OTHER_ADULT_MATERIAL''), (''dbCategorizedUrls'', JArr [JStr ''a.com''])]"
  let ?cat' = "JObj [(''id'', JStr ''OTHER_ADULT_MATERIAL''),
                     (''dbCategorizedUrls'', JArr [JStr ''a.com'', JStr ''x.com''])]"
  let ?put = "put_category (JStr ''OTHER_ADULT_MATERIAL'') ?cat'"
  define s0 where "s0 = ?s\<lparr>calls := calls ?s @ [build_request get_categories ?s],
      last_response := Some (json_response 200 ''(listing)'' (JArr three_categories))\<rparr>"
  define s1 where "s1 = s0\<lparr>self_category := Some ?cat\<rparr>"
  define s1' where "s1' = s1\<lparr>self_category := Some ?cat'\<rparr>"
  define s2 where "s2 = parse_failure (s1'\<lparr>calls := calls s1' @ [build_request ?put s1'],
      last_response := Some no_content_json\<rparr>)"
  have "next_reply get_categories ?s = json_reply 200 ''(listing)'' (JArr three_categories)"
    by (rule strict_gateway_get)
       (simp_all add: build_request_method get_categories_def fresh_connector_def)
  note hc = helper_json_ok [OF this]
  have ids: "\<forall>c \<in> set three_categories. json_field c ''id'' \<noteq> None"
    by (simp add: three_categories_def json_field_def)
  have gc: "get_category ''OTHER_ADULT_MATERIAL'' ?s = Some (Inr (APP_SUCCESS, Some ?cat), s0)"
    using get_category_eq [OF hc ids, of "''OTHER_ADULT_MATERIAL''"]
    by (simp add: three_categories_def json_field_def s0_def)
  have f: "filter_endpoints [''x.com''] (JArr (map JStr [''a.com''])) ''ADD_TO_LIST'' ''Category'' s1 =
           (Inr (APP_SUCCESS, Some [''x.com'']), s1)"
    unfolding filter_endpoints_strs by simp
  have chk: "check_category [''x.com''] ''OTHER_ADULT_MATERIAL'' ''ADD_TO_LIST'' ?s =
             Some (Inr (APP_SUCCESS, Some [''x.com'']), s1)"
    using f by (simp add: check_category_def gc is_fail_def py_get_def s1_def)
  have c1: "self_category s1 = Some ?cat" by (simp add: s1_def)
  have "next_reply ?put s1' = Reply no_content_json"
    by (rule strict_gateway_write)
       (simp_all add: build_request_method put_category_def s1'_def s1_def s0_def fresh_connector_def)
  then have w: "make_rest_call_helper ?put s1' = Some (Inr (APP_ERROR, None), s2)"
    unfolding s2_def by (rule helper_no_content_json)
  have l: "last_response s2 = Some no_content_json"
    by (simp add: s2_def parse_failure_def)
  have sv: "server s2 (calls s2) = Reply no_content_json"
    by (simp add: s2_def parse_failure_def s1'_def s1_def s0_def fresh_connector_def
        strict_gateway_def build_request_method put_category_def)
  from chk c1 w [unfolded s1'_def] l sv show ?thesis by blast
qed

theorem write_failure_surfaced_witness:
  "returned (amend_blocklist [''a.com''] ''ADD_TO_LIST''
     (fresh_connector (strict_gateway (JObj [(''blacklistUrls'', JArr [])])) ''block_url'')) =
     Some (Inr APP_SUCCESS) \<and>
   last_status (amend_blocklist [''a.com''] ''ADD_TO_LIST''
     (fresh_connector (strict_gateway (JObj [(''blacklistUrls'', JArr [])])) ''block_url'')) = Some 204 \<and>
   returned (amend_allowlist [''a.com''] ''ADD_TO_LIST''
     (fresh_connector (strict_gateway (JObj [(''whitelistUrls'', JArr [])])) ''allow_url'')) =
     Some (Inr APP_ERROR) \<and>
   returned (amend_category [''x.com''] ''OTHER_ADULT_MATERIAL'' ''ADD_TO_LIST''
     (fresh_connector (strict_gateway (JArr three_categories)) ''block_url'')) = Some (Inr APP_ERROR)"
proof -
  let ?cat = "JObj [(''id'', JStr ''OTHER_ADULT_MATERIAL''), (''dbCategorizedUrls'', JArr [JStr ''a.com''])]"
  from block_204_steps obtain b1 b2 where b:
    "check_blocklist [''a.com''] ''ADD_TO_LIST''
       (fresh_connector (strict_gateway (JObj [(''blacklistUrls'', JArr [])])) ''block_url'') =
       Some (Inr (APP_SUCCESS, Some [''a.com'']), b1)"
    "make_rest_call_helper (post_blacklist ''ADD_TO_LIST'' [''a.com'']) b1 =
       Some (Inr (APP_ERROR, None), b2)"
    "server b2 (calls b2) = Reply no_content_json" "last_response b2 = Some no_content_json"
    by blast
  have st: "status_code no_content_json = 204" by (simp add: no_content_json_def)
  from write_failure_surfaced [where R = "[''a.com'']" and action = "''ADD_TO_LIST''"
      and W = "[''a.com'']" and ?s1.0 = b1 and ?s2.0 = b2 and r = no_content_json and resp = None
      and s = "fresh_connector (strict_gateway (JObj [(''blacklistUrls'', JArr [])])) ''block_url''"] b st
  have 1: "amend_blocklist [''a.com''] ''ADD_TO_LIST''
       (fresh_connector (strict_gateway (JObj [(''blacklistUrls'', JArr [])])) ''block_url'') =
     Some (Inr APP_SUCCESS,
       b2\<lparr>ar_summary := [''updated'' \<mapsto> [''a.com''], ''ignored'' \<mapsto> []],
          ar_status := True, ar_message := JStr []\<rparr>)"
    by simp
  from allow_204_steps obtain a1 a2 where a:
    "check_allowlist [''a.com''] ''ADD_TO_LIST''
       (fresh_connector (strict_gateway (JObj [(''whitelistUrls'', JArr [])])) ''allow_url'') =
       Some (Inr (APP_SUCCESS, Some [''a.com'']), a1)"
    "new_list (self_allowlist a1) [''a.com''] ''ADD_TO_LIST'' = Inr [JStr ''a.com'']"
    "make_rest_call_helper (put_security [JStr ''a.com'']) a1 = Some (Inr (APP_ERROR, None), a2)"
    by blast
  from write_failure_surfaced [where R = "[''a.com'']" and action = "''ADD_TO_LIST''"
      and W = "[''a.com'']" and ?s1.0 = a1 and ?s2.0 = a2 and resp = None and new = "[JStr ''a.com'']"
      and s = "fresh_connector (strict_gateway (JObj [(''whitelistUrls'', JArr [])])) ''allow_url''"] a
  have 2: "amend_allowlist [''a.com''] ''ADD_TO_LIST''
       (fresh_connector (strict_gateway (JObj [(''whitelistUrls'', JArr [])])) ''allow_url'') =
     Some (Inr APP_ERROR, a2)"
    by simp
  from categorize_204_steps obtain c1 c2 where c:
    "check_category [''x.com''] ''OTHER_ADULT_MATERIAL'' ''ADD_TO_LIST''
       (fresh_connector (strict_gateway (JArr three_categories)) ''block_url'') =
       Some (Inr (APP_SUCCESS, Some [''x.com'']), c1)"
    "self_category c1 = Some ?cat"
    "make_rest_call_helper
       (put_category (JStr ''OTHER_ADULT_MATERIAL'')
          (JObj [(''id'', JStr ''OTHER_ADULT_MATERIAL''),
                 (''dbCategorizedUrls'', JArr [JStr ''a.com'', JStr ''x.com''])]))
       (c1\<lparr>self_category :=
            Some (JObj [(''id'', JStr ''OTHER_ADULT_MATERIAL''),
                        (''dbCategorizedUrls'', JArr [JStr ''a.com'', JStr ''x.com''])])\<rparr>) =
       Some (Inr (APP_ERROR, None), c2)"
    by blast
  have pg: "py_get ?cat ''dbCategorizedUrls'' (JArr []) = Inr (JArr [JStr ''a.com''])"
    by (simp add: py_get_def)
  have nl: "new_list (JArr [JStr ''a.com'']) [''x.com''] ''ADD_TO_LIST'' = Inr [JStr ''a.com'', JStr ''x.com'']"
    by (simp add: new_list_def)
  have si: "py_setitem ?cat ''dbCategorizedUrls'' (JArr [JStr ''a.com'', JStr ''x.com'']) =
            JObj [(''id'', JStr ''OTHER_ADULT_MATERIAL''),
                  (''dbCategorizedUrls'', JArr [JStr ''a.com'', JStr ''x.com''])]"
    by (simp add: py_setitem_def)
  have ps: "py_subscript (JObj [(''id'', JStr ''OTHER_ADULT_MATERIAL''),
                  (''dbCategorizedUrls'', JArr [JStr ''a.com'', JStr ''x.com''])]) ''id'' =
            Inr (JStr ''OTHER_ADULT_MATERIAL'')"
    by (simp add: py_subscript_def)
  from write_failure_surfaced [where R = "[''x.com'']" and action = "''ADD_TO_LIST''"
      and ident = "''OTHER_ADULT_MATERIAL''" and W = "[''x.com'']" and ?s1.0 = c1 and ?s2.0 = c2
      and resp = None and cat = ?cat and current = "JArr [JStr ''a.com'']"
      and new = "[JStr ''a.com'', JStr ''x.com'']" and ident_value = "JStr ''OTHER_ADULT_MATERIAL''"
      and s = "fresh_connector (strict_gateway (JArr three_categories)) ''block_url''"] c pg nl si ps
  have 3: "amend_category [''x.com''] ''OTHER_ADULT_MATERIAL'' ''ADD_TO_LIST''
       (fresh_connector (strict_gateway (JArr three_categories)) ''block_url'') =
     Some (Inr APP_ERROR, c2)"
    by simp
  from 1 2 3 b(4) st show ?thesis by (simp add: returned_def last_status_def)
qed

text \<open>
  C5 as stated covers the allow list: there a write answered 204 with a JSON Content-Type
  and an empty body is classified as a failure, and the mutation returns that failure.
\<close>

theorem write_failure_surfaced_counterexample:
  "returned (amend_allowlist [''a.com''] ''ADD_TO_LIST''
     (fresh_connector (strict_gateway (JObj [(''whitelistUrls'', JArr [])])) ''allow_url'')) =
     Some (Inr APP_ERROR) \<and>
   last_status (amend_allowlist [''a.com''] ''ADD_TO_LIST''
     (fresh_connector (strict_gateway (JObj [(''whitelistUrls'', JArr [])])) ''allow_url'')) = Some 204"
proof -
  from allow_204_steps obtain a1 a2 where a:
    "check_allowlist [''a.com''] ''ADD_TO_LIST''
       (fresh_connector (strict_gateway (JObj [(''whitelistUrls'', JArr [])])) ''allow_url'') =
       Some (Inr (APP_SUCCESS, Some [''a.com'']), a1)"
    "new_list (self_allowlist a1) [''a.com''] ''ADD_TO_LIST'' = Inr [JStr ''a.com'']"
    "make_rest_call_helper (put_security [JStr ''a.com'']) a1 = Some (Inr (APP_ERROR, None), a2)"
    "last_response a2 = Some no_content_json"
    by blast
  from amend_allowlist_write_fail [OF a(1,2,3)] a(4) show ?thesis
    by (simp add: returned_def last_status_def no_content_json_def)
qed

section \<open>The endpoint list of an action\<close>

lemma truncate_from_eq:
  "truncate_from es i = take i es @ map strip_scheme (drop i es)"
proof (induction "length es - i" arbitrary: es i)
  case 0
  then show ?case by (subst truncate_from.simps) simp
next
  case (Suc k)
  then have i: "i < length es" by simp
  define es' where "es' = es[i := strip_scheme (es ! i)]"
  have step: "(if startswith (es ! i) ''http://''
               then es[i := drop (length ''http://'') (es ! i)]
               else if startswith (es ! i) ''https://''
               then es[i := drop (length ''https://'') (es ! i)]
               else es) = es'"
    by (simp add: es'_def strip_scheme_def)
  from Suc(2) have "k = length es' - (i + 1)" by (simp add: es'_def)
  from Suc(1) [OF this]
  have ih: "truncate_from es' (i + 1) = take (i + 1) es' @ map strip_scheme (drop (i + 1) es')" .
  from i have t: "take (i + 1) es' = take i es @ [strip_scheme (es ! i)]"
    by (simp add: es'_def take_Suc_conv_app_nth)
  have d: "drop (i + 1) es' = drop (Suc i) es" by (simp add: es'_def)
  from i have "truncate_from es i = truncate_from es' (i + 1)"
    by (subst truncate_from.simps) (simp only: step if_True)
  with ih t d Cons_nth_drop_Suc [OF i, symmetric] show ?case by simp
qed

lemma truncate_protocol_eq: "truncate_protocol es = map strip_scheme es"
  by (simp add: truncate_protocol_def truncate_from_eq)

lemma normalize_eq: "truncate_protocol (split_endpoints raw) = spec_normalize raw"
  by (simp add: truncate_protocol_eq split_endpoints_def spec_normalize_def)

lemma check_for_overlength_eq:
  "check_for_overlength es s =
     (if overlong es
      then (APP_ERROR,
            s\<lparr>ar_status := False,
              ar_message := JStr ''Please provide valid comma-separated values in the action parameter. Max allowed length for each value is 1024.''\<rparr>)
      else (APP_SUCCESS, s))"
  by (induction es) (simp_all add: overlong_def set_status_def)

lemma new_action_result_id [simp]: "action_id (new_action_result s) = action_id s"
  by (simp add: new_action_result_def)

lemma block_url_eq:
  assumes "action_id s = ''block_url''" and "param ''url'' = Some raw"
  shows "handle_block_url param s =
     (if overlong (spec_normalize raw) then rejected s else block_list (spec_normalize raw) param s)"
  using assms
  by (simp add: handle_block_url_def with_param_def block_endpoint_def normalize_eq Let_def
      check_for_overlength_eq is_fail_def rejected_def block_list_def)

lemma unblock_url_eq:
  assumes "action_id s = ''unblock_url''" and "param ''url'' = Some raw"
  shows "handle_unblock_url param s =
     (if overlong (spec_normalize raw) then rejected s else unblock_list (spec_normalize raw) param s)"
  using assms
  by (simp add: handle_unblock_url_def with_param_def unblock_endpoint_def normalize_eq Let_def
      check_for_overlength_eq is_fail_def rejected_def unblock_list_def)

lemma allow_url_eq:
  assumes "action_id s = ''allow_url''" and "param ''url'' = Some raw"
  shows "handle_allow_url param s =
     (if overlong (spec_normalize raw) then rejected s else allow_list (spec_normalize raw) param s)"
  using assms
  by (simp add: handle_allow_url_def with_param_def allowlist_endpoint_def normalize_eq Let_def
      check_for_overlength_eq is_fail_def rejected_def allow_list_def)

lemma unallow_url_eq:
  assumes "action_id s = ''unallow_url''" and "param ''url'' = Some raw"
  shows "handle_unallow_url param s =
     (if overlong (spec_normalize raw) then rejected s else unallow_list (spec_normalize raw) param s)"
  using assms
  by (simp add: handle_unallow_url_def with_param_def unallow_endpoint_def normalize_eq Let_def
      check_for_overlength_eq is_fail_def rejected_def unallow_list_def)

lemma lookup_url_eq:
  assumes "param ''url'' = Some raw"
  shows "handle_lookup_url param s =
     (if overlong (spec_normalize raw) then rejected s else lookup_list (spec_normalize raw) s)"
  using assms
  by (simp add: handle_lookup_url_def with_param_def normalize_eq Let_def
      check_for_overlength_eq is_fail_def rejected_def lookup_list_def)

lemma block_ip_eq:
  assumes "action_id s = ''block_ip''" and "param ''ip'' = Some raw"
  shows "handle_block_ip param s = block_list (spec_normalize raw) param s"
  using assms
  by (simp add: handle_block_ip_def with_param_def block_endpoint_def normalize_eq Let_def
      check_for_overlength_eq is_fail_def block_list_def)

lemma unblock_ip_eq:
  assumes "action_id s = ''unblock_ip''" and "param ''ip'' = Some raw"
  shows "handle_unblock_ip param s = unblock_list (spec_normalize raw) param s"
  using assms
  by (simp add: handle_unblock_ip_def with_param_def unblock_endpoint_def normalize_eq Let_def
      check_for_overlength_eq is_fail_def unblock_list_def)

lemma allow_ip_eq:
  assumes "action_id s = ''allow_ip''" and "param ''ip'' = Some raw"
  shows "handle_allow_ip param s = allow_list (spec_normalize raw) param s"
  using assms
  by (simp add: handle_allow_ip_def with_param_def allowlist_endpoint_def normalize_eq Let_def
      check_for_overlength_eq is_fail_def allow_list_def)

lemma unallow_ip_eq:
  assumes "action_id s = ''unallow_ip''" and "param ''ip'' = Some raw"
  shows "handle_unallow_ip param s = unallow_list (spec_normalize raw) param s"
  using assms
  by (simp add: handle_unallow_ip_def with_param_def unallow_endpoint_def normalize_eq Let_def
      check_for_overlength_eq is_fail_def unallow_list_def)

lemma lookup_ip_eq:
  assumes "param ''ip'' = Some raw"
  shows "handle_lookup_ip param s = lookup_list (split_endpoints raw) s"
  using assms
  by (simp add: handle_lookup_ip_def with_param_def lookup_list_def)

lemma rejected_sends_nothing: "requests_sent (rejected s) = Some (sent_by s)"
  by (simp add: requests_sent_def sent_by_def rejected_def new_action_result_def)

text \<open>A lookup on the gateway with nothing to report: two requests, then success.\<close>

lemma mark_endpoints_nothing:
  "mark_endpoints es (Some (JObj [(''blacklistUrls'', JArr [])])) (Some (JArr [])) = Inr (Some (JArr []))"
  by (induction es) (simp_all add: py_get_def py_contains_def mark_response_def)

lemma lookup_on_gateway:
  assumes srv: "server s = lookup_gateway"
  shows "lookup_endpoint es s = Some (Inr APP_SUCCESS, looked_up es s)"
proof -
  define s0 where "s0 = (if es = []
      then snd (set_status False (JStr ''Please provide valid list of URL(s)'') s) else s)"
  define s1 where "s1 = s0\<lparr>calls := calls s0 @ [build_request (post_lookup es) s0],
      last_response := Some (json_response 200 ''[]'' (JArr []))\<rparr>"
  define s2 where "s2 = s1\<lparr>calls := calls s1 @ [build_request (get_advanced_for es) s1],
      last_response := Some (blocklist_response [])\<rparr>"
  have srv0: "server s0 = lookup_gateway" by (simp add: s0_def srv set_status_def)
  have "next_reply (post_lookup es) s0 = json_reply 200 ''[]'' (JArr [])"
    by (simp add: next_reply_def srv0 lookup_gateway_def build_request_def post_lookup_def)
  then have p: "make_rest_call_helper (post_lookup es) s0 = Some (Inr (APP_SUCCESS, Some (JArr [])), s1)"
    unfolding s1_def by (intro helper_json_ok) simp_all
  have "next_reply (get_advanced_for es) s1 = Reply (blocklist_response [])"
    by (simp add: next_reply_def s1_def srv0 lookup_gateway_def build_request_def get_advanced_for_def)
  from helper_blocklist_response [OF this]
  have g: "make_rest_call_helper (get_advanced_for es) s1 =
      Some (Inr (APP_SUCCESS, Some (JObj [(''blacklistUrls'', JArr [])])), s2)"
    by (simp add: s2_def)
  have u: "update_data (Some (JArr [])) s2 = Inr s2"
    by (simp add: update_data_def py_iter_def)
  have e: "snd (set_status True (JStr ''Successfully completed lookup'') s2) = looked_up es s"
    by (simp add: set_status_def looked_up_def s2_def s1_def s0_def build_request_def)
  have r: "fst (set_status True (JStr ''Successfully completed lookup'') s2) = APP_SUCCESS"
    by (simp add: set_status_def)
  have "lookup_endpoint es s =
      Some (Inr (fst (set_status True (JStr ''Successfully completed lookup'') s2)),
            snd (set_status True (JStr ''Successfully completed lookup'') s2))"
    unfolding lookup_endpoint_def s0_def [symmetric]
    by (simp add: p g u mark_endpoints_nothing is_fail_def split: prod.split)
  then show ?thesis by (simp only: e r)
qed

lemma looked_up_sent:
  "sent_by (looked_up es (new_action_result (fresh_connector srv ident))) =
     [(POST, ''https://admin.zscaler.net/api/v1/urlLookup'', Some (JArr (map JStr es))),
      (GET, ''https://admin.zscaler.net/api/v1/security/advanced'', Some (JArr (map JStr es)))]"
  by (simp add: sent_by_def looked_up_def new_action_result_def fresh_connector_def
      build_request_def post_lookup_def get_advanced_for_def)

lemma lookup_list_on_gateway:
  "lookup_list es (fresh_connector lookup_gateway ident) =
     Some (Inr APP_SUCCESS, looked_up es (new_action_result (fresh_connector lookup_gateway ident)))"
  unfolding lookup_list_def
  by (rule lookup_on_gateway) (simp add: new_action_result_def fresh_connector_def)

lemma lookup_list_sent:
  "requests_sent (lookup_list es (fresh_connector lookup_gateway ident)) =
     Some [(POST, ''https://admin.zscaler.net/api/v1/urlLookup'', Some (JArr (map JStr es))),
           (GET, ''https://admin.zscaler.net/api/v1/security/advanced'', Some (JArr (map JStr es)))]"
  by (simp add: lookup_list_on_gateway requests_sent_def looked_up_sent)

text \<open>The normalizer on the inputs of the scenarios.\<close>

lemma split_on_no_sep: "sep \<notin> set t \<Longrightarrow> py_split_on sep t = [t]"
  by (simp add: py_split_on_def split_sep_no_sep)

lemmas normalize_eval = spec_normalize_def split_endpoints_def py_split_on_def py_strip_def
  is_space_def strip_scheme_def startswith_def

lemma normalize_long: "spec_normalize (''http://'' @ long_entry) = [long_entry]"
proof -
  have a: "set (''http://'' @ long_entry) = set ''http://a''" by (auto simp: long_entry_def)
  have "py_split_on (CHR '','') (''http://'' @ long_entry) = [''http://'' @ long_entry]"
    by (rule split_on_no_sep) (simp only: a, simp)
  moreover have "py_strip (''http://'' @ long_entry) = ''http://'' @ long_entry"
    by (rule py_strip_no_space) (simp only: a, simp add: is_space_def)
  ultimately show ?thesis by (simp add: spec_normalize_def strip_scheme_def startswith_def)
qed

lemma overlong_long: "overlong [long_entry]"
  by (simp add: overlong_def long_entry_def)

lemma normalize_two: "spec_normalize '' http://a.com, ,https://b.com'' = [''a.com'', ''b.com'']"
  by (simp add: normalize_eval)

lemma normalize_ip: "spec_normalize ''http://1.2.3.4'' = [''1.2.3.4'']"
  by (simp add: normalize_eval)

lemma split_ip: "split_endpoints ''http://1.2.3.4'' = [''http://1.2.3.4'']"
  by (simp add: normalize_eval)

lemma normalize_commas: "spec_normalize '' , '' = []"
  by (simp add: normalize_eval)

lemma not_overlong_short: "\<not> overlong [''a.com'', ''b.com'']" "\<not> overlong []"
  by (simp_all add: overlong_def)

lemma split_commas: "split_endpoints '' , '' = []"
  by (simp add: normalize_eval)

lemma split_two_ips: "split_endpoints '' 1.2.3.4 ,, 5.6.7.8'' = [''1.2.3.4'', ''5.6.7.8'']"
  by (simp add: normalize_eval)

text \<open>
  Claim C7, with the lookup of IPs set apart.  Under each of the block, unblock, allow and
  unallow actions, for IPs and for URLs, and under the lookup of URLs, the endpoint list the
  action works on is the raw string split on commas, each entry trimmed, the empty entries
  dropped and one leading \<open>http://\<close> or \<open>https://\<close> stripped.  Under the five URL actions an
  entry of more than 1024 characters makes the action fail with no request sent; the IP
  actions run no such check.  The lookup of IPs works on the list split, trimmed and
  without its empty entries, and strips no prefix.
\<close>

theorem endpoint_list_used:
  "(action_id s = ''block_url'' \<and> param ''url'' = Some raw \<longrightarrow>
      handle_block_url param s =
        (if overlong (spec_normalize raw) then rejected s
         else block_list (spec_normalize raw) param s)) \<and>
   (action_id s = ''unblock_url'' \<and> param ''url'' = Some raw \<longrightarrow>
      handle_unblock_url param s =
        (if overlong (spec_normalize raw) then rejected s
         else unblock_list (spec_normalize raw) param s)) \<and>
   (action_id s = ''allow_url'' \<and> param ''url'' = Some raw \<longrightarrow>
      handle_allow_url param s =
        (if overlong (spec_normalize raw) then rejected s
         else allow_list (spec_normalize raw) param s)) \<and>
   (action_id s = ''unallow_url'' \<and> param ''url'' = Some raw \<longrightarrow>
      handle_unallow_url param s =
        (if overlong (spec_normalize raw) then rejected s
         else unallow_list (spec_normalize raw) param s)) \<and>
   (param ''url'' = Some raw \<longrightarrow>
      handle_lookup_url param s =
        (if overlong (spec_normalize raw) then rejected s
         else lookup_list (spec_normalize raw) s)) \<and>
   (action_id s = ''block_ip'' \<and> param ''ip'' = Some raw \<longrightarrow>
      handle_block_ip param s = block_list (spec_normalize raw) param s) \<and>
   (action_id s = ''unblock_ip'' \<and> param ''ip'' = Some raw \<longrightarrow>
      handle_unblock_ip param s = unblock_list (spec_normalize raw) param s) \<and>
   (action_id s = ''allow_ip'' \<and> param ''ip'' = Some raw \<longrightarrow>
      handle_allow_ip param s = allow_list (spec_normalize raw) param s) \<and>
   (action_id s = ''unallow_ip'' \<and> param ''ip'' = Some raw \<longrightarrow>
      handle_unallow_ip param s = unallow_list (spec_normalize raw) param s) \<and>
   (param ''ip'' = Some raw \<longrightarrow>
      handle_lookup_ip param s = lookup_list (split_endpoints raw) s) \<and>
   requests_sent (rejected s) = Some (sent_by s)"
  using block_url_eq [of s param raw] unblock_url_eq [of s param raw]
    allow_url_eq [of s param raw] unallow_url_eq [of s param raw] lookup_url_eq [of param raw s]
    block_ip_eq [of s param raw] unblock_ip_eq [of s param raw]
    allow_ip_eq [of s param raw] unallow_ip_eq [of s param raw] lookup_ip_eq [of param raw s]
    rejected_sends_nothing [of s]
  by blast

theorem endpoint_list_used_witness:
  "action_id (fresh_connector lookup_gateway ''block_url'') = ''block_url'' \<and>
   url_param (''http://'' @ long_entry) ''url'' = Some (''http://'' @ long_entry) \<and>
   overlong (spec_normalize (''http://'' @ long_entry)) \<and>
   handle_block_url (url_param (''http://'' @ long_entry)) (fresh_connector lookup_gateway ''block_url'') =
     rejected (fresh_connector lookup_gateway ''block_url'') \<and>
   requests_sent (rejected (fresh_connector lookup_gateway ''block_url'')) = Some [] \<and>
   url_param '' http://a.com, ,https://b.com'' ''url'' = Some '' http://a.com, ,https://b.com'' \<and>
   handle_lookup_url (url_param '' http://a.com, ,https://b.com'') (fresh_connector lookup_gateway ''lookup_url'') =
     lookup_list [''a.com'', ''b.com''] (fresh_connector lookup_gateway ''lookup_url'') \<and>
   ip_param '' 1.2.3.4 ,, 5.6.7.8'' ''ip'' = Some '' 1.2.3.4 ,, 5.6.7.8'' \<and>
   handle_lookup_ip (ip_param '' 1.2.3.4 ,, 5.6.7.8'') (fresh_connector lookup_gateway ''lookup_ip'') =
     lookup_list [''1.2.3.4'', ''5.6.7.8''] (fresh_connector lookup_gateway ''lookup_ip'')"
proof -
  have idA: "action_id (fresh_connector lookup_gateway ''block_url'') = ''block_url''"
    by (simp add: fresh_connector_def)
  have pA: "url_param (''http://'' @ long_entry) ''url'' = Some (''http://'' @ long_entry)"
    by (simp add: url_param_def)
  have oA: "overlong (spec_normalize (''http://'' @ long_entry))"
    by (simp only: normalize_long overlong_long)
  note A = endpoint_list_used [where s = "fresh_connector lookup_gateway ''block_url''"
      and param = "url_param (''http://'' @ long_entry)" and raw = "''http://'' @ long_entry"]
  from A idA pA oA
  have rA: "handle_block_url (url_param (''http://'' @ long_entry)) (fresh_connector lookup_gateway ''block_url'') =
     rejected (fresh_connector lookup_gateway ''block_url'')"
    by simp
  from A have nA: "requests_sent (rejected (fresh_connector lookup_gateway ''block_url'')) = Some []"
    by (simp add: sent_by_def fresh_connector_def)
  have pB: "url_param '' http://a.com, ,https://b.com'' ''url'' = Some '' http://a.com, ,https://b.com''"
    by (simp add: url_param_def)
  note B = endpoint_list_used [where s = "fresh_connector lookup_gateway ''lookup_url''"
      and param = "url_param '' http://a.com, ,https://b.com''" and raw = "'' http://a.com, ,https://b.com''"]
  from B pB
  have rB: "handle_lookup_url (url_param '' http://a.com, ,https://b.com'') (fresh_connector lookup_gateway ''lookup_url'') =
     lookup_list [''a.com'', ''b.com''] (fresh_connector lookup_gateway ''lookup_url'')"
    by (simp add: normalize_two not_overlong_short)
  have pC: "ip_param '' 1.2.3.4 ,, 5.6.7.8'' ''ip'' = Some '' 1.2.3.4 ,, 5.6.7.8''"
    by (simp add: ip_param_def)
  note C = endpoint_list_used [where s = "fresh_connector lookup_gateway ''lookup_ip''"
      and param = "ip_param '' 1.2.3.4 ,, 5.6.7.8''" and raw = "'' 1.2.3.4 ,, 5.6.7.8''"]
  from C pC
  have rC: "handle_lookup_ip (ip_param '' 1.2.3.4 ,, 5.6.7.8'') (fresh_connector lookup_gateway ''lookup_ip'') =
     lookup_list [''1.2.3.4'', ''5.6.7.8''] (fresh_connector lookup_gateway ''lookup_ip'')"
    by (simp add: split_two_ips)
  from idA pA oA rA nA pB rB pC rC show ?thesis by blast
qed

text \<open>The lookup of IPs on \<open>http://1.2.3.4\<close>: both requests carry the entry with its prefix,
  where the normalizer gives \<open>1.2.3.4\<close>.\<close>

theorem lookup_ip_keeps_scheme_counterexample:
  "requests_sent (handle_lookup_ip (ip_param ''http://1.2.3.4'') (fresh_connector lookup_gateway ''lookup_ip'')) =
     Some [(POST, ''https://admin.zscaler.net/api/v1/urlLookup'', Some (JArr [JStr ''http://1.2.3.4''])),
           (GET, ''https://admin.zscaler.net/api/v1/security/advanced'', Some (JArr [JStr ''http://1.2.3.4'']))] \<and>
   spec_normalize ''http://1.2.3.4'' = [''1.2.3.4'']"
proof -
  have "ip_param ''http://1.2.3.4'' ''ip'' = Some ''http://1.2.3.4''" by (simp add: ip_param_def)
  from lookup_ip_eq [of "ip_param ''http://1.2.3.4''" "''http://1.2.3.4''", OF this]
  have "handle_lookup_ip (ip_param ''http://1.2.3.4'') (fresh_connector lookup_gateway ''lookup_ip'') =
      lookup_list [''http://1.2.3.4''] (fresh_connector lookup_gateway ''lookup_ip'')"
    by (simp only: split_ip)
  then show ?thesis by (simp add: lookup_list_sent normalize_ip)
qed

text \<open>
  Claim C9 fails on the code.  The lookup of IPs with the parameter \<open>" , "\<close> has an empty
  endpoint list.  \<open>_lookup_endpoint\<close> sets the failure status and does not return: on a
  gateway that answers, it sends the POST to \<open>/api/v1/urlLookup\<close> and the GET to
  \<open>/api/v1/security/advanced\<close>, both with an empty list, and the action ends in success.
\<close>

theorem lookup_empty_list_sends_requests:
  "split_endpoints '' , '' = [] \<and>
   returned (handle_lookup_ip (ip_param '' , '') (fresh_connector lookup_gateway ''lookup_ip'')) =
     Some (Inr APP_SUCCESS) \<and>
   requests_sent (handle_lookup_ip (ip_param '' , '') (fresh_connector lookup_gateway ''lookup_ip'')) =
     Some [(POST, ''https://admin.zscaler.net/api/v1/urlLookup'', Some (JArr [])),
           (GET, ''https://admin.zscaler.net/api/v1/security/advanced'', Some (JArr []))] \<and>
   final_message (handle_lookup_ip (ip_param '' , '') (fresh_connector lookup_gateway ''lookup_ip'')) =
     Some (JStr ''Successfully completed lookup'')"
proof -
  have "ip_param '' , '' ''ip'' = Some '' , ''" by (simp add: ip_param_def)
  from lookup_ip_eq [of "ip_param '' , ''" "'' , ''", OF this]
  have h: "handle_lookup_ip (ip_param '' , '') (fresh_connector lookup_gateway ''lookup_ip'') =
      lookup_list [] (fresh_connector lookup_gateway ''lookup_ip'')"
    by (simp only: split_commas)
  have r: "returned (lookup_list [] (fresh_connector lookup_gateway ''lookup_ip'')) = Some (Inr APP_SUCCESS)"
    by (simp add: lookup_list_on_gateway returned_def)
  have q: "requests_sent (lookup_list [] (fresh_connector lookup_gateway ''lookup_ip'')) =
     Some [(POST, ''https://admin.zscaler.net/api/v1/urlLookup'', Some (JArr [])),
           (GET, ''https://admin.zscaler.net/api/v1/security/advanced'', Some (JArr []))]"
    using lookup_list_sent [of "[]" "''lookup_ip''"] by simp
  have m: "final_message (lookup_list [] (fresh_connector lookup_gateway ''lookup_ip'')) =
     Some (JStr ''Successfully completed lookup'')"
    by (simp add: lookup_list_on_gateway final_message_def looked_up_def)
  from split_commas r q m show ?thesis by (simp only: h simp_thms)
qed

end
